theory Spec2Isabelle
  imports Main "HOL-Library.Sublist"
begin

section \<open>JavaScript values that the resilience layer handles\<close>

text \<open>
  The resilience layer (\<^verbatim>\<open>plivo-resilient.ts\<close>, \<^verbatim>\<open>deepgram-resilient.ts\<close>) wraps
  asynchronous operations of the manager layer. An awaited promise either resolves with a
  value or rejects with an arbitrary JavaScript value. A rejection value is either an
  \<^verbatim>\<open>Error\<close> instance (with its \<^verbatim>\<open>name\<close> and \<^verbatim>\<open>message\<close>) or some other value, of
  which the code only ever uses \<^verbatim>\<open>String(value)\<close>.
\<close>

datatype jsError = JsError (name: string) (message: string)

datatype thrown = ThrownError jsError | ThrownValue string

type_synonym 'a settled = "thrown + 'a"

text \<open>\<^verbatim>\<open>error instanceof Error ? error : new Error(String(error))\<close>\<close>

fun toError :: "thrown \<Rightarrow> jsError" where
  "toError (ThrownError e) = e"
| "toError (ThrownValue s) = JsError ''Error'' s"

text \<open>
  An operation is an asynchronous function without arguments. Its effects on the outside
  world (the remote API, the manager's own state) are made explicit: it takes the world
  and returns how the promise settled together with the new world.
\<close>

type_synonym ('w, 'a) operation = "'w \<Rightarrow> 'a settled \<times> 'w"

text \<open>
  What the retry engine does besides calling the operation: lines written with
  \<^verbatim>\<open>console.warn\<close> and \<^verbatim>\<open>console.error\<close> (the text and the extra argument), and the
  timers it waits for (\<^verbatim>\<open>this.sleep(delay)\<close>, in milliseconds).
\<close>

datatype event = ConsoleWarn string string | ConsoleError string string | Sleep nat

text \<open>The delays of the timers in a list of events, in order.\<close>

fun sleeps :: "event list \<Rightarrow> nat list" where
  "sleeps [] = []"
| "sleeps (Sleep d # es) = d # sleeps es"
| "sleeps (ConsoleWarn a b # es) = sleeps es"
| "sleeps (ConsoleError a b # es) = sleeps es"

subsection \<open>Numbers in template strings\<close>

definition digit :: "nat \<Rightarrow> char" where
  "digit d = ''0123456789'' ! d"

fun showNat :: "nat \<Rightarrow> string" where
  "showNat n = (if n < 10 then [digit n] else showNat (n div 10) @ [digit (n mod 10)])"

declare showNat.simps [simp del]

section \<open>Configuration\<close>

text \<open>
  The resilience settings of \<^verbatim>\<open>PlivoResilientConfig\<close> and \<^verbatim>\<open>DeepgramResilientConfig\<close>.
  Counts and millisecond delays are natural numbers. The manager settings (credentials,
  default numbers) are passed on to the manager layer and never read here. The record is
  used at two types of its fields: for the object that the caller gives to the
  constructor, where a property can be absent, present with the value \<^verbatim>\<open>undefined\<close>, or
  present with a number; and for \<^verbatim>\<open>this.config\<close> as the constructor leaves it, where
  \<open>None\<close> is \<^verbatim>\<open>undefined\<close>.
\<close>

datatype setting = Absent | Undefined | Value nat

record 'v resilientSettings =
  circuitBreakerTimeout :: 'v
  circuitBreakerErrorThresholdPercentage :: 'v
  circuitBreakerResetTimeout :: 'v
  circuitBreakerRollingCountTimeout :: 'v
  circuitBreakerRollingCountBuckets :: 'v
  maxRetries :: 'v
  retryDelay :: 'v
  retryMultiplier :: 'v
  maxRetryDelay :: 'v

type_synonym resilientConfig = "nat option resilientSettings"

type_synonym constructorConfig = "setting resilientSettings"

text \<open>
  The two classes differ in the tag of their log lines and in their defaults
  (\<^verbatim>\<open>PlivoResilient\<close>: 30000 ms breaker timeout, 1000 ms first delay, 10000 ms cap;
  \<^verbatim>\<open>DeepgramResilient\<close>: 60000, 2000, 20000).
\<close>

record flavour =
  tag :: string
  defaultCircuitBreakerTimeout :: nat
  defaultRetryDelay :: nat
  defaultMaxRetryDelay :: nat

definition plivoFlavour :: flavour where
  "plivoFlavour = \<lparr>tag = ''[PlivoResilient]'', defaultCircuitBreakerTimeout = 30000,
     defaultRetryDelay = 1000, defaultMaxRetryDelay = 10000\<rparr>"

definition deepgramFlavour :: flavour where
  "deepgramFlavour = \<lparr>tag = ''[DeepgramResilient]'', defaultCircuitBreakerTimeout = 60000,
     defaultRetryDelay = 2000, defaultMaxRetryDelay = 20000\<rparr>"

text \<open>
  The object spread \<^verbatim>\<open>{ defaults, ...config }\<close> of the constructors: a property of the
  caller's object replaces the default, also when its value is \<^verbatim>\<open>undefined\<close>.
\<close>

fun spread :: "nat \<Rightarrow> setting \<Rightarrow> nat option" where
  "spread d Absent = Some d"
| "spread d Undefined = None"
| "spread d (Value v) = Some v"

definition mergeConfig :: "flavour \<Rightarrow> constructorConfig \<Rightarrow> resilientConfig" where
  "mergeConfig fl config =
     \<lparr>circuitBreakerTimeout = spread (defaultCircuitBreakerTimeout fl) (circuitBreakerTimeout config),
      circuitBreakerErrorThresholdPercentage = spread 50 (circuitBreakerErrorThresholdPercentage config),
      circuitBreakerResetTimeout = spread 30000 (circuitBreakerResetTimeout config),
      circuitBreakerRollingCountTimeout = spread 10000 (circuitBreakerRollingCountTimeout config),
      circuitBreakerRollingCountBuckets = spread 10 (circuitBreakerRollingCountBuckets config),
      maxRetries = spread 3 (maxRetries config),
      retryDelay = spread (defaultRetryDelay fl) (retryDelay config),
      retryMultiplier = spread 2 (retryMultiplier config),
      maxRetryDelay = spread (defaultMaxRetryDelay fl) (maxRetryDelay config)\<rparr>"

text \<open>
  \<^verbatim>\<open>this.config.x || d\<close>: JavaScript's \<^verbatim>\<open>||\<close> takes the right operand when the left one is
  falsy, that is when it is \<^verbatim>\<open>undefined\<close> and also when it is \<^verbatim>\<open>0\<close>.
\<close>

definition jsOr :: "nat option \<Rightarrow> nat \<Rightarrow> nat" where
  "jsOr x d = (case x of None \<Rightarrow> d | Some v \<Rightarrow> if v = 0 then d else v)"

section \<open>Backoff policy and retry engine\<close>

text \<open>
  The delay before the next attempt:
  \<^verbatim>\<open>Math.min(retryDelay * Math.pow(retryMultiplier, attempt), maxRetryDelay)\<close>.
\<close>

definition computeDelay :: "nat \<Rightarrow> nat \<Rightarrow> nat \<Rightarrow> nat \<Rightarrow> nat" where
  "computeDelay attempt initialDelay multiplier maxDelay =
     min (initialDelay * multiplier ^ attempt) maxDelay"

text \<open>The four constants that \<^verbatim>\<open>executeWithRetry\<close> reads from \<^verbatim>\<open>this.config\<close> on entry.\<close>

record retrySettings =
  rsMaxRetries :: nat
  rsRetryDelay :: nat
  rsRetryMultiplier :: nat
  rsMaxRetryDelay :: nat

definition retrySettingsOf :: "flavour \<Rightarrow> resilientConfig \<Rightarrow> retrySettings" where
  "retrySettingsOf fl config =
     \<lparr>rsMaxRetries = jsOr (maxRetries config) 3,
      rsRetryDelay = jsOr (retryDelay config) (defaultRetryDelay fl),
      rsRetryMultiplier = jsOr (retryMultiplier config) 2,
      rsMaxRetryDelay = jsOr (maxRetryDelay config) (defaultMaxRetryDelay fl)\<rparr>"

definition warnLine :: "string \<Rightarrow> string \<Rightarrow> nat \<Rightarrow> nat \<Rightarrow> nat \<Rightarrow> string" where
  "warnLine tg operationName attempt maxR delay =
     tg @ '' '' @ operationName @ '' failed (attempt '' @ showNat (attempt + 1) @ ''/''
       @ showNat (maxR + 1) @ ''). '' @ ''Retrying in '' @ showNat delay @ ''ms...''"

definition errorLine :: "string \<Rightarrow> string \<Rightarrow> nat \<Rightarrow> string" where
  "errorLine tg operationName maxR =
     tg @ '' '' @ operationName @ '' failed after '' @ showNat (maxR + 1) @ '' attempts''"

text \<open>\<^verbatim>\<open>throw lastError\<close>, where \<^verbatim>\<open>lastError\<close> is still \<^verbatim>\<open>undefined\<close> if nothing was caught.\<close>

fun throwLast :: "jsError option \<Rightarrow> thrown" where
  "throwLast None = ThrownValue ''undefined''"
| "throwLast (Some e) = ThrownError e"

definition emit :: "event list \<Rightarrow> 'a settled \<times> 'w \<times> event list \<Rightarrow> 'a settled \<times> 'w \<times> event list" where
  "emit evs r = (case r of (res, w, tr) \<Rightarrow> (res, w, evs @ tr))"

text \<open>
  The \<^verbatim>\<open>for (let attempt = 0; attempt <= maxRetries; attempt++)\<close> loop, entered at
  \<open>attempt\<close> with the current \<open>lastError\<close>. It returns how \<^verbatim>\<open>executeWithRetry\<close> settles, the
  world after the last call of the operation, and the events in the order they happened.
\<close>

function retryLoop ::
  "string \<Rightarrow> retrySettings \<Rightarrow> ('w, 'a) operation \<Rightarrow> string \<Rightarrow> nat \<Rightarrow> jsError option \<Rightarrow> 'w
     \<Rightarrow> 'a settled \<times> 'w \<times> event list" where
  "retryLoop tg rs operation operationName attempt lastError w =
     (if attempt \<le> rsMaxRetries rs then
        (case operation w of
           (Inr v, w') \<Rightarrow> (Inr v, w', [])
         | (Inl error, w') \<Rightarrow>
             (let lastError' = toError error in
              if attempt < rsMaxRetries rs then
                (let delay = computeDelay attempt (rsRetryDelay rs) (rsRetryMultiplier rs)
                               (rsMaxRetryDelay rs) in
                 emit [ConsoleWarn (warnLine tg operationName attempt (rsMaxRetries rs) delay)
                         (message lastError'),
                       Sleep delay]
                   (retryLoop tg rs operation operationName (attempt + 1) (Some lastError') w'))
              else
                emit [ConsoleError (errorLine tg operationName (rsMaxRetries rs))
                        (message lastError')]
                  (retryLoop tg rs operation operationName (attempt + 1) (Some lastError') w')))
      else (Inl (throwLast lastError), w, []))"
  by pat_completeness auto
termination
  by (relation "measure (\<lambda>(tg, rs, operation, operationName, attempt, lastError, w).
        Suc (rsMaxRetries rs) - attempt)") auto

declare retryLoop.simps [simp del]

definition executeWithRetry ::
  "flavour \<Rightarrow> resilientConfig \<Rightarrow> ('w, 'a) operation \<Rightarrow> string \<Rightarrow> 'w
     \<Rightarrow> 'a settled \<times> 'w \<times> event list" where
  "executeWithRetry fl config operation operationName w =
     retryLoop (tag fl) (retrySettingsOf fl config) operation operationName 0 None w"

section \<open>Circuit breaker\<close>

text \<open>
  The breaker is the class \<^verbatim>\<open>CircuitBreaker\<close> of the library \<^verbatim>\<open>opossum\<close>, which the
  resilience layer imports; the library itself is no part of the repository. The
  definitions of this section follow sections 3, 4.3 and 5 of the specification. Time is
  counted in milliseconds. The time that a fired operation takes decides whether the
  request timeout of the breaker strikes and which samples have left the rolling window
  when the outcome is recorded; time that passes between two calls is an event of its own
  (the reset timeout running out, the window growing older). The listeners that
  \<^verbatim>\<open>setupCircuitBreakerListeners\<close> registers only write to the console and are left out.
\<close>

text \<open>
  Modelled from the spec: the three states of a breaker (section 3, not exported by the
  repository).
\<close>

datatype circuitState = Closed | Open | HalfOpen

text \<open>
  Modelled from the spec: a breaker instance, with the options it is created with, its
  state, and the samples of its rolling window, newest first (section 4.3: the outcome of
  every call that was let through is one sample). A sample is its age and whether it is a
  success.
\<close>

record circuitBreaker =
  cbName :: string
  cbTimeout :: "nat option"
  cbErrorThresholdPercentage :: "nat option"
  cbResetTimeout :: "nat option"
  cbRollingCountTimeout :: "nat option"
  cbRollingCountBuckets :: "nat option"
  cbState :: circuitState
  samples :: "(nat \<times> bool) list"

text \<open>
  \<^verbatim>\<open>createCircuitBreaker(name)\<close>: a new breaker with the settings of \<^verbatim>\<open>this.config\<close>. The
  action that the breaker guards is \<^verbatim>\<open>async (fn) => fn()\<close>: it runs whatever function
  \<^verbatim>\<open>fire\<close> is given. A new breaker is closed and has seen no call.
\<close>

definition createCircuitBreaker :: "resilientConfig \<Rightarrow> string \<Rightarrow> circuitBreaker" where
  "createCircuitBreaker config nm =
     \<lparr>cbName = nm,
      cbTimeout = circuitBreakerTimeout config,
      cbErrorThresholdPercentage = circuitBreakerErrorThresholdPercentage config,
      cbResetTimeout = circuitBreakerResetTimeout config,
      cbRollingCountTimeout = circuitBreakerRollingCountTimeout config,
      cbRollingCountBuckets = circuitBreakerRollingCountBuckets config,
      cbState = Closed, samples = []\<rparr>"

text \<open>Modelled from the spec: the rolling statistics of the breaker (section 4.3).\<close>

definition successes :: "circuitBreaker \<Rightarrow> nat" where
  "successes b = length (filter (\<lambda>x. snd x) (samples b))"

definition failures :: "circuitBreaker \<Rightarrow> nat" where
  "failures b = length (filter (\<lambda>x. \<not> snd x) (samples b))"

text \<open>Modelled from the spec: the status flag \<^verbatim>\<open>opened\<close> of the breaker (section 4.3).\<close>

definition opened :: "circuitBreaker \<Rightarrow> bool" where
  "opened b = (cbState b = Open)"

text \<open>
  Modelled from the spec: the error that \<^verbatim>\<open>fire\<close> fails with while the breaker is open
  (section 4.3, a "circuit open" error).
\<close>

definition circuitOpenError :: thrown where
  "circuitOpenError = ThrownError (JsError ''Error'' ''Breaker is open'')"

text \<open>
  Modelled from the spec: the request timeout of the breaker (section 5, "the breaker's
  configured timeout"), the resilience layer's \<^verbatim>\<open>circuitBreakerTimeout\<close>, and the error of
  a call that it strikes. A breaker that is created without the option (the caller has set
  it to \<^verbatim>\<open>undefined\<close>) uses the library's own default of 10 seconds.
\<close>

definition requestTimeout :: "circuitBreaker \<Rightarrow> nat" where
  "requestTimeout b = jsOr (cbTimeout b) 10000"

definition timedOutError :: "circuitBreaker \<Rightarrow> jsError" where
  "timedOutError b = JsError ''Error'' (''Timed out after '' @ showNat (requestTimeout b) @ ''ms'')"

text \<open>
  Modelled from the spec: the rolling window (section 3, "error percentage over the rolling
  window"; its length is the option \<^verbatim>\<open>rollingCountTimeout\<close>, 10 seconds without it). When
  \<open>t\<close> milliseconds pass, every sample grows older by \<open>t\<close>, and a sample that is as old as
  the window is long has left it. The buckets of the window only make this coarser and are
  not modelled.
\<close>

definition windowLength :: "circuitBreaker \<Rightarrow> nat" where
  "windowLength b = jsOr (cbRollingCountTimeout b) 10000"

definition aged :: "nat \<Rightarrow> circuitBreaker \<Rightarrow> circuitBreaker" where
  "aged t b =
     b\<lparr>samples := filter (\<lambda>x. fst x < windowLength b) (map (\<lambda>x. (fst x + t, snd x)) (samples b))\<rparr>"

text \<open>
  Modelled from the spec: the trigger of \<open>closed \<rightarrow> open\<close> (section 3), the error percentage
  of the samples in the window having reached the threshold. Without the option the
  threshold is 50.
\<close>

definition tripped :: "circuitBreaker \<Rightarrow> bool" where
  "tripped b =
     ((case cbErrorThresholdPercentage b of None \<Rightarrow> 50 | Some p \<Rightarrow> p) * (successes b + failures b)
        \<le> 100 * failures b)"

text \<open>
  Modelled from the spec: what the outcome of a call that was let through does to the
  breaker (section 3). It is one new sample of the window. A success closes a half-open
  breaker; a failure re-opens a half-open breaker and opens a closed one when the threshold
  is reached.
\<close>

definition recordSuccess :: "circuitBreaker \<Rightarrow> circuitBreaker" where
  "recordSuccess b = b\<lparr>cbState := Closed, samples := (0, True) # samples b\<rparr>"

definition recordFailure :: "circuitBreaker \<Rightarrow> circuitBreaker" where
  "recordFailure b =
     (let b' = b\<lparr>samples := (0, False) # samples b\<rparr> in
      if cbState b = HalfOpen \<or> tripped b' then b'\<lparr>cbState := Open\<rparr> else b')"

text \<open>
  The time that a fired operation has taken when it settles. The delegate's calls take
  time in the world outside: \<open>spent w\<close> is the time that all calls made up to the world \<open>w\<close>
  have taken, so the calls of one run take the difference between the world after and the
  world before it. The timers of the retry engine take the time of their \<open>Sleep\<close> events.
\<close>

definition elapsed :: "('s \<Rightarrow> nat) \<Rightarrow> 's \<Rightarrow> 's \<Rightarrow> event list \<Rightarrow> nat" where
  "elapsed spent s s' tr = (spent s' - spent s) + sum_list (sleeps tr)"

text \<open>
  Modelled from the spec: \<^verbatim>\<open>fire(operation)\<close> of the breaker (sections 3, 4.3 and 5). An
  open breaker fails at once and does not run the operation. Otherwise the operation runs
  once. If it has not settled when the request timeout is over, \<^verbatim>\<open>fire\<close> fails with the
  timeout error at that moment and the call counts as a failure; the operation itself is
  not cancelled and runs to its end, so the world and the events are those of the whole
  run. If the operation settles in time, its outcome is the outcome of \<^verbatim>\<open>fire\<close> and is
  recorded. In both cases the window has grown older by the time that has passed.
\<close>

definition fire ::
  "circuitBreaker \<Rightarrow> ('s \<Rightarrow> nat) \<Rightarrow> ('s \<Rightarrow> 'a settled \<times> 's \<times> event list) \<Rightarrow> 's
     \<Rightarrow> 'a settled \<times> circuitBreaker \<times> 's \<times> event list" where
  "fire b spent operation s =
     (if cbState b = Open then (Inl circuitOpenError, b, s, [])
      else
        (case operation s of
           (r, s', tr) \<Rightarrow>
             (let t = elapsed spent s s' tr in
              if requestTimeout b \<le> t then
                (Inl (ThrownError (timedOutError b)), recordFailure (aged (requestTimeout b) b), s', tr)
              else
                (case r of
                   Inr v \<Rightarrow> (Inr v, recordSuccess (aged t b), s', tr)
                 | Inl e \<Rightarrow> (Inl e, recordFailure (aged t b), s', tr)))))"

text \<open>Modelled from the spec: \<open>open \<rightarrow> half-open\<close> once \<^verbatim>\<open>resetTimeout\<close> has passed.\<close>

definition resetTimeoutElapsed :: "circuitBreaker \<Rightarrow> circuitBreaker" where
  "resetTimeoutElapsed b = (if cbState b = Open then b\<lparr>cbState := HalfOpen\<rparr> else b)"

text \<open>
  Modelled from the spec: the manual reset (section 4.3), which the resilience layer
  calls as \<^verbatim>\<open>close()\<close>: closed, whatever the statistics are.
\<close>

definition close :: "circuitBreaker \<Rightarrow> circuitBreaker" where
  "close b = b\<lparr>cbState := Closed\<rparr>"

section \<open>Resilient facades\<close>

text \<open>\<^verbatim>\<open>CallResult<T>\<close> and \<^verbatim>\<open>TranscriptionResult<T>\<close>; \<open>None\<close> is an absent property.\<close>

record 'a resultEnvelope =
  success :: bool
  data :: "'a option"
  error :: "jsError option"
  retryCount :: "nat option"
  circuitBreakerState :: "string option"

text \<open>\<^verbatim>\<open>String(b)\<close> of a boolean.\<close>

definition jsString :: "bool \<Rightarrow> string" where
  "jsString b = (if b then ''true'' else ''false'')"

text \<open>
  The closure that every facade method hands to the retry engine,
  \<^verbatim>\<open>async () => { retryCount++; return await this.manager.f(request); }\<close>. The local
  variable \<^verbatim>\<open>retryCount\<close> travels with the world; \<open>delegate\<close> is the manager's method
  applied to the request.
\<close>

definition counted :: "('w, 'a) operation \<Rightarrow> (nat \<times> 'w, 'a) operation" where
  "counted delegate =
     (\<lambda>(retryCount, w). case delegate w of (r, w') \<Rightarrow> (r, (retryCount + 1, w')))"

text \<open>
  The body shared by the seven methods that go through a breaker:
  \<^verbatim>\<open>try { let retryCount = 0; const result = await breaker.fire(async () =>
      await this.executeWithRetry(async () => { retryCount++; ... }, name));
      return { success: true, data, retryCount, circuitBreakerState: String(breaker.opened) };
  } catch (error) { return { success: false, error: ..., circuitBreakerState: String(breaker.opened) }; }\<close>
  \<open>shape\<close> builds \<^verbatim>\<open>data\<close> from the result. The method's promise settles as the first
  component says; the breaker and the world are returned as the call leaves them. \<open>spent\<close>
  tells the time that the delegate's calls take, as for \<open>fire\<close>; the counter of the closure
  takes none.
\<close>

definition guardedCall ::
  "flavour \<Rightarrow> resilientConfig \<Rightarrow> circuitBreaker \<Rightarrow> string \<Rightarrow> ('w \<Rightarrow> nat) \<Rightarrow> ('w, 'r) operation
     \<Rightarrow> ('r \<Rightarrow> 'd) \<Rightarrow> 'w
     \<Rightarrow> 'd resultEnvelope settled \<times> circuitBreaker \<times> 'w \<times> event list" where
  "guardedCall fl config breaker operationName spent delegate shape w =
     (case fire breaker (\<lambda>(retryCount, w). spent w)
             (executeWithRetry fl config (counted delegate) operationName) (0, w) of
        (Inr result, breaker', (retryCount', w'), tr) \<Rightarrow>
          (Inr \<lparr>success = True, data = Some (shape result), error = None,
                retryCount = Some retryCount',
                circuitBreakerState = Some (jsString (opened breaker'))\<rparr>,
           breaker', w', tr)
      | (Inl err, breaker', (retryCount', w'), tr) \<Rightarrow>
          (Inr \<lparr>success = False, data = None, error = Some (toError err),
                retryCount = None,
                circuitBreakerState = Some (jsString (opened breaker'))\<rparr>,
           breaker', w', tr))"

subsection \<open>\<^verbatim>\<open>PlivoResilient\<close>\<close>

record plivoResilient =
  plivoConfig :: resilientConfig
  makeCallBreaker :: circuitBreaker
  getCallDetailsBreaker :: circuitBreaker

definition newPlivoResilient :: "constructorConfig \<Rightarrow> plivoResilient" where
  "newPlivoResilient config =
     (let merged = mergeConfig plivoFlavour config in
      \<lparr>plivoConfig = merged,
       makeCallBreaker = createCircuitBreaker merged ''makeCall'',
       getCallDetailsBreaker = createCircuitBreaker merged ''getCallDetails''\<rparr>)"

text \<open>
  What the manager's methods resolve with (\<^verbatim>\<open>InitiateRecordedCallResponse\<close>,
  \<^verbatim>\<open>MakeCallResponse\<close>, the result of \<^verbatim>\<open>terminateCall\<close>) and the \<^verbatim>\<open>data\<close> objects that
  the facade builds from them. The results of \<^verbatim>\<open>getCallDetails\<close> and of the transcription
  methods are passed on as they are and stay abstract.
\<close>

record initiateRecordedCallResponse =
  ircSuccess :: bool
  ircCallUuid :: string
  ircMessage :: string
  ircApiId :: string

record initiateRecordedCallData =
  callUuid :: string
  icMessage :: string
  apiId :: string

record makeCallData =
  request_uuid :: string
  mcMessage :: string
  api_id :: string

record terminateCallResponse =
  tcSuccess :: bool
  tcMessage :: string

record terminateCallData =
  tdMessage :: string

definition initiateRecordedCall ::
  "plivoResilient \<Rightarrow> ('w \<Rightarrow> nat) \<Rightarrow> ('w, initiateRecordedCallResponse) operation \<Rightarrow> 'w
     \<Rightarrow> initiateRecordedCallData resultEnvelope settled \<times> plivoResilient \<times> 'w \<times> event list" where
  "initiateRecordedCall this spent delegate w =
     (case guardedCall plivoFlavour (plivoConfig this) (makeCallBreaker this)
             ''initiateRecordedCall'' spent delegate
             (\<lambda>result. \<lparr>callUuid = ircCallUuid result, icMessage = ircMessage result,
                         apiId = ircApiId result\<rparr>) w of
        (env, breaker', w', tr) \<Rightarrow> (env, this\<lparr>makeCallBreaker := breaker'\<rparr>, w', tr))"

definition makeCall ::
  "plivoResilient \<Rightarrow> ('w \<Rightarrow> nat) \<Rightarrow> ('w, makeCallData) operation \<Rightarrow> 'w
     \<Rightarrow> makeCallData resultEnvelope settled \<times> plivoResilient \<times> 'w \<times> event list" where
  "makeCall this spent delegate w =
     (case guardedCall plivoFlavour (plivoConfig this) (makeCallBreaker this)
             ''makeCall'' spent delegate
             (\<lambda>result. \<lparr>request_uuid = request_uuid result, mcMessage = mcMessage result,
                         api_id = api_id result\<rparr>) w of
        (env, breaker', w', tr) \<Rightarrow> (env, this\<lparr>makeCallBreaker := breaker'\<rparr>, w', tr))"

definition getCallDetails ::
  "plivoResilient \<Rightarrow> ('w \<Rightarrow> nat) \<Rightarrow> ('w, 'd) operation \<Rightarrow> 'w
     \<Rightarrow> 'd resultEnvelope settled \<times> plivoResilient \<times> 'w \<times> event list" where
  "getCallDetails this spent delegate w =
     (case guardedCall plivoFlavour (plivoConfig this) (getCallDetailsBreaker this)
             ''getCallDetails'' spent delegate (\<lambda>result. result) w of
        (env, breaker', w', tr) \<Rightarrow> (env, this\<lparr>getCallDetailsBreaker := breaker'\<rparr>, w', tr))"

text \<open>
  \<^verbatim>\<open>terminateCall\<close> awaits \<^verbatim>\<open>this.executeWithRetry(...)\<close> directly; its envelopes have no
  \<^verbatim>\<open>circuitBreakerState\<close>.
\<close>

definition terminateCall ::
  "plivoResilient \<Rightarrow> ('w, terminateCallResponse) operation \<Rightarrow> 'w
     \<Rightarrow> terminateCallData resultEnvelope settled \<times> plivoResilient \<times> 'w \<times> event list" where
  "terminateCall this delegate w =
     (case executeWithRetry plivoFlavour (plivoConfig this) (counted delegate)
             ''terminateCall'' (0, w) of
        (Inr result, (retryCount', w'), tr) \<Rightarrow>
          (Inr \<lparr>success = True, data = Some \<lparr>tdMessage = tcMessage result\<rparr>, error = None,
                retryCount = Some retryCount', circuitBreakerState = None\<rparr>,
           this, w', tr)
      | (Inl err, (retryCount', w'), tr) \<Rightarrow>
          (Inr \<lparr>success = False, data = None, error = Some (toError err),
                retryCount = None, circuitBreakerState = None\<rparr>,
           this, w', tr))"

text \<open>
  \<^verbatim>\<open>waitForRecording\<close>: the operation given to the retry engine throws when the manager's
  polling returns \<^verbatim>\<open>null\<close>; a failure of the retry engine is logged and becomes \<^verbatim>\<open>null\<close>.
\<close>

definition recordingOrThrow :: "('w, 'd option) operation \<Rightarrow> ('w, 'd) operation" where
  "recordingOrThrow delegate =
     (\<lambda>w. case delegate w of
        (Inr (Some result), w') \<Rightarrow> (Inr result, w')
      | (Inr None, w') \<Rightarrow>
          (Inl (ThrownError (JsError ''Error'' ''Recording not available after maximum attempts'')), w')
      | (Inl e, w') \<Rightarrow> (Inl e, w'))"

definition waitForRecording ::
  "plivoResilient \<Rightarrow> ('w, 'd option) operation \<Rightarrow> 'w
     \<Rightarrow> 'd option settled \<times> plivoResilient \<times> 'w \<times> event list" where
  "waitForRecording this delegate w =
     (case executeWithRetry plivoFlavour (plivoConfig this) (recordingOrThrow delegate)
             ''waitForRecording'' w of
        (Inr result, w', tr) \<Rightarrow> (Inr (Some result), this, w', tr)
      | (Inl err, w', tr) \<Rightarrow>
          (Inr None, this, w',
           tr @ [ConsoleError ''[PlivoResilient] Failed to get recording:'' (message (toError err))]))"

definition plivoResetCircuitBreakers :: "plivoResilient \<Rightarrow> plivoResilient" where
  "plivoResetCircuitBreakers this =
     this\<lparr>makeCallBreaker := close (makeCallBreaker this),
          getCallDetailsBreaker := close (getCallDetailsBreaker this)\<rparr>"

subsection \<open>\<^verbatim>\<open>DeepgramResilient\<close>\<close>

record deepgramResilient =
  deepgramConfig :: resilientConfig
  transcribeBreaker :: circuitBreaker

definition newDeepgramResilient :: "constructorConfig \<Rightarrow> deepgramResilient" where
  "newDeepgramResilient config =
     (let merged = mergeConfig deepgramFlavour config in
      \<lparr>deepgramConfig = merged,
       transcribeBreaker = createCircuitBreaker merged ''transcribe''\<rparr>)"

text \<open>
  The four transcription methods have one body; they differ in the manager method they
  call and in the name they give to the retry engine.
\<close>

definition transcribeVia ::
  "string \<Rightarrow> deepgramResilient \<Rightarrow> ('w \<Rightarrow> nat) \<Rightarrow> ('w, 't) operation \<Rightarrow> 'w
     \<Rightarrow> 't resultEnvelope settled \<times> deepgramResilient \<times> 'w \<times> event list" where
  "transcribeVia operationName this spent delegate w =
     (case guardedCall deepgramFlavour (deepgramConfig this) (transcribeBreaker this)
             operationName spent delegate (\<lambda>result. result) w of
        (env, breaker', w', tr) \<Rightarrow> (env, this\<lparr>transcribeBreaker := breaker'\<rparr>, w', tr))"

definition transcribeRecording ::
  "deepgramResilient \<Rightarrow> ('w \<Rightarrow> nat) \<Rightarrow> ('w, 't) operation \<Rightarrow> 'w
     \<Rightarrow> 't resultEnvelope settled \<times> deepgramResilient \<times> 'w \<times> event list" where
  "transcribeRecording = transcribeVia ''transcribeRecording''"

definition transcribeUrl ::
  "deepgramResilient \<Rightarrow> ('w \<Rightarrow> nat) \<Rightarrow> ('w, 't) operation \<Rightarrow> 'w
     \<Rightarrow> 't resultEnvelope settled \<times> deepgramResilient \<times> 'w \<times> event list" where
  "transcribeUrl = transcribeVia ''transcribeUrl''"

definition transcribeWithInsights ::
  "deepgramResilient \<Rightarrow> ('w \<Rightarrow> nat) \<Rightarrow> ('w, 't) operation \<Rightarrow> 'w
     \<Rightarrow> 't resultEnvelope settled \<times> deepgramResilient \<times> 'w \<times> event list" where
  "transcribeWithInsights = transcribeVia ''transcribeWithInsights''"

definition transcribeBuffer ::
  "deepgramResilient \<Rightarrow> ('w \<Rightarrow> nat) \<Rightarrow> ('w, 't) operation \<Rightarrow> 'w
     \<Rightarrow> 't resultEnvelope settled \<times> deepgramResilient \<times> 'w \<times> event list" where
  "transcribeBuffer = transcribeVia ''transcribeBuffer''"

definition deepgramResetCircuitBreakers :: "deepgramResilient \<Rightarrow> deepgramResilient" where
  "deepgramResetCircuitBreakers this = this\<lparr>transcribeBreaker := close (transcribeBreaker this)\<rparr>"

section \<open>Behaviour of an operation over successive calls\<close>

text \<open>
  The world after \<open>k\<close> calls of an operation, one after the other, and how the call after
  those \<open>k\<close> calls settles.
\<close>

primrec worldAfter :: "('w, 'a) operation \<Rightarrow> nat \<Rightarrow> 'w \<Rightarrow> 'w" where
  "worldAfter operation 0 w = w"
| "worldAfter operation (Suc k) w = worldAfter operation k (snd (operation w))"

definition outcomeAt :: "('w, 'a) operation \<Rightarrow> nat \<Rightarrow> 'w \<Rightarrow> 'a settled" where
  "outcomeAt operation k w = fst (operation (worldAfter operation k w))"

text \<open>The first \<open>k\<close> calls from \<open>w\<close> on reject.\<close>

definition rejectsFirst :: "('w, 'a) operation \<Rightarrow> nat \<Rightarrow> 'w \<Rightarrow> bool" where
  "rejectsFirst operation k w = (\<forall>i<k. isl (outcomeAt operation i w))"

text \<open>
  The parts of what a facade method returns in this model: the instance and the world as
  the call leaves them.
\<close>

definition thisAfter :: "'r \<times> 'c \<times> 'w \<times> event list \<Rightarrow> 'c" where
  "thisAfter r = fst (snd r)"

definition worldLeft :: "'r \<times> 'c \<times> 'w \<times> event list \<Rightarrow> 'w" where
  "worldLeft r = fst (snd (snd r))"

text \<open>The delegate rejects \<open>k\<close> times from \<open>w\<close> on and then resolves with \<open>v\<close>.\<close>

definition failsThenSucceeds :: "('w, 'a) operation \<Rightarrow> nat \<Rightarrow> 'w \<Rightarrow> 'a \<Rightarrow> bool" where
  "failsThenSucceeds operation k w v = (rejectsFirst operation k w \<and> outcomeAt operation k w = Inr v)"

text \<open>The constant \<^verbatim>\<open>maxRetries\<close> of \<^verbatim>\<open>executeWithRetry\<close> in each of the two classes.\<close>

definition plivoMaxRetries :: "plivoResilient \<Rightarrow> nat" where
  "plivoMaxRetries this = rsMaxRetries (retrySettingsOf plivoFlavour (plivoConfig this))"

definition deepgramMaxRetries :: "deepgramResilient \<Rightarrow> nat" where
  "deepgramMaxRetries this = rsMaxRetries (retrySettingsOf deepgramFlavour (deepgramConfig this))"

text \<open>
  The time of a run of the retry engine in which \<open>k\<close> attempts are rejected and one more
  attempt is made: the time of the \<open>k + 1\<close> calls of the delegate and of the \<open>k\<close> timers
  between them.
\<close>

definition backoffTotal :: "retrySettings \<Rightarrow> nat \<Rightarrow> nat" where
  "backoffTotal rs k =
     sum_list (map (\<lambda>i. computeDelay i (rsRetryDelay rs) (rsRetryMultiplier rs) (rsMaxRetryDelay rs))
                 [0..<k])"

definition runTime :: "('w \<Rightarrow> nat) \<Rightarrow> retrySettings \<Rightarrow> ('w, 'a) operation \<Rightarrow> nat \<Rightarrow> 'w \<Rightarrow> nat" where
  "runTime spent rs operation k w =
     (spent (worldAfter operation (Suc k) w) - spent w) + backoffTotal rs k"

definition plivoRunTime ::
  "plivoResilient \<Rightarrow> ('w \<Rightarrow> nat) \<Rightarrow> ('w, 'a) operation \<Rightarrow> nat \<Rightarrow> 'w \<Rightarrow> nat" where
  "plivoRunTime this spent operation k w =
     runTime spent (retrySettingsOf plivoFlavour (plivoConfig this)) operation k w"

definition deepgramRunTime ::
  "deepgramResilient \<Rightarrow> ('w \<Rightarrow> nat) \<Rightarrow> ('w, 'a) operation \<Rightarrow> nat \<Rightarrow> 'w \<Rightarrow> nat" where
  "deepgramRunTime this spent operation k w =
     runTime spent (retrySettingsOf deepgramFlavour (deepgramConfig this)) operation k w"

text \<open>
  The contract of the envelope: \<^verbatim>\<open>data\<close> without \<^verbatim>\<open>error\<close> exactly when \<^verbatim>\<open>success\<close> is
  true, \<^verbatim>\<open>error\<close> without \<^verbatim>\<open>data\<close> exactly when it is false.
\<close>

definition exactlyOneOfDataError :: "'a resultEnvelope \<Rightarrow> bool" where
  "exactlyOneOfDataError env =
     ((success env \<longleftrightarrow> data env \<noteq> None \<and> error env = None)
      \<and> (\<not> success env \<longleftrightarrow> error env \<noteq> None \<and> data env = None))"

section \<open>The two clients of the application\<close>

text \<open>
  \<^verbatim>\<open>clients.ts\<close> keeps one \<^verbatim>\<open>PlivoResilient\<close> and one \<^verbatim>\<open>DeepgramResilient\<close> for the
  whole process. A step of the system is a call of one facade method, a manual reset, the
  passing of the reset timeout of one breaker, or the window of one breaker growing older
  by some milliseconds. Calls are taken one after the other.
\<close>

record clients =
  plivoClient :: plivoResilient
  deepgramClient :: deepgramResilient

datatype ('w, 'd, 't) call =
    InitiateRecordedCall "('w, initiateRecordedCallResponse) operation"
  | MakeCall "('w, makeCallData) operation"
  | GetCallDetails "('w, 'd) operation"
  | TerminateCall "('w, terminateCallResponse) operation"
  | WaitForRecording "('w, 'd option) operation"
  | TranscribeRecording "('w, 't) operation"
  | TranscribeUrl "('w, 't) operation"
  | TranscribeWithInsights "('w, 't) operation"
  | TranscribeBuffer "('w, 't) operation"
  | PlivoResetCircuitBreakers
  | DeepgramResetCircuitBreakers
  | MakeCallResetTimeout
  | GetCallDetailsResetTimeout
  | TranscribeResetTimeout
  | MakeCallWindowAges nat
  | GetCallDetailsWindowAges nat
  | TranscribeWindowAges nat

definition afterPlivo ::
  "clients \<Rightarrow> 'r \<times> plivoResilient \<times> 'w \<times> event list \<Rightarrow> clients \<times> 'w" where
  "afterPlivo cs r = (case r of (res, this', w', tr) \<Rightarrow> (cs\<lparr>plivoClient := this'\<rparr>, w'))"

definition afterDeepgram ::
  "clients \<Rightarrow> 'r \<times> deepgramResilient \<times> 'w \<times> event list \<Rightarrow> clients \<times> 'w" where
  "afterDeepgram cs r = (case r of (res, this', w', tr) \<Rightarrow> (cs\<lparr>deepgramClient := this'\<rparr>, w'))"

fun perform :: "('w \<Rightarrow> nat) \<Rightarrow> clients \<Rightarrow> ('w, 'd, 't) call \<Rightarrow> 'w \<Rightarrow> clients \<times> 'w" where
  "perform spent cs (InitiateRecordedCall d) w =
     afterPlivo cs (initiateRecordedCall (plivoClient cs) spent d w)"
| "perform spent cs (MakeCall d) w = afterPlivo cs (makeCall (plivoClient cs) spent d w)"
| "perform spent cs (GetCallDetails d) w = afterPlivo cs (getCallDetails (plivoClient cs) spent d w)"
| "perform spent cs (TerminateCall d) w = afterPlivo cs (terminateCall (plivoClient cs) d w)"
| "perform spent cs (WaitForRecording d) w = afterPlivo cs (waitForRecording (plivoClient cs) d w)"
| "perform spent cs (TranscribeRecording d) w =
     afterDeepgram cs (transcribeRecording (deepgramClient cs) spent d w)"
| "perform spent cs (TranscribeUrl d) w =
     afterDeepgram cs (transcribeUrl (deepgramClient cs) spent d w)"
| "perform spent cs (TranscribeWithInsights d) w =
     afterDeepgram cs (transcribeWithInsights (deepgramClient cs) spent d w)"
| "perform spent cs (TranscribeBuffer d) w =
     afterDeepgram cs (transcribeBuffer (deepgramClient cs) spent d w)"
| "perform spent cs PlivoResetCircuitBreakers w =
     (cs\<lparr>plivoClient := plivoResetCircuitBreakers (plivoClient cs)\<rparr>, w)"
| "perform spent cs DeepgramResetCircuitBreakers w =
     (cs\<lparr>deepgramClient := deepgramResetCircuitBreakers (deepgramClient cs)\<rparr>, w)"
| "perform spent cs MakeCallResetTimeout w =
     (cs\<lparr>plivoClient := (plivoClient cs)
         \<lparr>makeCallBreaker := resetTimeoutElapsed (makeCallBreaker (plivoClient cs))\<rparr>\<rparr>, w)"
| "perform spent cs GetCallDetailsResetTimeout w =
     (cs\<lparr>plivoClient := (plivoClient cs)
         \<lparr>getCallDetailsBreaker := resetTimeoutElapsed (getCallDetailsBreaker (plivoClient cs))\<rparr>\<rparr>, w)"
| "perform spent cs TranscribeResetTimeout w =
     (cs\<lparr>deepgramClient := (deepgramClient cs)
         \<lparr>transcribeBreaker := resetTimeoutElapsed (transcribeBreaker (deepgramClient cs))\<rparr>\<rparr>, w)"
| "perform spent cs (MakeCallWindowAges t) w =
     (cs\<lparr>plivoClient := (plivoClient cs)
         \<lparr>makeCallBreaker := aged t (makeCallBreaker (plivoClient cs))\<rparr>\<rparr>, w)"
| "perform spent cs (GetCallDetailsWindowAges t) w =
     (cs\<lparr>plivoClient := (plivoClient cs)
         \<lparr>getCallDetailsBreaker := aged t (getCallDetailsBreaker (plivoClient cs))\<rparr>\<rparr>, w)"
| "perform spent cs (TranscribeWindowAges t) w =
     (cs\<lparr>deepgramClient := (deepgramClient cs)
         \<lparr>transcribeBreaker := aged t (transcribeBreaker (deepgramClient cs))\<rparr>\<rparr>, w)"

fun performAll ::
  "('w \<Rightarrow> nat) \<Rightarrow> clients \<Rightarrow> ('w, 'd, 't) call list \<Rightarrow> 'w \<Rightarrow> clients \<times> 'w" where
  "performAll spent cs [] w = (cs, w)"
| "performAll spent cs (c # rest) w =
     (case perform spent cs c w of (cs', w') \<Rightarrow> performAll spent cs' rest w')"

text \<open>
  The breakers that a step works on: the one that a facade method fires, whose timer runs
  out or whose window grows older, and those that a reset closes.
\<close>

datatype breakerKind = MakeCallKind | GetCallDetailsKind | TranscribeKind

fun touches :: "('w, 'd, 't) call \<Rightarrow> breakerKind list" where
  "touches (InitiateRecordedCall d) = [MakeCallKind]"
| "touches (MakeCall d) = [MakeCallKind]"
| "touches (GetCallDetails d) = [GetCallDetailsKind]"
| "touches (TerminateCall d) = []"
| "touches (WaitForRecording d) = []"
| "touches (TranscribeRecording d) = [TranscribeKind]"
| "touches (TranscribeUrl d) = [TranscribeKind]"
| "touches (TranscribeWithInsights d) = [TranscribeKind]"
| "touches (TranscribeBuffer d) = [TranscribeKind]"
| "touches MakeCallResetTimeout = [MakeCallKind]"
| "touches GetCallDetailsResetTimeout = [GetCallDetailsKind]"
| "touches TranscribeResetTimeout = [TranscribeKind]"
| "touches (MakeCallWindowAges t) = [MakeCallKind]"
| "touches (GetCallDetailsWindowAges t) = [GetCallDetailsKind]"
| "touches (TranscribeWindowAges t) = [TranscribeKind]"
| "touches PlivoResetCircuitBreakers = [MakeCallKind, GetCallDetailsKind]"
| "touches DeepgramResetCircuitBreakers = [TranscribeKind]"

fun breakerAt :: "breakerKind \<Rightarrow> clients \<Rightarrow> circuitBreaker" where
  "breakerAt MakeCallKind cs = makeCallBreaker (plivoClient cs)"
| "breakerAt GetCallDetailsKind cs = getCallDetailsBreaker (plivoClient cs)"
| "breakerAt TranscribeKind cs = transcribeBreaker (deepgramClient cs)"

text \<open>The steps on the \<^verbatim>\<open>DeepgramResilient\<close> instance; all others are on \<^verbatim>\<open>PlivoResilient\<close>.\<close>

fun onDeepgram :: "('w, 'd, 't) call \<Rightarrow> bool" where
  "onDeepgram (TranscribeRecording d) = True"
| "onDeepgram (TranscribeUrl d) = True"
| "onDeepgram (TranscribeWithInsights d) = True"
| "onDeepgram (TranscribeBuffer d) = True"
| "onDeepgram DeepgramResetCircuitBreakers = True"
| "onDeepgram TranscribeResetTimeout = True"
| "onDeepgram (TranscribeWindowAges t) = True"
| "onDeepgram c = False"

section \<open>Test doubles\<close>

text \<open>
  A \<^verbatim>\<open>this.config\<close> without any setting, a constructor argument without any resilience
  setting, and a delegate as a test would mock it: the world is the number of calls made so
  far; the first \<open>k\<close> calls reject with \<open>e\<close>, every later call resolves with \<open>v\<close>; every
  call takes \<open>ms\<close> milliseconds.
\<close>

definition noSettings :: resilientConfig where
  "noSettings =
     \<lparr>circuitBreakerTimeout = None, circuitBreakerErrorThresholdPercentage = None,
      circuitBreakerResetTimeout = None, circuitBreakerRollingCountTimeout = None,
      circuitBreakerRollingCountBuckets = None, maxRetries = None, retryDelay = None,
      retryMultiplier = None, maxRetryDelay = None\<rparr>"

definition noArguments :: constructorConfig where
  "noArguments =
     \<lparr>circuitBreakerTimeout = Absent, circuitBreakerErrorThresholdPercentage = Absent,
      circuitBreakerResetTimeout = Absent, circuitBreakerRollingCountTimeout = Absent,
      circuitBreakerRollingCountBuckets = Absent, maxRetries = Absent, retryDelay = Absent,
      retryMultiplier = Absent, maxRetryDelay = Absent\<rparr>"

definition latency :: "nat \<Rightarrow> nat \<Rightarrow> nat" where
  "latency ms calls = ms * calls"

definition flaky :: "nat \<Rightarrow> thrown \<Rightarrow> 'a \<Rightarrow> (nat, 'a) operation" where
  "flaky k e v calls = (if calls < k then Inl e else Inr v, Suc calls)"

definition firedCall :: initiateRecordedCallResponse where
  "firedCall = \<lparr>ircSuccess = True, ircCallUuid = ''abc-123-def'', ircMessage = ''call fired'',
     ircApiId = ''api-1''\<rparr>"

definition queuedCall :: makeCallData where
  "queuedCall = \<lparr>request_uuid = ''req-1'', mcMessage = ''call fired'', api_id = ''api-2''\<rparr>"

definition hungUp :: terminateCallResponse where
  "hungUp = \<lparr>tcSuccess = True, tcMessage = ''Call terminated successfully''\<rparr>"

definition boom :: thrown where
  "boom = ThrownError (JsError ''Error'' ''boom'')"

section \<open>The retry loop, step by step\<close>

lemma sleeps_append: "sleeps (xs @ ys) = sleeps xs @ sleeps ys"
  by (induction xs rule: sleeps.induct) auto

lemma worldAfter_counted:
  "worldAfter (counted operation) k (c, w) = (c + k, worldAfter operation k w)"
  by (induction k arbitrary: c w) (auto simp: counted_def split: prod.splits)

lemma outcomeAt_counted:
  "outcomeAt (counted operation) k (c, w) = outcomeAt operation k w"
proof -
  obtain r w' where "operation (worldAfter operation k w) = (r, w')"
    by (cases "operation (worldAfter operation k w)")
  then show ?thesis
    by (simp add: outcomeAt_def worldAfter_counted) (simp add: counted_def)
qed

lemma rejectsFirst_counted:
  "rejectsFirst (counted operation) k (c, w) = rejectsFirst operation k w"
  by (simp add: rejectsFirst_def outcomeAt_counted)

lemma rejectsFirst_Suc_shift:
  "rejectsFirst operation (Suc k) w \<longleftrightarrow>
     isl (fst (operation w)) \<and> rejectsFirst operation k (snd (operation w))"
  unfolding rejectsFirst_def outcomeAt_def
  apply (auto simp: less_Suc_eq_0_disj)
  done

lemma retryLoop_resolve:
  "operation w = (Inr v, w') \<Longrightarrow> attempt \<le> rsMaxRetries rs \<Longrightarrow>
     retryLoop tg rs operation operationName attempt lastError w = (Inr v, w', [])"
  by (subst retryLoop.simps) simp

lemma retryLoop_reject_retry:
  "operation w = (Inl e, w') \<Longrightarrow> attempt < rsMaxRetries rs \<Longrightarrow>
     retryLoop tg rs operation operationName attempt lastError w
       = emit [ConsoleWarn (warnLine tg operationName attempt (rsMaxRetries rs)
                  (computeDelay attempt (rsRetryDelay rs) (rsRetryMultiplier rs) (rsMaxRetryDelay rs)))
                (message (toError e)),
               Sleep (computeDelay attempt (rsRetryDelay rs) (rsRetryMultiplier rs) (rsMaxRetryDelay rs))]
           (retryLoop tg rs operation operationName (Suc attempt) (Some (toError e)) w')"
  by (subst retryLoop.simps) (simp add: Let_def)

lemma retryLoop_reject_last:
  "operation w = (Inl e, w') \<Longrightarrow> attempt = rsMaxRetries rs \<Longrightarrow>
     retryLoop tg rs operation operationName attempt lastError w
       = emit [ConsoleError (errorLine tg operationName (rsMaxRetries rs)) (message (toError e))]
           (retryLoop tg rs operation operationName (Suc attempt) (Some (toError e)) w')"
  by (subst retryLoop.simps) (simp add: Let_def)

lemma retryLoop_succeeds:
  assumes "attempt + k \<le> rsMaxRetries rs"
    and "rejectsFirst operation k w"
    and "outcomeAt operation k w = Inr v"
  shows "\<exists>tr. retryLoop tg rs operation operationName attempt lastError w
           = (Inr v, worldAfter operation (Suc k) w, tr)
         \<and> sleeps tr = map (\<lambda>i. computeDelay i (rsRetryDelay rs) (rsRetryMultiplier rs)
                                   (rsMaxRetryDelay rs)) [attempt..<attempt + k]"
  using assms
proof (induction k arbitrary: attempt lastError w)
  case 0
  then show ?case
    by (cases "operation w") (simp add: retryLoop_resolve outcomeAt_def)
next
  case (Suc k)
  obtain r w' where ow: "operation w = (r, w')" by (cases "operation w")
  from Suc.prems(2) ow obtain e where r: "r = Inl e"
    by (cases r) (auto simp: rejectsFirst_Suc_shift)
  from Suc.prems(2) ow have rf: "rejectsFirst operation k w'"
    by (simp add: rejectsFirst_Suc_shift)
  from Suc.prems(3) ow have oc: "outcomeAt operation k w' = Inr v"
    by (simp add: outcomeAt_def)
  from Suc.prems(1) have le: "Suc attempt + k \<le> rsMaxRetries rs" by simp
  from Suc.IH [OF le rf oc, of "Some (toError e)"] obtain tr where
    ih: "retryLoop tg rs operation operationName (Suc attempt) (Some (toError e)) w'
           = (Inr v, worldAfter operation (Suc k) w', tr)"
    and sl: "sleeps tr = map (\<lambda>i. computeDelay i (rsRetryDelay rs) (rsRetryMultiplier rs)
                                   (rsMaxRetryDelay rs)) [Suc attempt..<Suc attempt + k]"
    by blast
  from Suc.prems(1) have lt: "attempt < rsMaxRetries rs" by simp
  have up: "[attempt..<Suc (attempt + k)] = attempt # [Suc attempt..<Suc (attempt + k)]"
    by (simp add: upt_conv_Cons del: upt_Suc)
  have "retryLoop tg rs operation operationName attempt lastError w
          = emit [ConsoleWarn (warnLine tg operationName attempt (rsMaxRetries rs)
                     (computeDelay attempt (rsRetryDelay rs) (rsRetryMultiplier rs) (rsMaxRetryDelay rs)))
                   (message (toError e)),
                  Sleep (computeDelay attempt (rsRetryDelay rs) (rsRetryMultiplier rs) (rsMaxRetryDelay rs))]
              (retryLoop tg rs operation operationName (Suc attempt) (Some (toError e)) w')"
    using ow r lt by (simp add: retryLoop_reject_retry)
  then show ?case
    using ih sl ow by (simp add: emit_def up del: upt_Suc)
qed


lemma retryLoop_past_end:
  "rsMaxRetries rs < attempt \<Longrightarrow>
     retryLoop tg rs operation operationName attempt lastError w = (Inl (throwLast lastError), w, [])"
  by (subst retryLoop.simps) simp

lemma retryLoop_exhausts:
  assumes "attempt + n = rsMaxRetries rs"
    and "rejectsFirst operation (Suc n) w"
  shows "\<exists>e tr. outcomeAt operation n w = Inl e
         \<and> retryLoop tg rs operation operationName attempt lastError w
             = (Inl (ThrownError (toError e)), worldAfter operation (Suc n) w,
                tr @ [ConsoleError (errorLine tg operationName (rsMaxRetries rs)) (message (toError e))])
         \<and> sleeps tr = map (\<lambda>i. computeDelay i (rsRetryDelay rs) (rsRetryMultiplier rs)
                                   (rsMaxRetryDelay rs)) [attempt..<attempt + n]"
  using assms
proof (induction n arbitrary: attempt lastError w)
  case 0
  obtain r w' where ow: "operation w = (r, w')" by (cases "operation w")
  from "0.prems"(2) ow obtain e where r: "r = Inl e"
    by (cases r) (auto simp: rejectsFirst_Suc_shift)
  from "0.prems"(1) have at: "attempt = rsMaxRetries rs" by simp
  have "retryLoop tg rs operation operationName attempt lastError w
          = emit [ConsoleError (errorLine tg operationName (rsMaxRetries rs)) (message (toError e))]
              (retryLoop tg rs operation operationName (Suc attempt) (Some (toError e)) w')"
    using ow r at by (simp add: retryLoop_reject_last)
  also have "retryLoop tg rs operation operationName (Suc attempt) (Some (toError e)) w'
          = (Inl (ThrownError (toError e)), w', [])"
    using at by (simp add: retryLoop_past_end)
  finally have "retryLoop tg rs operation operationName attempt lastError w
          = (Inl (ThrownError (toError e)), w',
             [] @ [ConsoleError (errorLine tg operationName (rsMaxRetries rs)) (message (toError e))])"
    by (simp add: emit_def)
  moreover have "outcomeAt operation 0 w = Inl e" using ow r by (simp add: outcomeAt_def)
  moreover have "worldAfter operation (Suc 0) w = w'" using ow by simp
  ultimately show ?case by (metis add.right_neutral list.map(1) sleeps.simps(1) upt_eq_Nil_conv le_refl)
next
  case (Suc n)
  obtain r w' where ow: "operation w = (r, w')" by (cases "operation w")
  from Suc.prems(2) ow obtain e0 where r: "r = Inl e0"
    by (cases r) (auto simp: rejectsFirst_Suc_shift)
  from Suc.prems(2) ow have rf: "rejectsFirst operation (Suc n) w'"
    by (simp add: rejectsFirst_Suc_shift [of _ "Suc n"])
  from Suc.prems(1) have eq: "Suc attempt + n = rsMaxRetries rs" by simp
  from Suc.IH [OF eq rf, of "Some (toError e0)"] obtain e tr where
    oc: "outcomeAt operation n w' = Inl e"
    and ih: "retryLoop tg rs operation operationName (Suc attempt) (Some (toError e0)) w'
           = (Inl (ThrownError (toError e)), worldAfter operation (Suc n) w',
              tr @ [ConsoleError (errorLine tg operationName (rsMaxRetries rs)) (message (toError e))])"
    and sl: "sleeps tr = map (\<lambda>i. computeDelay i (rsRetryDelay rs) (rsRetryMultiplier rs)
                                   (rsMaxRetryDelay rs)) [Suc attempt..<Suc attempt + n]"
    by blast
  from Suc.prems(1) have lt: "attempt < rsMaxRetries rs" by simp
  let ?d = "computeDelay attempt (rsRetryDelay rs) (rsRetryMultiplier rs) (rsMaxRetryDelay rs)"
  let ?pre = "[ConsoleWarn (warnLine tg operationName attempt (rsMaxRetries rs) ?d) (message (toError e0)),
               Sleep ?d]"
  have up: "[attempt..<Suc (attempt + n)] = attempt # [Suc attempt..<Suc (attempt + n)]"
    by (simp add: upt_conv_Cons del: upt_Suc)
  have "retryLoop tg rs operation operationName attempt lastError w
          = emit ?pre (retryLoop tg rs operation operationName (Suc attempt) (Some (toError e0)) w')"
    using ow r lt by (simp add: retryLoop_reject_retry)
  then have run: "retryLoop tg rs operation operationName attempt lastError w
          = (Inl (ThrownError (toError e)), worldAfter operation (Suc (Suc n)) w,
             (?pre @ tr) @ [ConsoleError (errorLine tg operationName (rsMaxRetries rs)) (message (toError e))])"
    using ih ow by (simp add: emit_def)
  have oc': "outcomeAt operation (Suc n) w = Inl e"
    using oc ow by (simp add: outcomeAt_def)
  have sl': "sleeps (?pre @ tr) = map (\<lambda>i. computeDelay i (rsRetryDelay rs) (rsRetryMultiplier rs)
                                   (rsMaxRetryDelay rs)) [attempt..<attempt + Suc n]"
    using sl by (simp add: up del: upt_Suc)
  from oc' run sl' show ?case by blast
qed




subsection \<open>The test doubles\<close>

lemma worldAfter_flaky: "worldAfter (flaky k e v) i n = n + i"
  by (induction i arbitrary: n) (simp_all add: flaky_def)

lemma outcomeAt_flaky: "outcomeAt (flaky k e v) i n = (if n + i < k then Inl e else Inr v)"
  by (simp add: outcomeAt_def worldAfter_flaky) (simp add: flaky_def)

lemma rejectsFirst_flaky: "n + j \<le> k \<Longrightarrow> rejectsFirst (flaky k e v) j n"
  by (simp add: rejectsFirst_def outcomeAt_flaky)

lemma retrySettingsOf_noSettings_plivo:
  "retrySettingsOf plivoFlavour noSettings
     = \<lparr>rsMaxRetries = 3, rsRetryDelay = 1000, rsRetryMultiplier = 2, rsMaxRetryDelay = 10000\<rparr>"
  by (simp add: retrySettingsOf_def noSettings_def plivoFlavour_def jsOr_def)

lemma tag_plivoFlavour: "tag plivoFlavour = ''[PlivoResilient]''"
  by (simp add: plivoFlavour_def)

lemma retrySettingsOf_noSettings_deepgram:
  "retrySettingsOf deepgramFlavour noSettings
     = \<lparr>rsMaxRetries = 3, rsRetryDelay = 2000, rsRetryMultiplier = 2, rsMaxRetryDelay = 20000\<rparr>"
  by (simp add: retrySettingsOf_def noSettings_def deepgramFlavour_def jsOr_def)

subsection \<open>Whole runs of the retry engine\<close>

lemma executeWithRetry_exhausts:
  assumes "rejectsFirst operation (Suc (rsMaxRetries (retrySettingsOf fl config))) w"
  shows "\<exists>e tr. outcomeAt operation (rsMaxRetries (retrySettingsOf fl config)) w = Inl e
         \<and> executeWithRetry fl config operation operationName w
             = (Inl (ThrownError (toError e)),
                worldAfter operation (Suc (rsMaxRetries (retrySettingsOf fl config))) w,
                tr @ [ConsoleError (errorLine (tag fl) operationName
                         (rsMaxRetries (retrySettingsOf fl config))) (message (toError e))])
         \<and> sleeps tr = map (\<lambda>i. computeDelay i (rsRetryDelay (retrySettingsOf fl config))
                                  (rsRetryMultiplier (retrySettingsOf fl config))
                                  (rsMaxRetryDelay (retrySettingsOf fl config)))
                          [0..<rsMaxRetries (retrySettingsOf fl config)]"
proof -
  have z: "0 + rsMaxRetries (retrySettingsOf fl config) = rsMaxRetries (retrySettingsOf fl config)"
    by simp
  from retryLoop_exhausts [OF z assms, of "tag fl" operationName None]
  show ?thesis unfolding executeWithRetry_def by simp
qed

lemma executeWithRetry_succeeds:
  assumes "k \<le> rsMaxRetries (retrySettingsOf fl config)"
    and "rejectsFirst operation k w"
    and "outcomeAt operation k w = Inr v"
  shows "\<exists>tr. executeWithRetry fl config operation operationName w
             = (Inr v, worldAfter operation (Suc k) w, tr)
         \<and> sleeps tr = map (\<lambda>i. computeDelay i (rsRetryDelay (retrySettingsOf fl config))
                                  (rsRetryMultiplier (retrySettingsOf fl config))
                                  (rsMaxRetryDelay (retrySettingsOf fl config))) [0..<k]"
proof -
  from assms(1) have le: "0 + k \<le> rsMaxRetries (retrySettingsOf fl config)" by simp
  from retryLoop_succeeds [OF le assms(2) assms(3), of "tag fl" operationName None]
  show ?thesis unfolding executeWithRetry_def by simp
qed

lemma retryLoop_invocations:
  "\<exists>n. fst (snd (retryLoop tg rs operation operationName attempt lastError w))
          = worldAfter operation n w
       \<and> attempt + n \<le> max attempt (Suc (rsMaxRetries rs))
       \<and> (attempt \<le> rsMaxRetries rs \<longrightarrow> 1 \<le> n)"
proof (induction "Suc (rsMaxRetries rs) - attempt" arbitrary: attempt lastError w)
  case 0
  then have gt: "rsMaxRetries rs < attempt" by simp
  then have "fst (snd (retryLoop tg rs operation operationName attempt lastError w))
      = worldAfter operation 0 w"
    by (simp add: retryLoop_past_end)
  with gt show ?case by (intro exI [of _ 0]) simp
next
  case (Suc m)
  then have le: "attempt \<le> rsMaxRetries rs" by simp
  obtain r w' where ow: "operation w = (r, w')" by (cases "operation w")
  show ?case
  proof (cases r)
    case (Inr v)
    with ow le have "fst (snd (retryLoop tg rs operation operationName attempt lastError w))
        = worldAfter operation 1 w"
      by (simp add: retryLoop_resolve)
    with le show ?thesis by (intro exI [of _ 1]) simp
  next
    case (Inl e)
    show ?thesis
    proof (cases "attempt < rsMaxRetries rs")
      case True
      from Suc.hyps(2) have m: "m = Suc (rsMaxRetries rs) - Suc attempt" by simp
      from Suc.hyps(1) [OF m, of "Some (toError e)" w'] obtain n where
        n: "fst (snd (retryLoop tg rs operation operationName (Suc attempt) (Some (toError e)) w'))
              = worldAfter operation n w'"
        and b: "Suc attempt + n \<le> max (Suc attempt) (Suc (rsMaxRetries rs))"
        by blast
      have "fst (snd (retryLoop tg rs operation operationName attempt lastError w))
              = worldAfter operation (Suc n) w"
        using ow Inl True n by (simp add: retryLoop_reject_retry emit_def split_beta)
      moreover from b True have "attempt + Suc n \<le> max attempt (Suc (rsMaxRetries rs))" by simp
      ultimately show ?thesis by (intro exI [of _ "Suc n"]) simp
    next
      case False
      with le have at: "attempt = rsMaxRetries rs" by simp
      have "fst (snd (retryLoop tg rs operation operationName attempt lastError w))
              = worldAfter operation 1 w"
        using ow Inl at by (simp add: retryLoop_reject_last retryLoop_past_end emit_def)
      with at show ?thesis by (intro exI [of _ 1]) simp
    qed
  qed
qed

lemma executeWithRetry_invocations:
  "\<exists>n. 1 \<le> n \<and> n \<le> rsMaxRetries (retrySettingsOf fl config) + 1
       \<and> fst (snd (executeWithRetry fl config operation operationName w)) = worldAfter operation n w"
  using retryLoop_invocations [of "tag fl" "retrySettingsOf fl config" operation operationName 0 None w]
  unfolding executeWithRetry_def by auto

lemma sublist_errorLine: "sublist operationName (errorLine tg operationName m)"
  unfolding errorLine_def by (metis sublist_appendI append.assoc)

section \<open>The breaker and the shared body of the guarded methods\<close>

lemma recordSuccess_simps:
  "samples (recordSuccess b) = (0, True) # samples b"
  "cbState (recordSuccess b) = Closed"
  "opened (recordSuccess b) = False"
  by (simp_all add: recordSuccess_def opened_def)

lemma samples_recordFailure: "samples (recordFailure b) = (0, False) # samples b"
  by (simp add: recordFailure_def Let_def)

lemma cbState_aged: "cbState (aged t b) = cbState b"
  by (simp add: aged_def)

lemma aged_no_samples: "samples b = [] \<Longrightarrow> aged t b = b"
  by (simp add: aged_def)

lemma successes_Cons:
  "successes (b\<lparr>samples := (a, ok) # xs\<rparr>) = (if ok then 1 else 0) + successes (b\<lparr>samples := xs\<rparr>)"
  by (simp add: successes_def)

lemma failures_Cons:
  "failures (b\<lparr>samples := (a, ok) # xs\<rparr>) = (if ok then 0 else 1) + failures (b\<lparr>samples := xs\<rparr>)"
  by (simp add: failures_def)

lemma fire_open:
  "cbState b = Open \<Longrightarrow> fire b spent operation s = (Inl circuitOpenError, b, s, [])"
  by (simp add: fire_def)

lemma fire_not_open:
  assumes "cbState b \<noteq> Open" and "operation s = (r, s', tr)"
  shows "fire b spent operation s =
     (if requestTimeout b \<le> elapsed spent s s' tr then
        (Inl (ThrownError (timedOutError b)), recordFailure (aged (requestTimeout b) b), s', tr)
      else
        (case r of
           Inr v \<Rightarrow> (Inr v, recordSuccess (aged (elapsed spent s s' tr) b), s', tr)
         | Inl e \<Rightarrow> (Inl e, recordFailure (aged (elapsed spent s s' tr) b), s', tr)))"
  using assms by (simp add: fire_def Let_def)

lemma elapsed_counted:
  "elapsed (\<lambda>(retryCount, w). spent w) (c, w) (c', w') tr
     = (spent w' - spent w) + sum_list (sleeps tr)"
  by (simp add: elapsed_def)

lemma guardedCall_open:
  assumes "cbState breaker = Open"
  shows "guardedCall fl config breaker operationName spent delegate shape w
           = (Inr \<lparr>success = False, data = None, error = Some (JsError ''Error'' ''Breaker is open''),
                   retryCount = None, circuitBreakerState = Some ''true''\<rparr>, breaker, w, [])"
  using assms by (simp add: guardedCall_def fire_open circuitOpenError_def jsString_def opened_def)

text \<open>A run in which the delegate rejects \<open>k\<close> times and then resolves, before the timeout.\<close>

lemma guardedCall_succeeds:
  assumes "cbState breaker \<noteq> Open"
    and "k \<le> rsMaxRetries (retrySettingsOf fl config)"
    and "rejectsFirst delegate k w"
    and "outcomeAt delegate k w = Inr v"
    and "runTime spent (retrySettingsOf fl config) delegate k w < requestTimeout breaker"
  shows "\<exists>tr. guardedCall fl config breaker operationName spent delegate shape w
           = (Inr \<lparr>success = True, data = Some (shape v), error = None,
                   retryCount = Some (k + 1), circuitBreakerState = Some ''false''\<rparr>,
              recordSuccess (aged (runTime spent (retrySettingsOf fl config) delegate k w) breaker),
              worldAfter delegate (Suc k) w, tr)"
proof -
  from assms(3) have rf: "rejectsFirst (counted delegate) k (0, w)"
    by (simp only: rejectsFirst_counted)
  from assms(4) have oc: "outcomeAt (counted delegate) k (0, w) = Inr v"
    by (simp only: outcomeAt_counted)
  from executeWithRetry_succeeds [OF assms(2) rf oc, of operationName]
  obtain tr where run: "executeWithRetry fl config (counted delegate) operationName (0, w)
      = (Inr v, (k + 1, worldAfter delegate (Suc k) w), tr)"
    and sl: "sum_list (sleeps tr) = backoffTotal (retrySettingsOf fl config) k"
    by (auto simp: worldAfter_counted backoffTotal_def simp del: worldAfter.simps)
  have t: "elapsed (\<lambda>(retryCount, w). spent w) (0, w) (k + 1, worldAfter delegate (Suc k) w) tr
      = runTime spent (retrySettingsOf fl config) delegate k w"
    by (simp add: elapsed_def runTime_def sl del: worldAfter.simps)
  from assms(5) have nt: "\<not> requestTimeout breaker
      \<le> runTime spent (retrySettingsOf fl config) delegate k w" by simp
  show ?thesis
    unfolding guardedCall_def fire_not_open [where operation = "executeWithRetry fl config (counted delegate) operationName" and s = "(0, w)" and spent = "\<lambda>(retryCount, w). spent w", OF assms(1) run] t
    using nt by (simp add: recordSuccess_simps jsString_def del: worldAfter.simps)
qed

text \<open>The same run when it is not over before the timeout.\<close>

lemma guardedCall_times_out:
  assumes "cbState breaker \<noteq> Open"
    and "k \<le> rsMaxRetries (retrySettingsOf fl config)"
    and "rejectsFirst delegate k w"
    and "outcomeAt delegate k w = Inr v"
    and "requestTimeout breaker \<le> runTime spent (retrySettingsOf fl config) delegate k w"
  shows "\<exists>tr. guardedCall fl config breaker operationName spent delegate shape w
           = (Inr \<lparr>success = False, data = None, error = Some (timedOutError breaker),
                   retryCount = None,
                   circuitBreakerState = Some (jsString
                     (opened (recordFailure (aged (requestTimeout breaker) breaker))))\<rparr>,
              recordFailure (aged (requestTimeout breaker) breaker),
              worldAfter delegate (Suc k) w, tr)"
proof -
  from assms(3) have rf: "rejectsFirst (counted delegate) k (0, w)"
    by (simp only: rejectsFirst_counted)
  from assms(4) have oc: "outcomeAt (counted delegate) k (0, w) = Inr v"
    by (simp only: outcomeAt_counted)
  from executeWithRetry_succeeds [OF assms(2) rf oc, of operationName]
  obtain tr where run: "executeWithRetry fl config (counted delegate) operationName (0, w)
      = (Inr v, (k + 1, worldAfter delegate (Suc k) w), tr)"
    and sl: "sum_list (sleeps tr) = backoffTotal (retrySettingsOf fl config) k"
    by (auto simp: worldAfter_counted backoffTotal_def simp del: worldAfter.simps)
  have t: "elapsed (\<lambda>(retryCount, w). spent w) (0, w) (k + 1, worldAfter delegate (Suc k) w) tr
      = runTime spent (retrySettingsOf fl config) delegate k w"
    by (simp add: elapsed_def runTime_def sl del: worldAfter.simps)
  show ?thesis
    unfolding guardedCall_def fire_not_open [where operation = "executeWithRetry fl config (counted delegate) operationName" and s = "(0, w)" and spent = "\<lambda>(retryCount, w). spent w", OF assms(1) run] t
    using assms(5) by (simp del: worldAfter.simps)
qed

text \<open>A run in which the delegate rejects on every attempt.\<close>

lemma guardedCall_exhausts:
  assumes "cbState breaker \<noteq> Open"
    and "rejectsFirst delegate (Suc (rsMaxRetries (retrySettingsOf fl config))) w"
  shows "\<exists>e tr. outcomeAt delegate (rsMaxRetries (retrySettingsOf fl config)) w = Inl e
         \<and> guardedCall fl config breaker operationName spent delegate shape w
           = (Inr \<lparr>success = False, data = None,
                   error = Some (if requestTimeout breaker
                                      \<le> runTime spent (retrySettingsOf fl config) delegate
                                           (rsMaxRetries (retrySettingsOf fl config)) w
                                 then timedOutError breaker else toError e),
                   retryCount = None,
                   circuitBreakerState = Some (jsString (opened (recordFailure (aged
                     (min (requestTimeout breaker)
                        (runTime spent (retrySettingsOf fl config) delegate
                           (rsMaxRetries (retrySettingsOf fl config)) w)) breaker))))\<rparr>,
              recordFailure (aged
                (min (requestTimeout breaker)
                   (runTime spent (retrySettingsOf fl config) delegate
                      (rsMaxRetries (retrySettingsOf fl config)) w)) breaker),
              worldAfter delegate (Suc (rsMaxRetries (retrySettingsOf fl config))) w, tr)"
proof -
  let ?M = "rsMaxRetries (retrySettingsOf fl config)"
  let ?t = "runTime spent (retrySettingsOf fl config) delegate ?M w"
  from assms(2) have rf: "rejectsFirst (counted delegate) (Suc ?M) (0, w)"
    by (simp only: rejectsFirst_counted)
  from executeWithRetry_exhausts [OF rf, of operationName]
  obtain e tr where oc: "outcomeAt (counted delegate) ?M (0, w) = Inl e"
    and run: "executeWithRetry fl config (counted delegate) operationName (0, w)
      = (Inl (ThrownError (toError e)), (Suc ?M, worldAfter delegate (Suc ?M) w), tr)"
    and sl: "sum_list (sleeps tr) = backoffTotal (retrySettingsOf fl config) ?M"
    by (auto simp: worldAfter_counted backoffTotal_def sleeps_append simp del: worldAfter.simps)
  from oc have oc': "outcomeAt delegate ?M w = Inl e" by (simp only: outcomeAt_counted)
  have t: "elapsed (\<lambda>(retryCount, w). spent w) (0, w) (Suc ?M, worldAfter delegate (Suc ?M) w) tr = ?t"
    by (simp add: elapsed_def runTime_def sl del: worldAfter.simps)
  have "guardedCall fl config breaker operationName spent delegate shape w
           = (Inr \<lparr>success = False, data = None,
                   error = Some (if requestTimeout breaker \<le> ?t
                                 then timedOutError breaker else toError e),
                   retryCount = None,
                   circuitBreakerState = Some (jsString (opened (recordFailure (aged
                     (min (requestTimeout breaker) ?t) breaker))))\<rparr>,
              recordFailure (aged (min (requestTimeout breaker) ?t) breaker),
              worldAfter delegate (Suc ?M) w, tr)"
    unfolding guardedCall_def fire_not_open [where operation = "executeWithRetry fl config (counted delegate) operationName" and s = "(0, w)" and spent = "\<lambda>(retryCount, w). spent w", OF assms(1) run] t
    by (simp add: min_def del: worldAfter.simps)
  with oc' show ?thesis by blast
qed

text \<open>Whatever the delegate does, a guarded call ends in one of three ways.\<close>

lemma guardedCall_cases:
  obtains
    (rejected) "cbState breaker = Open"
      "guardedCall fl config breaker operationName spent delegate shape w
           = (Inr \<lparr>success = False, data = None, error = Some (JsError ''Error'' ''Breaker is open''),
                   retryCount = None, circuitBreakerState = Some ''true''\<rparr>, breaker, w, [])"
  | (resolved) v n w' tr t where "cbState breaker \<noteq> Open"
      "guardedCall fl config breaker operationName spent delegate shape w
           = (Inr \<lparr>success = True, data = Some (shape v), error = None,
                   retryCount = Some n, circuitBreakerState = Some ''false''\<rparr>,
              recordSuccess (aged t breaker), w', tr)"
  | (failed) e w' tr t where "cbState breaker \<noteq> Open"
      "guardedCall fl config breaker operationName spent delegate shape w
           = (Inr \<lparr>success = False, data = None, error = Some e,
                   retryCount = None,
                   circuitBreakerState = Some (jsString (opened (recordFailure (aged t breaker))))\<rparr>,
              recordFailure (aged t breaker), w', tr)"
proof (cases "cbState breaker = Open")
  case True
  show ?thesis by (rule rejected [OF True]) (simp add: guardedCall_open [OF True])
next
  case False
  obtain r n w' tr where run: "executeWithRetry fl config (counted delegate) operationName (0, w)
      = (r, (n, w'), tr)"
    by (metis prod.exhaust)
  let ?t = "elapsed (\<lambda>(retryCount, w). spent w) (0, w) (n, w') tr"
  show ?thesis
  proof (cases "requestTimeout breaker \<le> ?t")
    case True
    then have "guardedCall fl config breaker operationName spent delegate shape w
           = (Inr \<lparr>success = False, data = None, error = Some (timedOutError breaker),
                   retryCount = None,
                   circuitBreakerState = Some (jsString
                     (opened (recordFailure (aged (requestTimeout breaker) breaker))))\<rparr>,
              recordFailure (aged (requestTimeout breaker) breaker), w', tr)"
      unfolding guardedCall_def fire_not_open [where operation = "executeWithRetry fl config (counted delegate) operationName" and s = "(0, w)" and spent = "\<lambda>(retryCount, w). spent w", OF False run] by simp
    with False show ?thesis by (rule failed)
  next
    case late: False
    show ?thesis
    proof (cases r)
      case (Inl e)
      with late have "guardedCall fl config breaker operationName spent delegate shape w
           = (Inr \<lparr>success = False, data = None, error = Some (toError e),
                   retryCount = None,
                   circuitBreakerState = Some (jsString (opened (recordFailure (aged ?t breaker))))\<rparr>,
              recordFailure (aged ?t breaker), w', tr)"
        unfolding guardedCall_def fire_not_open [where operation = "executeWithRetry fl config (counted delegate) operationName" and s = "(0, w)" and spent = "\<lambda>(retryCount, w). spent w", OF False run] by simp
      with False show ?thesis by (rule failed)
    next
      case (Inr v)
      with late have "guardedCall fl config breaker operationName spent delegate shape w
           = (Inr \<lparr>success = True, data = Some (shape v), error = None,
                   retryCount = Some n, circuitBreakerState = Some ''false''\<rparr>,
              recordSuccess (aged ?t breaker), w', tr)"
        unfolding guardedCall_def fire_not_open [where operation = "executeWithRetry fl config (counted delegate) operationName" and s = "(0, w)" and spent = "\<lambda>(retryCount, w). spent w", OF False run]
        by (simp add: recordSuccess_simps jsString_def)
      with False show ?thesis by (rule resolved)
    qed
  qed
qed

section \<open>The facade methods\<close>

subsection \<open>\<^verbatim>\<open>initiateRecordedCall\<close>\<close>

lemma initiateRecordedCall_open:
  assumes "cbState (makeCallBreaker p) = Open"
  shows "initiateRecordedCall p spent dIni w
           = (Inr \<lparr>success = False, data = None, error = Some (JsError ''Error'' ''Breaker is open''),
                   retryCount = None, circuitBreakerState = Some ''true''\<rparr>, p, w, [])"
  unfolding initiateRecordedCall_def by (simp add: guardedCall_open [OF assms])

lemma initiateRecordedCall_succeeds:
  assumes "cbState (makeCallBreaker p) \<noteq> Open"
    and "k \<le> plivoMaxRetries p"
    and "failsThenSucceeds dIni k w vIni"
    and "plivoRunTime p spent dIni k w < requestTimeout (makeCallBreaker p)"
  shows "\<exists>tr. initiateRecordedCall p spent dIni w
           = (Inr \<lparr>success = True, data = Some \<lparr>callUuid = ircCallUuid vIni, icMessage = ircMessage vIni, apiId = ircApiId vIni\<rparr>, error = None,
                   retryCount = Some (k + 1), circuitBreakerState = Some ''false''\<rparr>,
              p\<lparr>makeCallBreaker := recordSuccess (aged (plivoRunTime p spent dIni k w) (makeCallBreaker p))\<rparr>,
              worldAfter dIni (Suc k) w, tr)"
proof -
  from assms(2) have le: "k \<le> rsMaxRetries (retrySettingsOf plivoFlavour (plivoConfig p))"
    by (simp add: plivoMaxRetries_def)
  from assms(3) have rf: "rejectsFirst dIni k w" and oc: "outcomeAt dIni k w = Inr vIni"
    by (simp_all add: failsThenSucceeds_def)
  from assms(4) have tm: "runTime spent (retrySettingsOf plivoFlavour (plivoConfig p)) dIni k w < requestTimeout (makeCallBreaker p)"
    by (simp add: plivoRunTime_def)
  from guardedCall_succeeds [OF assms(1) le rf oc tm, of "''initiateRecordedCall''" "(\<lambda>result. \<lparr>callUuid = ircCallUuid result, icMessage = ircMessage result, apiId = ircApiId result\<rparr>)"]
  show ?thesis unfolding initiateRecordedCall_def plivoRunTime_def by auto
qed

lemma initiateRecordedCall_times_out:
  assumes "cbState (makeCallBreaker p) \<noteq> Open"
    and "k \<le> plivoMaxRetries p"
    and "failsThenSucceeds dIni k w vIni"
    and "requestTimeout (makeCallBreaker p) \<le> plivoRunTime p spent dIni k w"
  shows "\<exists>tr. initiateRecordedCall p spent dIni w
           = (Inr \<lparr>success = False, data = None, error = Some (timedOutError (makeCallBreaker p)),
                   retryCount = None,
                   circuitBreakerState = Some (jsString
                     (opened (recordFailure (aged (requestTimeout (makeCallBreaker p)) (makeCallBreaker p)))))\<rparr>,
              p\<lparr>makeCallBreaker := recordFailure (aged (requestTimeout (makeCallBreaker p)) (makeCallBreaker p))\<rparr>,
              worldAfter dIni (Suc k) w, tr)"
proof -
  from assms(2) have le: "k \<le> rsMaxRetries (retrySettingsOf plivoFlavour (plivoConfig p))"
    by (simp add: plivoMaxRetries_def)
  from assms(3) have rf: "rejectsFirst dIni k w" and oc: "outcomeAt dIni k w = Inr vIni"
    by (simp_all add: failsThenSucceeds_def)
  from assms(4) have tm: "requestTimeout (makeCallBreaker p) \<le> runTime spent (retrySettingsOf plivoFlavour (plivoConfig p)) dIni k w"
    by (simp add: plivoRunTime_def)
  from guardedCall_times_out [OF assms(1) le rf oc tm, of "''initiateRecordedCall''" "(\<lambda>result. \<lparr>callUuid = ircCallUuid result, icMessage = ircMessage result, apiId = ircApiId result\<rparr>)"]
  show ?thesis unfolding initiateRecordedCall_def by auto
qed

lemma initiateRecordedCall_exhausts:
  assumes "cbState (makeCallBreaker p) \<noteq> Open"
    and "rejectsFirst dIni (Suc (plivoMaxRetries p)) w"
  shows "\<exists>e tr. outcomeAt dIni (plivoMaxRetries p) w = Inl e
         \<and> initiateRecordedCall p spent dIni w
           = (Inr \<lparr>success = False, data = None,
                   error = Some (if requestTimeout (makeCallBreaker p) \<le> plivoRunTime p spent dIni (plivoMaxRetries p) w
                                 then timedOutError (makeCallBreaker p) else toError e),
                   retryCount = None,
                   circuitBreakerState = Some (jsString (opened (recordFailure (aged
                     (min (requestTimeout (makeCallBreaker p)) (plivoRunTime p spent dIni (plivoMaxRetries p) w)) (makeCallBreaker p)))))\<rparr>,
              p\<lparr>makeCallBreaker := recordFailure (aged
                     (min (requestTimeout (makeCallBreaker p)) (plivoRunTime p spent dIni (plivoMaxRetries p) w)) (makeCallBreaker p))\<rparr>,
              worldAfter dIni (Suc (plivoMaxRetries p)) w, tr)"
proof -
  from assms(2) have rf: "rejectsFirst dIni (Suc (rsMaxRetries (retrySettingsOf plivoFlavour (plivoConfig p)))) w"
    by (simp add: plivoMaxRetries_def)
  from guardedCall_exhausts [OF assms(1) rf, of "''initiateRecordedCall''" spent "(\<lambda>result. \<lparr>callUuid = ircCallUuid result, icMessage = ircMessage result, apiId = ircApiId result\<rparr>)"]
  show ?thesis unfolding initiateRecordedCall_def plivoMaxRetries_def plivoRunTime_def by auto
qed

lemma initiateRecordedCall_envelope:
  "\<exists>env. fst (initiateRecordedCall p spent dIni w) = Inr env
     \<and> exactlyOneOfDataError env
     \<and> (\<not> success env \<longrightarrow> retryCount env = None)
     \<and> circuitBreakerState env = Some (jsString (opened (makeCallBreaker (fst (snd (initiateRecordedCall p spent dIni w))))))
     \<and> (cbState (makeCallBreaker p) \<noteq> Open \<longrightarrow>
          (\<exists>t ok. samples (makeCallBreaker (fst (snd (initiateRecordedCall p spent dIni w)))) = (0, ok) # samples (aged t (makeCallBreaker p))))"
proof (cases rule: guardedCall_cases [where breaker = "makeCallBreaker p" and fl = plivoFlavour and config = "plivoConfig p" and operationName = "''initiateRecordedCall''" and spent = spent and delegate = dIni and shape = "(\<lambda>result. \<lparr>callUuid = ircCallUuid result, icMessage = ircMessage result, apiId = ircApiId result\<rparr>)" and w = w])
  case rejected
  then show ?thesis unfolding initiateRecordedCall_def
    by (simp add: exactlyOneOfDataError_def jsString_def opened_def)
next
  case (resolved v n w' tr t)
  have "\<exists>u ok. (0, True) # samples (aged t (makeCallBreaker p)) = (0, ok) # samples (aged u (makeCallBreaker p))"
    by blast
  with resolved show ?thesis unfolding initiateRecordedCall_def
    by (simp add: exactlyOneOfDataError_def jsString_def recordSuccess_simps)
next
  case (failed e w' tr t)
  have "\<exists>u ok. (0, False) # samples (aged t (makeCallBreaker p)) = (0, ok) # samples (aged u (makeCallBreaker p))"
    by blast
  with failed show ?thesis unfolding initiateRecordedCall_def
    by (simp add: exactlyOneOfDataError_def samples_recordFailure)
qed

subsection \<open>\<^verbatim>\<open>makeCall\<close>\<close>

lemma makeCall_open:
  assumes "cbState (makeCallBreaker p) = Open"
  shows "makeCall p spent dMak w
           = (Inr \<lparr>success = False, data = None, error = Some (JsError ''Error'' ''Breaker is open''),
                   retryCount = None, circuitBreakerState = Some ''true''\<rparr>, p, w, [])"
  unfolding makeCall_def by (simp add: guardedCall_open [OF assms])

lemma makeCall_succeeds:
  assumes "cbState (makeCallBreaker p) \<noteq> Open"
    and "k \<le> plivoMaxRetries p"
    and "failsThenSucceeds dMak k w vMak"
    and "plivoRunTime p spent dMak k w < requestTimeout (makeCallBreaker p)"
  shows "\<exists>tr. makeCall p spent dMak w
           = (Inr \<lparr>success = True, data = Some vMak, error = None,
                   retryCount = Some (k + 1), circuitBreakerState = Some ''false''\<rparr>,
              p\<lparr>makeCallBreaker := recordSuccess (aged (plivoRunTime p spent dMak k w) (makeCallBreaker p))\<rparr>,
              worldAfter dMak (Suc k) w, tr)"
proof -
  from assms(2) have le: "k \<le> rsMaxRetries (retrySettingsOf plivoFlavour (plivoConfig p))"
    by (simp add: plivoMaxRetries_def)
  from assms(3) have rf: "rejectsFirst dMak k w" and oc: "outcomeAt dMak k w = Inr vMak"
    by (simp_all add: failsThenSucceeds_def)
  from assms(4) have tm: "runTime spent (retrySettingsOf plivoFlavour (plivoConfig p)) dMak k w < requestTimeout (makeCallBreaker p)"
    by (simp add: plivoRunTime_def)
  from guardedCall_succeeds [OF assms(1) le rf oc tm, of "''makeCall''" "(\<lambda>result. \<lparr>request_uuid = request_uuid result, mcMessage = mcMessage result, api_id = api_id result\<rparr>)"]
  show ?thesis unfolding makeCall_def plivoRunTime_def by auto
qed

lemma makeCall_times_out:
  assumes "cbState (makeCallBreaker p) \<noteq> Open"
    and "k \<le> plivoMaxRetries p"
    and "failsThenSucceeds dMak k w vMak"
    and "requestTimeout (makeCallBreaker p) \<le> plivoRunTime p spent dMak k w"
  shows "\<exists>tr. makeCall p spent dMak w
           = (Inr \<lparr>success = False, data = None, error = Some (timedOutError (makeCallBreaker p)),
                   retryCount = None,
                   circuitBreakerState = Some (jsString
                     (opened (recordFailure (aged (requestTimeout (makeCallBreaker p)) (makeCallBreaker p)))))\<rparr>,
              p\<lparr>makeCallBreaker := recordFailure (aged (requestTimeout (makeCallBreaker p)) (makeCallBreaker p))\<rparr>,
              worldAfter dMak (Suc k) w, tr)"
proof -
  from assms(2) have le: "k \<le> rsMaxRetries (retrySettingsOf plivoFlavour (plivoConfig p))"
    by (simp add: plivoMaxRetries_def)
  from assms(3) have rf: "rejectsFirst dMak k w" and oc: "outcomeAt dMak k w = Inr vMak"
    by (simp_all add: failsThenSucceeds_def)
  from assms(4) have tm: "requestTimeout (makeCallBreaker p) \<le> runTime spent (retrySettingsOf plivoFlavour (plivoConfig p)) dMak k w"
    by (simp add: plivoRunTime_def)
  from guardedCall_times_out [OF assms(1) le rf oc tm, of "''makeCall''" "(\<lambda>result. \<lparr>request_uuid = request_uuid result, mcMessage = mcMessage result, api_id = api_id result\<rparr>)"]
  show ?thesis unfolding makeCall_def by auto
qed

lemma makeCall_exhausts:
  assumes "cbState (makeCallBreaker p) \<noteq> Open"
    and "rejectsFirst dMak (Suc (plivoMaxRetries p)) w"
  shows "\<exists>e tr. outcomeAt dMak (plivoMaxRetries p) w = Inl e
         \<and> makeCall p spent dMak w
           = (Inr \<lparr>success = False, data = None,
                   error = Some (if requestTimeout (makeCallBreaker p) \<le> plivoRunTime p spent dMak (plivoMaxRetries p) w
                                 then timedOutError (makeCallBreaker p) else toError e),
                   retryCount = None,
                   circuitBreakerState = Some (jsString (opened (recordFailure (aged
                     (min (requestTimeout (makeCallBreaker p)) (plivoRunTime p spent dMak (plivoMaxRetries p) w)) (makeCallBreaker p)))))\<rparr>,
              p\<lparr>makeCallBreaker := recordFailure (aged
                     (min (requestTimeout (makeCallBreaker p)) (plivoRunTime p spent dMak (plivoMaxRetries p) w)) (makeCallBreaker p))\<rparr>,
              worldAfter dMak (Suc (plivoMaxRetries p)) w, tr)"
proof -
  from assms(2) have rf: "rejectsFirst dMak (Suc (rsMaxRetries (retrySettingsOf plivoFlavour (plivoConfig p)))) w"
    by (simp add: plivoMaxRetries_def)
  from guardedCall_exhausts [OF assms(1) rf, of "''makeCall''" spent "(\<lambda>result. \<lparr>request_uuid = request_uuid result, mcMessage = mcMessage result, api_id = api_id result\<rparr>)"]
  show ?thesis unfolding makeCall_def plivoMaxRetries_def plivoRunTime_def by auto
qed

lemma makeCall_envelope:
  "\<exists>env. fst (makeCall p spent dMak w) = Inr env
     \<and> exactlyOneOfDataError env
     \<and> (\<not> success env \<longrightarrow> retryCount env = None)
     \<and> circuitBreakerState env = Some (jsString (opened (makeCallBreaker (fst (snd (makeCall p spent dMak w))))))
     \<and> (cbState (makeCallBreaker p) \<noteq> Open \<longrightarrow>
          (\<exists>t ok. samples (makeCallBreaker (fst (snd (makeCall p spent dMak w)))) = (0, ok) # samples (aged t (makeCallBreaker p))))"
proof (cases rule: guardedCall_cases [where breaker = "makeCallBreaker p" and fl = plivoFlavour and config = "plivoConfig p" and operationName = "''makeCall''" and spent = spent and delegate = dMak and shape = "(\<lambda>result. \<lparr>request_uuid = request_uuid result, mcMessage = mcMessage result, api_id = api_id result\<rparr>)" and w = w])
  case rejected
  then show ?thesis unfolding makeCall_def
    by (simp add: exactlyOneOfDataError_def jsString_def opened_def)
next
  case (resolved v n w' tr t)
  have "\<exists>u ok. (0, True) # samples (aged t (makeCallBreaker p)) = (0, ok) # samples (aged u (makeCallBreaker p))"
    by blast
  with resolved show ?thesis unfolding makeCall_def
    by (simp add: exactlyOneOfDataError_def jsString_def recordSuccess_simps)
next
  case (failed e w' tr t)
  have "\<exists>u ok. (0, False) # samples (aged t (makeCallBreaker p)) = (0, ok) # samples (aged u (makeCallBreaker p))"
    by blast
  with failed show ?thesis unfolding makeCall_def
    by (simp add: exactlyOneOfDataError_def samples_recordFailure)
qed

subsection \<open>\<^verbatim>\<open>getCallDetails\<close>\<close>

lemma getCallDetails_open:
  assumes "cbState (getCallDetailsBreaker p) = Open"
  shows "getCallDetails p spent dDet w
           = (Inr \<lparr>success = False, data = None, error = Some (JsError ''Error'' ''Breaker is open''),
                   retryCount = None, circuitBreakerState = Some ''true''\<rparr>, p, w, [])"
  unfolding getCallDetails_def by (simp add: guardedCall_open [OF assms])

lemma getCallDetails_succeeds:
  assumes "cbState (getCallDetailsBreaker p) \<noteq> Open"
    and "k \<le> plivoMaxRetries p"
    and "failsThenSucceeds dDet k w vDet"
    and "plivoRunTime p spent dDet k w < requestTimeout (getCallDetailsBreaker p)"
  shows "\<exists>tr. getCallDetails p spent dDet w
           = (Inr \<lparr>success = True, data = Some vDet, error = None,
                   retryCount = Some (k + 1), circuitBreakerState = Some ''false''\<rparr>,
              p\<lparr>getCallDetailsBreaker := recordSuccess (aged (plivoRunTime p spent dDet k w) (getCallDetailsBreaker p))\<rparr>,
              worldAfter dDet (Suc k) w, tr)"
proof -
  from assms(2) have le: "k \<le> rsMaxRetries (retrySettingsOf plivoFlavour (plivoConfig p))"
    by (simp add: plivoMaxRetries_def)
  from assms(3) have rf: "rejectsFirst dDet k w" and oc: "outcomeAt dDet k w = Inr vDet"
    by (simp_all add: failsThenSucceeds_def)
  from assms(4) have tm: "runTime spent (retrySettingsOf plivoFlavour (plivoConfig p)) dDet k w < requestTimeout (getCallDetailsBreaker p)"
    by (simp add: plivoRunTime_def)
  from guardedCall_succeeds [OF assms(1) le rf oc tm, of "''getCallDetails''" "(\<lambda>result. result)"]
  show ?thesis unfolding getCallDetails_def plivoRunTime_def by auto
qed

lemma getCallDetails_times_out:
  assumes "cbState (getCallDetailsBreaker p) \<noteq> Open"
    and "k \<le> plivoMaxRetries p"
    and "failsThenSucceeds dDet k w vDet"
    and "requestTimeout (getCallDetailsBreaker p) \<le> plivoRunTime p spent dDet k w"
  shows "\<exists>tr. getCallDetails p spent dDet w
           = (Inr \<lparr>success = False, data = None, error = Some (timedOutError (getCallDetailsBreaker p)),
                   retryCount = None,
                   circuitBreakerState = Some (jsString
                     (opened (recordFailure (aged (requestTimeout (getCallDetailsBreaker p)) (getCallDetailsBreaker p)))))\<rparr>,
              p\<lparr>getCallDetailsBreaker := recordFailure (aged (requestTimeout (getCallDetailsBreaker p)) (getCallDetailsBreaker p))\<rparr>,
              worldAfter dDet (Suc k) w, tr)"
proof -
  from assms(2) have le: "k \<le> rsMaxRetries (retrySettingsOf plivoFlavour (plivoConfig p))"
    by (simp add: plivoMaxRetries_def)
  from assms(3) have rf: "rejectsFirst dDet k w" and oc: "outcomeAt dDet k w = Inr vDet"
    by (simp_all add: failsThenSucceeds_def)
  from assms(4) have tm: "requestTimeout (getCallDetailsBreaker p) \<le> runTime spent (retrySettingsOf plivoFlavour (plivoConfig p)) dDet k w"
    by (simp add: plivoRunTime_def)
  from guardedCall_times_out [OF assms(1) le rf oc tm, of "''getCallDetails''" "(\<lambda>result. result)"]
  show ?thesis unfolding getCallDetails_def by auto
qed

lemma getCallDetails_exhausts:
  assumes "cbState (getCallDetailsBreaker p) \<noteq> Open"
    and "rejectsFirst dDet (Suc (plivoMaxRetries p)) w"
  shows "\<exists>e tr. outcomeAt dDet (plivoMaxRetries p) w = Inl e
         \<and> getCallDetails p spent dDet w
           = (Inr \<lparr>success = False, data = None,
                   error = Some (if requestTimeout (getCallDetailsBreaker p) \<le> plivoRunTime p spent dDet (plivoMaxRetries p) w
                                 then timedOutError (getCallDetailsBreaker p) else toError e),
                   retryCount = None,
                   circuitBreakerState = Some (jsString (opened (recordFailure (aged
                     (min (requestTimeout (getCallDetailsBreaker p)) (plivoRunTime p spent dDet (plivoMaxRetries p) w)) (getCallDetailsBreaker p)))))\<rparr>,
              p\<lparr>getCallDetailsBreaker := recordFailure (aged
                     (min (requestTimeout (getCallDetailsBreaker p)) (plivoRunTime p spent dDet (plivoMaxRetries p) w)) (getCallDetailsBreaker p))\<rparr>,
              worldAfter dDet (Suc (plivoMaxRetries p)) w, tr)"
proof -
  from assms(2) have rf: "rejectsFirst dDet (Suc (rsMaxRetries (retrySettingsOf plivoFlavour (plivoConfig p)))) w"
    by (simp add: plivoMaxRetries_def)
  from guardedCall_exhausts [OF assms(1) rf, of "''getCallDetails''" spent "(\<lambda>result. result)"]
  show ?thesis unfolding getCallDetails_def plivoMaxRetries_def plivoRunTime_def by auto
qed

lemma getCallDetails_envelope:
  "\<exists>env. fst (getCallDetails p spent dDet w) = Inr env
     \<and> exactlyOneOfDataError env
     \<and> (\<not> success env \<longrightarrow> retryCount env = None)
     \<and> circuitBreakerState env = Some (jsString (opened (getCallDetailsBreaker (fst (snd (getCallDetails p spent dDet w))))))
     \<and> (cbState (getCallDetailsBreaker p) \<noteq> Open \<longrightarrow>
          (\<exists>t ok. samples (getCallDetailsBreaker (fst (snd (getCallDetails p spent dDet w)))) = (0, ok) # samples (aged t (getCallDetailsBreaker p))))"
proof (cases rule: guardedCall_cases [where breaker = "getCallDetailsBreaker p" and fl = plivoFlavour and config = "plivoConfig p" and operationName = "''getCallDetails''" and spent = spent and delegate = dDet and shape = "(\<lambda>result. result)" and w = w])
  case rejected
  then show ?thesis unfolding getCallDetails_def
    by (simp add: exactlyOneOfDataError_def jsString_def opened_def)
next
  case (resolved v n w' tr t)
  have "\<exists>u ok. (0, True) # samples (aged t (getCallDetailsBreaker p)) = (0, ok) # samples (aged u (getCallDetailsBreaker p))"
    by blast
  with resolved show ?thesis unfolding getCallDetails_def
    by (simp add: exactlyOneOfDataError_def jsString_def recordSuccess_simps)
next
  case (failed e w' tr t)
  have "\<exists>u ok. (0, False) # samples (aged t (getCallDetailsBreaker p)) = (0, ok) # samples (aged u (getCallDetailsBreaker p))"
    by blast
  with failed show ?thesis unfolding getCallDetails_def
    by (simp add: exactlyOneOfDataError_def samples_recordFailure)
qed

subsection \<open>\<^verbatim>\<open>transcribeRecording\<close>\<close>

lemma transcribeRecording_open:
  assumes "cbState (transcribeBreaker g) = Open"
  shows "transcribeRecording g spent dRec w
           = (Inr \<lparr>success = False, data = None, error = Some (JsError ''Error'' ''Breaker is open''),
                   retryCount = None, circuitBreakerState = Some ''true''\<rparr>, g, w, [])"
  unfolding transcribeRecording_def transcribeVia_def by (simp add: guardedCall_open [OF assms])

lemma transcribeRecording_succeeds:
  assumes "cbState (transcribeBreaker g) \<noteq> Open"
    and "k \<le> deepgramMaxRetries g"
    and "failsThenSucceeds dRec k w vRec"
    and "deepgramRunTime g spent dRec k w < requestTimeout (transcribeBreaker g)"
  shows "\<exists>tr. transcribeRecording g spent dRec w
           = (Inr \<lparr>success = True, data = Some vRec, error = None,
                   retryCount = Some (k + 1), circuitBreakerState = Some ''false''\<rparr>,
              g\<lparr>transcribeBreaker := recordSuccess (aged (deepgramRunTime g spent dRec k w) (transcribeBreaker g))\<rparr>,
              worldAfter dRec (Suc k) w, tr)"
proof -
  from assms(2) have le: "k \<le> rsMaxRetries (retrySettingsOf deepgramFlavour (deepgramConfig g))"
    by (simp add: deepgramMaxRetries_def)
  from assms(3) have rf: "rejectsFirst dRec k w" and oc: "outcomeAt dRec k w = Inr vRec"
    by (simp_all add: failsThenSucceeds_def)
  from assms(4) have tm: "runTime spent (retrySettingsOf deepgramFlavour (deepgramConfig g)) dRec k w < requestTimeout (transcribeBreaker g)"
    by (simp add: deepgramRunTime_def)
  from guardedCall_succeeds [OF assms(1) le rf oc tm, of "''transcribeRecording''" "(\<lambda>result. result)"]
  show ?thesis unfolding transcribeRecording_def transcribeVia_def deepgramRunTime_def by auto
qed

lemma transcribeRecording_times_out:
  assumes "cbState (transcribeBreaker g) \<noteq> Open"
    and "k \<le> deepgramMaxRetries g"
    and "failsThenSucceeds dRec k w vRec"
    and "requestTimeout (transcribeBreaker g) \<le> deepgramRunTime g spent dRec k w"
  shows "\<exists>tr. transcribeRecording g spent dRec w
           = (Inr \<lparr>success = False, data = None, error = Some (timedOutError (transcribeBreaker g)),
                   retryCount = None,
                   circuitBreakerState = Some (jsString
                     (opened (recordFailure (aged (requestTimeout (transcribeBreaker g)) (transcribeBreaker g)))))\<rparr>,
              g\<lparr>transcribeBreaker := recordFailure (aged (requestTimeout (transcribeBreaker g)) (transcribeBreaker g))\<rparr>,
              worldAfter dRec (Suc k) w, tr)"
proof -
  from assms(2) have le: "k \<le> rsMaxRetries (retrySettingsOf deepgramFlavour (deepgramConfig g))"
    by (simp add: deepgramMaxRetries_def)
  from assms(3) have rf: "rejectsFirst dRec k w" and oc: "outcomeAt dRec k w = Inr vRec"
    by (simp_all add: failsThenSucceeds_def)
  from assms(4) have tm: "requestTimeout (transcribeBreaker g) \<le> runTime spent (retrySettingsOf deepgramFlavour (deepgramConfig g)) dRec k w"
    by (simp add: deepgramRunTime_def)
  from guardedCall_times_out [OF assms(1) le rf oc tm, of "''transcribeRecording''" "(\<lambda>result. result)"]
  show ?thesis unfolding transcribeRecording_def transcribeVia_def by auto
qed

lemma transcribeRecording_exhausts:
  assumes "cbState (transcribeBreaker g) \<noteq> Open"
    and "rejectsFirst dRec (Suc (deepgramMaxRetries g)) w"
  shows "\<exists>e tr. outcomeAt dRec (deepgramMaxRetries g) w = Inl e
         \<and> transcribeRecording g spent dRec w
           = (Inr \<lparr>success = False, data = None,
                   error = Some (if requestTimeout (transcribeBreaker g) \<le> deepgramRunTime g spent dRec (deepgramMaxRetries g) w
                                 then timedOutError (transcribeBreaker g) else toError e),
                   retryCount = None,
                   circuitBreakerState = Some (jsString (opened (recordFailure (aged
                     (min (requestTimeout (transcribeBreaker g)) (deepgramRunTime g spent dRec (deepgramMaxRetries g) w)) (transcribeBreaker g)))))\<rparr>,
              g\<lparr>transcribeBreaker := recordFailure (aged
                     (min (requestTimeout (transcribeBreaker g)) (deepgramRunTime g spent dRec (deepgramMaxRetries g) w)) (transcribeBreaker g))\<rparr>,
              worldAfter dRec (Suc (deepgramMaxRetries g)) w, tr)"
proof -
  from assms(2) have rf: "rejectsFirst dRec (Suc (rsMaxRetries (retrySettingsOf deepgramFlavour (deepgramConfig g)))) w"
    by (simp add: deepgramMaxRetries_def)
  from guardedCall_exhausts [OF assms(1) rf, of "''transcribeRecording''" spent "(\<lambda>result. result)"]
  show ?thesis unfolding transcribeRecording_def transcribeVia_def deepgramMaxRetries_def deepgramRunTime_def by auto
qed

lemma transcribeRecording_envelope:
  "\<exists>env. fst (transcribeRecording g spent dRec w) = Inr env
     \<and> exactlyOneOfDataError env
     \<and> (\<not> success env \<longrightarrow> retryCount env = None)
     \<and> circuitBreakerState env = Some (jsString (opened (transcribeBreaker (fst (snd (transcribeRecording g spent dRec w))))))
     \<and> (cbState (transcribeBreaker g) \<noteq> Open \<longrightarrow>
          (\<exists>t ok. samples (transcribeBreaker (fst (snd (transcribeRecording g spent dRec w)))) = (0, ok) # samples (aged t (transcribeBreaker g))))"
proof (cases rule: guardedCall_cases [where breaker = "transcribeBreaker g" and fl = deepgramFlavour and config = "deepgramConfig g" and operationName = "''transcribeRecording''" and spent = spent and delegate = dRec and shape = "(\<lambda>result. result)" and w = w])
  case rejected
  then show ?thesis unfolding transcribeRecording_def transcribeVia_def
    by (simp add: exactlyOneOfDataError_def jsString_def opened_def)
next
  case (resolved v n w' tr t)
  have "\<exists>u ok. (0, True) # samples (aged t (transcribeBreaker g)) = (0, ok) # samples (aged u (transcribeBreaker g))"
    by blast
  with resolved show ?thesis unfolding transcribeRecording_def transcribeVia_def
    by (simp add: exactlyOneOfDataError_def jsString_def recordSuccess_simps)
next
  case (failed e w' tr t)
  have "\<exists>u ok. (0, False) # samples (aged t (transcribeBreaker g)) = (0, ok) # samples (aged u (transcribeBreaker g))"
    by blast
  with failed show ?thesis unfolding transcribeRecording_def transcribeVia_def
    by (simp add: exactlyOneOfDataError_def samples_recordFailure)
qed

subsection \<open>\<^verbatim>\<open>transcribeUrl\<close>\<close>

lemma transcribeUrl_open:
  assumes "cbState (transcribeBreaker g) = Open"
  shows "transcribeUrl g spent dUrl w
           = (Inr \<lparr>success = False, data = None, error = Some (JsError ''Error'' ''Breaker is open''),
                   retryCount = None, circuitBreakerState = Some ''true''\<rparr>, g, w, [])"
  unfolding transcribeUrl_def transcribeVia_def by (simp add: guardedCall_open [OF assms])

lemma transcribeUrl_succeeds:
  assumes "cbState (transcribeBreaker g) \<noteq> Open"
    and "k \<le> deepgramMaxRetries g"
    and "failsThenSucceeds dUrl k w vUrl"
    and "deepgramRunTime g spent dUrl k w < requestTimeout (transcribeBreaker g)"
  shows "\<exists>tr. transcribeUrl g spent dUrl w
           = (Inr \<lparr>success = True, data = Some vUrl, error = None,
                   retryCount = Some (k + 1), circuitBreakerState = Some ''false''\<rparr>,
              g\<lparr>transcribeBreaker := recordSuccess (aged (deepgramRunTime g spent dUrl k w) (transcribeBreaker g))\<rparr>,
              worldAfter dUrl (Suc k) w, tr)"
proof -
  from assms(2) have le: "k \<le> rsMaxRetries (retrySettingsOf deepgramFlavour (deepgramConfig g))"
    by (simp add: deepgramMaxRetries_def)
  from assms(3) have rf: "rejectsFirst dUrl k w" and oc: "outcomeAt dUrl k w = Inr vUrl"
    by (simp_all add: failsThenSucceeds_def)
  from assms(4) have tm: "runTime spent (retrySettingsOf deepgramFlavour (deepgramConfig g)) dUrl k w < requestTimeout (transcribeBreaker g)"
    by (simp add: deepgramRunTime_def)
  from guardedCall_succeeds [OF assms(1) le rf oc tm, of "''transcribeUrl''" "(\<lambda>result. result)"]
  show ?thesis unfolding transcribeUrl_def transcribeVia_def deepgramRunTime_def by auto
qed

lemma transcribeUrl_times_out:
  assumes "cbState (transcribeBreaker g) \<noteq> Open"
    and "k \<le> deepgramMaxRetries g"
    and "failsThenSucceeds dUrl k w vUrl"
    and "requestTimeout (transcribeBreaker g) \<le> deepgramRunTime g spent dUrl k w"
  shows "\<exists>tr. transcribeUrl g spent dUrl w
           = (Inr \<lparr>success = False, data = None, error = Some (timedOutError (transcribeBreaker g)),
                   retryCount = None,
                   circuitBreakerState = Some (jsString
                     (opened (recordFailure (aged (requestTimeout (transcribeBreaker g)) (transcribeBreaker g)))))\<rparr>,
              g\<lparr>transcribeBreaker := recordFailure (aged (requestTimeout (transcribeBreaker g)) (transcribeBreaker g))\<rparr>,
              worldAfter dUrl (Suc k) w, tr)"
proof -
  from assms(2) have le: "k \<le> rsMaxRetries (retrySettingsOf deepgramFlavour (deepgramConfig g))"
    by (simp add: deepgramMaxRetries_def)
  from assms(3) have rf: "rejectsFirst dUrl k w" and oc: "outcomeAt dUrl k w = Inr vUrl"
    by (simp_all add: failsThenSucceeds_def)
  from assms(4) have tm: "requestTimeout (transcribeBreaker g) \<le> runTime spent (retrySettingsOf deepgramFlavour (deepgramConfig g)) dUrl k w"
    by (simp add: deepgramRunTime_def)
  from guardedCall_times_out [OF assms(1) le rf oc tm, of "''transcribeUrl''" "(\<lambda>result. result)"]
  show ?thesis unfolding transcribeUrl_def transcribeVia_def by auto
qed

lemma transcribeUrl_exhausts:
  assumes "cbState (transcribeBreaker g) \<noteq> Open"
    and "rejectsFirst dUrl (Suc (deepgramMaxRetries g)) w"
  shows "\<exists>e tr. outcomeAt dUrl (deepgramMaxRetries g) w = Inl e
         \<and> transcribeUrl g spent dUrl w
           = (Inr \<lparr>success = False, data = None,
                   error = Some (if requestTimeout (transcribeBreaker g) \<le> deepgramRunTime g spent dUrl (deepgramMaxRetries g) w
                                 then timedOutError (transcribeBreaker g) else toError e),
                   retryCount = None,
                   circuitBreakerState = Some (jsString (opened (recordFailure (aged
                     (min (requestTimeout (transcribeBreaker g)) (deepgramRunTime g spent dUrl (deepgramMaxRetries g) w)) (transcribeBreaker g)))))\<rparr>,
              g\<lparr>transcribeBreaker := recordFailure (aged
                     (min (requestTimeout (transcribeBreaker g)) (deepgramRunTime g spent dUrl (deepgramMaxRetries g) w)) (transcribeBreaker g))\<rparr>,
              worldAfter dUrl (Suc (deepgramMaxRetries g)) w, tr)"
proof -
  from assms(2) have rf: "rejectsFirst dUrl (Suc (rsMaxRetries (retrySettingsOf deepgramFlavour (deepgramConfig g)))) w"
    by (simp add: deepgramMaxRetries_def)
  from guardedCall_exhausts [OF assms(1) rf, of "''transcribeUrl''" spent "(\<lambda>result. result)"]
  show ?thesis unfolding transcribeUrl_def transcribeVia_def deepgramMaxRetries_def deepgramRunTime_def by auto
qed

lemma transcribeUrl_envelope:
  "\<exists>env. fst (transcribeUrl g spent dUrl w) = Inr env
     \<and> exactlyOneOfDataError env
     \<and> (\<not> success env \<longrightarrow> retryCount env = None)
     \<and> circuitBreakerState env = Some (jsString (opened (transcribeBreaker (fst (snd (transcribeUrl g spent dUrl w))))))
     \<and> (cbState (transcribeBreaker g) \<noteq> Open \<longrightarrow>
          (\<exists>t ok. samples (transcribeBreaker (fst (snd (transcribeUrl g spent dUrl w)))) = (0, ok) # samples (aged t (transcribeBreaker g))))"
proof (cases rule: guardedCall_cases [where breaker = "transcribeBreaker g" and fl = deepgramFlavour and config = "deepgramConfig g" and operationName = "''transcribeUrl''" and spent = spent and delegate = dUrl and shape = "(\<lambda>result. result)" and w = w])
  case rejected
  then show ?thesis unfolding transcribeUrl_def transcribeVia_def
    by (simp add: exactlyOneOfDataError_def jsString_def opened_def)
next
  case (resolved v n w' tr t)
  have "\<exists>u ok. (0, True) # samples (aged t (transcribeBreaker g)) = (0, ok) # samples (aged u (transcribeBreaker g))"
    by blast
  with resolved show ?thesis unfolding transcribeUrl_def transcribeVia_def
    by (simp add: exactlyOneOfDataError_def jsString_def recordSuccess_simps)
next
  case (failed e w' tr t)
  have "\<exists>u ok. (0, False) # samples (aged t (transcribeBreaker g)) = (0, ok) # samples (aged u (transcribeBreaker g))"
    by blast
  with failed show ?thesis unfolding transcribeUrl_def transcribeVia_def
    by (simp add: exactlyOneOfDataError_def samples_recordFailure)
qed

subsection \<open>\<^verbatim>\<open>transcribeWithInsights\<close>\<close>

lemma transcribeWithInsights_open:
  assumes "cbState (transcribeBreaker g) = Open"
  shows "transcribeWithInsights g spent dIns w
           = (Inr \<lparr>success = False, data = None, error = Some (JsError ''Error'' ''Breaker is open''),
                   retryCount = None, circuitBreakerState = Some ''true''\<rparr>, g, w, [])"
  unfolding transcribeWithInsights_def transcribeVia_def by (simp add: guardedCall_open [OF assms])

lemma transcribeWithInsights_succeeds:
  assumes "cbState (transcribeBreaker g) \<noteq> Open"
    and "k \<le> deepgramMaxRetries g"
    and "failsThenSucceeds dIns k w vIns"
    and "deepgramRunTime g spent dIns k w < requestTimeout (transcribeBreaker g)"
  shows "\<exists>tr. transcribeWithInsights g spent dIns w
           = (Inr \<lparr>success = True, data = Some vIns, error = None,
                   retryCount = Some (k + 1), circuitBreakerState = Some ''false''\<rparr>,
              g\<lparr>transcribeBreaker := recordSuccess (aged (deepgramRunTime g spent dIns k w) (transcribeBreaker g))\<rparr>,
              worldAfter dIns (Suc k) w, tr)"
proof -
  from assms(2) have le: "k \<le> rsMaxRetries (retrySettingsOf deepgramFlavour (deepgramConfig g))"
    by (simp add: deepgramMaxRetries_def)
  from assms(3) have rf: "rejectsFirst dIns k w" and oc: "outcomeAt dIns k w = Inr vIns"
    by (simp_all add: failsThenSucceeds_def)
  from assms(4) have tm: "runTime spent (retrySettingsOf deepgramFlavour (deepgramConfig g)) dIns k w < requestTimeout (transcribeBreaker g)"
    by (simp add: deepgramRunTime_def)
  from guardedCall_succeeds [OF assms(1) le rf oc tm, of "''transcribeWithInsights''" "(\<lambda>result. result)"]
  show ?thesis unfolding transcribeWithInsights_def transcribeVia_def deepgramRunTime_def by auto
qed

lemma transcribeWithInsights_times_out:
  assumes "cbState (transcribeBreaker g) \<noteq> Open"
    and "k \<le> deepgramMaxRetries g"
    and "failsThenSucceeds dIns k w vIns"
    and "requestTimeout (transcribeBreaker g) \<le> deepgramRunTime g spent dIns k w"
  shows "\<exists>tr. transcribeWithInsights g spent dIns w
           = (Inr \<lparr>success = False, data = None, error = Some (timedOutError (transcribeBreaker g)),
                   retryCount = None,
                   circuitBreakerState = Some (jsString
                     (opened (recordFailure (aged (requestTimeout (transcribeBreaker g)) (transcribeBreaker g)))))\<rparr>,
              g\<lparr>transcribeBreaker := recordFailure (aged (requestTimeout (transcribeBreaker g)) (transcribeBreaker g))\<rparr>,
              worldAfter dIns (Suc k) w, tr)"
proof -
  from assms(2) have le: "k \<le> rsMaxRetries (retrySettingsOf deepgramFlavour (deepgramConfig g))"
    by (simp add: deepgramMaxRetries_def)
  from assms(3) have rf: "rejectsFirst dIns k w" and oc: "outcomeAt dIns k w = Inr vIns"
    by (simp_all add: failsThenSucceeds_def)
  from assms(4) have tm: "requestTimeout (transcribeBreaker g) \<le> runTime spent (retrySettingsOf deepgramFlavour (deepgramConfig g)) dIns k w"
    by (simp add: deepgramRunTime_def)
  from guardedCall_times_out [OF assms(1) le rf oc tm, of "''transcribeWithInsights''" "(\<lambda>result. result)"]
  show ?thesis unfolding transcribeWithInsights_def transcribeVia_def by auto
qed

lemma transcribeWithInsights_exhausts:
  assumes "cbState (transcribeBreaker g) \<noteq> Open"
    and "rejectsFirst dIns (Suc (deepgramMaxRetries g)) w"
  shows "\<exists>e tr. outcomeAt dIns (deepgramMaxRetries g) w = Inl e
         \<and> transcribeWithInsights g spent dIns w
           = (Inr \<lparr>success = False, data = None,
                   error = Some (if requestTimeout (transcribeBreaker g) \<le> deepgramRunTime g spent dIns (deepgramMaxRetries g) w
                                 then timedOutError (transcribeBreaker g) else toError e),
                   retryCount = None,
                   circuitBreakerState = Some (jsString (opened (recordFailure (aged
                     (min (requestTimeout (transcribeBreaker g)) (deepgramRunTime g spent dIns (deepgramMaxRetries g) w)) (transcribeBreaker g)))))\<rparr>,
              g\<lparr>transcribeBreaker := recordFailure (aged
                     (min (requestTimeout (transcribeBreaker g)) (deepgramRunTime g spent dIns (deepgramMaxRetries g) w)) (transcribeBreaker g))\<rparr>,
              worldAfter dIns (Suc (deepgramMaxRetries g)) w, tr)"
proof -
  from assms(2) have rf: "rejectsFirst dIns (Suc (rsMaxRetries (retrySettingsOf deepgramFlavour (deepgramConfig g)))) w"
    by (simp add: deepgramMaxRetries_def)
  from guardedCall_exhausts [OF assms(1) rf, of "''transcribeWithInsights''" spent "(\<lambda>result. result)"]
  show ?thesis unfolding transcribeWithInsights_def transcribeVia_def deepgramMaxRetries_def deepgramRunTime_def by auto
qed

lemma transcribeWithInsights_envelope:
  "\<exists>env. fst (transcribeWithInsights g spent dIns w) = Inr env
     \<and> exactlyOneOfDataError env
     \<and> (\<not> success env \<longrightarrow> retryCount env = None)
     \<and> circuitBreakerState env = Some (jsString (opened (transcribeBreaker (fst (snd (transcribeWithInsights g spent dIns w))))))
     \<and> (cbState (transcribeBreaker g) \<noteq> Open \<longrightarrow>
          (\<exists>t ok. samples (transcribeBreaker (fst (snd (transcribeWithInsights g spent dIns w)))) = (0, ok) # samples (aged t (transcribeBreaker g))))"
proof (cases rule: guardedCall_cases [where breaker = "transcribeBreaker g" and fl = deepgramFlavour and config = "deepgramConfig g" and operationName = "''transcribeWithInsights''" and spent = spent and delegate = dIns and shape = "(\<lambda>result. result)" and w = w])
  case rejected
  then show ?thesis unfolding transcribeWithInsights_def transcribeVia_def
    by (simp add: exactlyOneOfDataError_def jsString_def opened_def)
next
  case (resolved v n w' tr t)
  have "\<exists>u ok. (0, True) # samples (aged t (transcribeBreaker g)) = (0, ok) # samples (aged u (transcribeBreaker g))"
    by blast
  with resolved show ?thesis unfolding transcribeWithInsights_def transcribeVia_def
    by (simp add: exactlyOneOfDataError_def jsString_def recordSuccess_simps)
next
  case (failed e w' tr t)
  have "\<exists>u ok. (0, False) # samples (aged t (transcribeBreaker g)) = (0, ok) # samples (aged u (transcribeBreaker g))"
    by blast
  with failed show ?thesis unfolding transcribeWithInsights_def transcribeVia_def
    by (simp add: exactlyOneOfDataError_def samples_recordFailure)
qed

subsection \<open>\<^verbatim>\<open>transcribeBuffer\<close>\<close>

lemma transcribeBuffer_open:
  assumes "cbState (transcribeBreaker g) = Open"
  shows "transcribeBuffer g spent dBuf w
           = (Inr \<lparr>success = False, data = None, error = Some (JsError ''Error'' ''Breaker is open''),
                   retryCount = None, circuitBreakerState = Some ''true''\<rparr>, g, w, [])"
  unfolding transcribeBuffer_def transcribeVia_def by (simp add: guardedCall_open [OF assms])

lemma transcribeBuffer_succeeds:
  assumes "cbState (transcribeBreaker g) \<noteq> Open"
    and "k \<le> deepgramMaxRetries g"
    and "failsThenSucceeds dBuf k w vBuf"
    and "deepgramRunTime g spent dBuf k w < requestTimeout (transcribeBreaker g)"
  shows "\<exists>tr. transcribeBuffer g spent dBuf w
           = (Inr \<lparr>success = True, data = Some vBuf, error = None,
                   retryCount = Some (k + 1), circuitBreakerState = Some ''false''\<rparr>,
              g\<lparr>transcribeBreaker := recordSuccess (aged (deepgramRunTime g spent dBuf k w) (transcribeBreaker g))\<rparr>,
              worldAfter dBuf (Suc k) w, tr)"
proof -
  from assms(2) have le: "k \<le> rsMaxRetries (retrySettingsOf deepgramFlavour (deepgramConfig g))"
    by (simp add: deepgramMaxRetries_def)
  from assms(3) have rf: "rejectsFirst dBuf k w" and oc: "outcomeAt dBuf k w = Inr vBuf"
    by (simp_all add: failsThenSucceeds_def)
  from assms(4) have tm: "runTime spent (retrySettingsOf deepgramFlavour (deepgramConfig g)) dBuf k w < requestTimeout (transcribeBreaker g)"
    by (simp add: deepgramRunTime_def)
  from guardedCall_succeeds [OF assms(1) le rf oc tm, of "''transcribeBuffer''" "(\<lambda>result. result)"]
  show ?thesis unfolding transcribeBuffer_def transcribeVia_def deepgramRunTime_def by auto
qed

lemma transcribeBuffer_times_out:
  assumes "cbState (transcribeBreaker g) \<noteq> Open"
    and "k \<le> deepgramMaxRetries g"
    and "failsThenSucceeds dBuf k w vBuf"
    and "requestTimeout (transcribeBreaker g) \<le> deepgramRunTime g spent dBuf k w"
  shows "\<exists>tr. transcribeBuffer g spent dBuf w
           = (Inr \<lparr>success = False, data = None, error = Some (timedOutError (transcribeBreaker g)),
                   retryCount = None,
                   circuitBreakerState = Some (jsString
                     (opened (recordFailure (aged (requestTimeout (transcribeBreaker g)) (transcribeBreaker g)))))\<rparr>,
              g\<lparr>transcribeBreaker := recordFailure (aged (requestTimeout (transcribeBreaker g)) (transcribeBreaker g))\<rparr>,
              worldAfter dBuf (Suc k) w, tr)"
proof -
  from assms(2) have le: "k \<le> rsMaxRetries (retrySettingsOf deepgramFlavour (deepgramConfig g))"
    by (simp add: deepgramMaxRetries_def)
  from assms(3) have rf: "rejectsFirst dBuf k w" and oc: "outcomeAt dBuf k w = Inr vBuf"
    by (simp_all add: failsThenSucceeds_def)
  from assms(4) have tm: "requestTimeout (transcribeBreaker g) \<le> runTime spent (retrySettingsOf deepgramFlavour (deepgramConfig g)) dBuf k w"
    by (simp add: deepgramRunTime_def)
  from guardedCall_times_out [OF assms(1) le rf oc tm, of "''transcribeBuffer''" "(\<lambda>result. result)"]
  show ?thesis unfolding transcribeBuffer_def transcribeVia_def by auto
qed

lemma transcribeBuffer_exhausts:
  assumes "cbState (transcribeBreaker g) \<noteq> Open"
    and "rejectsFirst dBuf (Suc (deepgramMaxRetries g)) w"
  shows "\<exists>e tr. outcomeAt dBuf (deepgramMaxRetries g) w = Inl e
         \<and> transcribeBuffer g spent dBuf w
           = (Inr \<lparr>success = False, data = None,
                   error = Some (if requestTimeout (transcribeBreaker g) \<le> deepgramRunTime g spent dBuf (deepgramMaxRetries g) w
                                 then timedOutError (transcribeBreaker g) else toError e),
                   retryCount = None,
                   circuitBreakerState = Some (jsString (opened (recordFailure (aged
                     (min (requestTimeout (transcribeBreaker g)) (deepgramRunTime g spent dBuf (deepgramMaxRetries g) w)) (transcribeBreaker g)))))\<rparr>,
              g\<lparr>transcribeBreaker := recordFailure (aged
                     (min (requestTimeout (transcribeBreaker g)) (deepgramRunTime g spent dBuf (deepgramMaxRetries g) w)) (transcribeBreaker g))\<rparr>,
              worldAfter dBuf (Suc (deepgramMaxRetries g)) w, tr)"
proof -
  from assms(2) have rf: "rejectsFirst dBuf (Suc (rsMaxRetries (retrySettingsOf deepgramFlavour (deepgramConfig g)))) w"
    by (simp add: deepgramMaxRetries_def)
  from guardedCall_exhausts [OF assms(1) rf, of "''transcribeBuffer''" spent "(\<lambda>result. result)"]
  show ?thesis unfolding transcribeBuffer_def transcribeVia_def deepgramMaxRetries_def deepgramRunTime_def by auto
qed

lemma transcribeBuffer_envelope:
  "\<exists>env. fst (transcribeBuffer g spent dBuf w) = Inr env
     \<and> exactlyOneOfDataError env
     \<and> (\<not> success env \<longrightarrow> retryCount env = None)
     \<and> circuitBreakerState env = Some (jsString (opened (transcribeBreaker (fst (snd (transcribeBuffer g spent dBuf w))))))
     \<and> (cbState (transcribeBreaker g) \<noteq> Open \<longrightarrow>
          (\<exists>t ok. samples (transcribeBreaker (fst (snd (transcribeBuffer g spent dBuf w)))) = (0, ok) # samples (aged t (transcribeBreaker g))))"
proof (cases rule: guardedCall_cases [where breaker = "transcribeBreaker g" and fl = deepgramFlavour and config = "deepgramConfig g" and operationName = "''transcribeBuffer''" and spent = spent and delegate = dBuf and shape = "(\<lambda>result. result)" and w = w])
  case rejected
  then show ?thesis unfolding transcribeBuffer_def transcribeVia_def
    by (simp add: exactlyOneOfDataError_def jsString_def opened_def)
next
  case (resolved v n w' tr t)
  have "\<exists>u ok. (0, True) # samples (aged t (transcribeBreaker g)) = (0, ok) # samples (aged u (transcribeBreaker g))"
    by blast
  with resolved show ?thesis unfolding transcribeBuffer_def transcribeVia_def
    by (simp add: exactlyOneOfDataError_def jsString_def recordSuccess_simps)
next
  case (failed e w' tr t)
  have "\<exists>u ok. (0, False) # samples (aged t (transcribeBreaker g)) = (0, ok) # samples (aged u (transcribeBreaker g))"
    by blast
  with failed show ?thesis unfolding transcribeBuffer_def transcribeVia_def
    by (simp add: exactlyOneOfDataError_def samples_recordFailure)
qed

subsection \<open>\<^verbatim>\<open>terminateCall\<close> and \<^verbatim>\<open>waitForRecording\<close>\<close>

lemma terminateCall_succeeds:
  assumes "k \<le> plivoMaxRetries p"
    and "failsThenSucceeds dTer k w vTer"
  shows "\<exists>tr. terminateCall p dTer w
           = (Inr \<lparr>success = True, data = Some \<lparr>tdMessage = tcMessage vTer\<rparr>, error = None,
                   retryCount = Some (k + 1), circuitBreakerState = None\<rparr>,
              p, worldAfter dTer (Suc k) w, tr)"
proof -
  from assms(1) have le: "k \<le> rsMaxRetries (retrySettingsOf plivoFlavour (plivoConfig p))"
    by (simp add: plivoMaxRetries_def)
  from assms(2) have rf: "rejectsFirst (counted dTer) k (0, w)"
    and oc: "outcomeAt (counted dTer) k (0, w) = Inr vTer"
    by (simp_all add: failsThenSucceeds_def rejectsFirst_counted outcomeAt_counted)
  from executeWithRetry_succeeds [OF le rf oc, of "''terminateCall''"]
  show ?thesis unfolding terminateCall_def
    by (auto simp: worldAfter_counted simp del: worldAfter.simps)
qed

lemma terminateCall_exhausts:
  assumes "rejectsFirst dTer (Suc (plivoMaxRetries p)) w"
  shows "\<exists>e tr. outcomeAt dTer (plivoMaxRetries p) w = Inl e
         \<and> terminateCall p dTer w
           = (Inr \<lparr>success = False, data = None, error = Some (toError e),
                   retryCount = None, circuitBreakerState = None\<rparr>,
              p, worldAfter dTer (Suc (plivoMaxRetries p)) w, tr)"
proof -
  from assms have rf: "rejectsFirst (counted dTer)
      (Suc (rsMaxRetries (retrySettingsOf plivoFlavour (plivoConfig p)))) (0, w)"
    by (simp add: plivoMaxRetries_def rejectsFirst_counted)
  from executeWithRetry_exhausts [OF rf, of "''terminateCall''"]
  show ?thesis unfolding terminateCall_def plivoMaxRetries_def
    by (auto simp: worldAfter_counted outcomeAt_counted simp del: worldAfter.simps)
qed

lemma terminateCall_envelope:
  "\<exists>env. fst (terminateCall p dTer w) = Inr env
     \<and> exactlyOneOfDataError env
     \<and> (\<not> success env \<longrightarrow> retryCount env = None)
     \<and> circuitBreakerState env = None
     \<and> thisAfter (terminateCall p dTer w) = p"
proof -
  obtain r n w' tr where run: "executeWithRetry plivoFlavour (plivoConfig p) (counted dTer)
      ''terminateCall'' (0, w) = (r, (n, w'), tr)"
    by (metis prod.exhaust)
  then show ?thesis unfolding terminateCall_def
    by (cases r) (simp_all add: exactlyOneOfDataError_def thisAfter_def)
qed

lemma terminateCall_invokes:
  "\<exists>n. 1 \<le> n \<and> n \<le> plivoMaxRetries p + 1 \<and> worldLeft (terminateCall p dTer w) = worldAfter dTer n w"
proof -
  from executeWithRetry_invocations [of plivoFlavour "plivoConfig p" "counted dTer" "''terminateCall''" "(0, w)"]
  obtain n where n: "1 \<le> n" "n \<le> plivoMaxRetries p + 1"
    "fst (snd (executeWithRetry plivoFlavour (plivoConfig p) (counted dTer) ''terminateCall'' (0, w)))
       = (0 + n, worldAfter dTer n w)"
    unfolding plivoMaxRetries_def by (auto simp: worldAfter_counted)
  obtain r tr where "executeWithRetry plivoFlavour (plivoConfig p) (counted dTer) ''terminateCall'' (0, w)
       = (r, (n, worldAfter dTer n w), tr)"
    using n(3) by (cases "executeWithRetry plivoFlavour (plivoConfig p) (counted dTer) ''terminateCall'' (0, w)") auto
  then have "worldLeft (terminateCall p dTer w) = worldAfter dTer n w"
    unfolding terminateCall_def by (cases r) (simp_all add: worldLeft_def)
  with n(1,2) show ?thesis by blast
qed

lemma worldAfter_recordingOrThrow:
  "worldAfter (recordingOrThrow dWai) n w = worldAfter dWai n w"
proof (induction n arbitrary: w)
  case 0
  show ?case by simp
next
  case (Suc n)
  have "snd (recordingOrThrow dWai w) = snd (dWai w)"
    by (simp add: recordingOrThrow_def split: prod.splits sum.splits option.splits)
  with Suc show ?case by simp
qed

lemma waitForRecording_invokes:
  "\<exists>n. 1 \<le> n \<and> n \<le> plivoMaxRetries p + 1 \<and> worldLeft (waitForRecording p dWai w) = worldAfter dWai n w
       \<and> thisAfter (waitForRecording p dWai w) = p"
proof -
  from executeWithRetry_invocations [of plivoFlavour "plivoConfig p" "recordingOrThrow dWai" "''waitForRecording''" w]
  obtain n where n: "1 \<le> n" "n \<le> plivoMaxRetries p + 1"
    "fst (snd (executeWithRetry plivoFlavour (plivoConfig p) (recordingOrThrow dWai) ''waitForRecording'' w))
       = worldAfter dWai n w"
    unfolding plivoMaxRetries_def by (auto simp: worldAfter_recordingOrThrow)
  obtain r tr where "executeWithRetry plivoFlavour (plivoConfig p) (recordingOrThrow dWai) ''waitForRecording'' w
       = (r, worldAfter dWai n w, tr)"
    using n(3) by (cases "executeWithRetry plivoFlavour (plivoConfig p) (recordingOrThrow dWai) ''waitForRecording'' w") auto
  then have "worldLeft (waitForRecording p dWai w) = worldAfter dWai n w
      \<and> thisAfter (waitForRecording p dWai w) = p"
    unfolding waitForRecording_def by (cases r) (simp_all add: worldLeft_def thisAfter_def)
  with n(1,2) show ?thesis by blast
qed

lemma terminateCall_ignores_breakers:
  "terminateCall (p\<lparr>makeCallBreaker := b1, getCallDetailsBreaker := b2\<rparr>) dTer w
     = (case terminateCall p dTer w of
          (env, p', w', tr) \<Rightarrow> (env, p'\<lparr>makeCallBreaker := b1, getCallDetailsBreaker := b2\<rparr>, w', tr))"
  unfolding terminateCall_def by (simp split: prod.splits sum.splits)

lemma waitForRecording_ignores_breakers:
  "waitForRecording (p\<lparr>makeCallBreaker := b1, getCallDetailsBreaker := b2\<rparr>) dWai w
     = (case waitForRecording p dWai w of
          (res, p', w', tr) \<Rightarrow> (res, p'\<lparr>makeCallBreaker := b1, getCallDetailsBreaker := b2\<rparr>, w', tr))"
  unfolding waitForRecording_def by (simp split: prod.splits sum.splits)

subsection \<open>Freshly constructed instances\<close>

lemma newPlivoResilient_noArguments:
  "plivoMaxRetries (newPlivoResilient noArguments) = 3"
  "cbState (makeCallBreaker (newPlivoResilient noArguments)) = Closed"
  "cbState (getCallDetailsBreaker (newPlivoResilient noArguments)) = Closed"
  "samples (makeCallBreaker (newPlivoResilient noArguments)) = []"
  "samples (getCallDetailsBreaker (newPlivoResilient noArguments)) = []"
  "requestTimeout (makeCallBreaker (newPlivoResilient noArguments)) = 30000"
  "requestTimeout (getCallDetailsBreaker (newPlivoResilient noArguments)) = 30000"
  "aged t (makeCallBreaker (newPlivoResilient noArguments)) = makeCallBreaker (newPlivoResilient noArguments)"
  "aged t (getCallDetailsBreaker (newPlivoResilient noArguments)) = getCallDetailsBreaker (newPlivoResilient noArguments)"
  "cbState (recordFailure (makeCallBreaker (newPlivoResilient noArguments))) = Open"
  "cbState (recordFailure (getCallDetailsBreaker (newPlivoResilient noArguments))) = Open"
  by (simp_all add: newPlivoResilient_def plivoMaxRetries_def mergeConfig_def noArguments_def
        retrySettingsOf_def jsOr_def createCircuitBreaker_def requestTimeout_def aged_def
        recordFailure_def tripped_def successes_def failures_def plivoFlavour_def Let_def)

lemma newDeepgramResilient_noArguments:
  "deepgramMaxRetries (newDeepgramResilient noArguments) = 3"
  "cbState (transcribeBreaker (newDeepgramResilient noArguments)) = Closed"
  "samples (transcribeBreaker (newDeepgramResilient noArguments)) = []"
  "requestTimeout (transcribeBreaker (newDeepgramResilient noArguments)) = 60000"
  "aged t (transcribeBreaker (newDeepgramResilient noArguments)) = transcribeBreaker (newDeepgramResilient noArguments)"
  "cbState (recordFailure (transcribeBreaker (newDeepgramResilient noArguments))) = Open"
  by (simp_all add: newDeepgramResilient_def deepgramMaxRetries_def mergeConfig_def noArguments_def
        retrySettingsOf_def jsOr_def createCircuitBreaker_def requestTimeout_def aged_def
        recordFailure_def tripped_def successes_def failures_def deepgramFlavour_def Let_def)

text \<open>An instance that is given six retries and nothing else.\<close>

lemma newPlivoResilient_six_retries:
  "plivoMaxRetries (newPlivoResilient (noArguments\<lparr>maxRetries := Value 6\<rparr>)) = 6"
  "cbState (makeCallBreaker (newPlivoResilient (noArguments\<lparr>maxRetries := Value 6\<rparr>))) = Closed"
  "samples (makeCallBreaker (newPlivoResilient (noArguments\<lparr>maxRetries := Value 6\<rparr>))) = []"
  "requestTimeout (makeCallBreaker (newPlivoResilient (noArguments\<lparr>maxRetries := Value 6\<rparr>))) = 30000"
  "aged t (makeCallBreaker (newPlivoResilient (noArguments\<lparr>maxRetries := Value 6\<rparr>))) = makeCallBreaker (newPlivoResilient (noArguments\<lparr>maxRetries := Value 6\<rparr>))"
  "cbState (recordFailure (makeCallBreaker (newPlivoResilient (noArguments\<lparr>maxRetries := Value 6\<rparr>)))) = Open"
  by (simp_all add: newPlivoResilient_def plivoMaxRetries_def mergeConfig_def noArguments_def
        retrySettingsOf_def jsOr_def createCircuitBreaker_def requestTimeout_def aged_def
        recordFailure_def tripped_def successes_def failures_def plivoFlavour_def Let_def)

lemma showNat_30000: "showNat 30000 = ''30000''"
  by (simp add: showNat.simps [of 30000] showNat.simps [of 3000] showNat.simps [of 300]
        showNat.simps [of 30] showNat.simps [of 3] digit_def)

lemma showNat_60000: "showNat 60000 = ''60000''"
  by (simp add: showNat.simps [of 60000] showNat.simps [of 6000] showNat.simps [of 600]
        showNat.simps [of 60] showNat.simps [of 6] digit_def)

lemma timedOutError_noArguments:
  "timedOutError (makeCallBreaker (newPlivoResilient noArguments)) = JsError ''Error'' ''Timed out after 30000ms''"
  "timedOutError (getCallDetailsBreaker (newPlivoResilient noArguments)) = JsError ''Error'' ''Timed out after 30000ms''"
  "timedOutError (transcribeBreaker (newDeepgramResilient noArguments)) = JsError ''Error'' ''Timed out after 60000ms''"
  "timedOutError (makeCallBreaker (newPlivoResilient (noArguments\<lparr>maxRetries := Value 6\<rparr>))) = JsError ''Error'' ''Timed out after 30000ms''"
  by (simp_all add: timedOutError_def newPlivoResilient_noArguments newDeepgramResilient_noArguments
        newPlivoResilient_six_retries showNat_30000 showNat_60000)

lemma plivoMaxRetries_ignores_breakers:
  "plivoMaxRetries (p\<lparr>makeCallBreaker := b\<rparr>) = plivoMaxRetries p"
  "plivoMaxRetries (p\<lparr>getCallDetailsBreaker := b\<rparr>) = plivoMaxRetries p"
  by (simp_all add: plivoMaxRetries_def)

lemma worldLeft_tuple: "worldLeft (r, c, w, tr) = w"
  by (simp add: worldLeft_def)

lemma thisAfter_tuple: "thisAfter (r, c, w, tr) = c"
  by (simp add: thisAfter_def)

lemma failsThenSucceeds_flaky: "failsThenSucceeds (flaky k e v) k 0 v"
  by (simp add: failsThenSucceeds_def rejectsFirst_flaky outcomeAt_flaky)

lemma recovered_flaky: "failsThenSucceeds (flaky k e v) 0 k v"
  by (simp add: failsThenSucceeds_def rejectsFirst_def outcomeAt_flaky)

subsection \<open>The time of a run against the test doubles\<close>

lemma runTime_flaky:
  "runTime (latency ms) rs (flaky j e v) k n = ms * Suc k + backoffTotal rs k"
  by (simp add: runTime_def worldAfter_flaky latency_def add_mult_distrib2 del: worldAfter.simps)

lemma plivoRunTime_flaky:
  "plivoRunTime p (latency ms) (flaky j e v) k n
     = ms * Suc k + backoffTotal (retrySettingsOf plivoFlavour (plivoConfig p)) k"
  by (simp only: plivoRunTime_def runTime_flaky)

lemma deepgramRunTime_flaky:
  "deepgramRunTime g (latency ms) (flaky j e v) k n
     = ms * Suc k + backoffTotal (retrySettingsOf deepgramFlavour (deepgramConfig g)) k"
  by (simp only: deepgramRunTime_def runTime_flaky)

lemma backoffTotal_Suc:
  "backoffTotal rs (Suc k)
     = backoffTotal rs k + computeDelay k (rsRetryDelay rs) (rsRetryMultiplier rs) (rsMaxRetryDelay rs)"
  by (simp add: backoffTotal_def)

lemma backoffTotal_noArguments:
  "backoffTotal (retrySettingsOf plivoFlavour (plivoConfig (newPlivoResilient noArguments))) 2 = 3000"
  "backoffTotal (retrySettingsOf deepgramFlavour (deepgramConfig (newDeepgramResilient noArguments))) 2 = 6000"
  "backoffTotal (retrySettingsOf plivoFlavour (plivoConfig (newPlivoResilient (noArguments\<lparr>maxRetries := Value 6\<rparr>)))) 6 = 35000"
proof -
  have two: "2 = Suc (Suc 0)" and six: "6 = Suc (Suc (Suc (Suc (Suc (Suc 0)))))"
    by simp_all
  have zero: "backoffTotal rs 0 = 0" for rs
    by (simp add: backoffTotal_def)
  show "backoffTotal (retrySettingsOf plivoFlavour (plivoConfig (newPlivoResilient noArguments))) 2 = 3000"
    unfolding two backoffTotal_Suc zero
    by (simp add: newPlivoResilient_def mergeConfig_def noArguments_def retrySettingsOf_def
          jsOr_def plivoFlavour_def computeDelay_def Let_def)
  show "backoffTotal (retrySettingsOf deepgramFlavour (deepgramConfig (newDeepgramResilient noArguments))) 2 = 6000"
    unfolding two backoffTotal_Suc zero
    by (simp add: newDeepgramResilient_def mergeConfig_def noArguments_def retrySettingsOf_def
          jsOr_def deepgramFlavour_def computeDelay_def Let_def)
  show "backoffTotal (retrySettingsOf plivoFlavour (plivoConfig (newPlivoResilient (noArguments\<lparr>maxRetries := Value 6\<rparr>)))) 6 = 35000"
    unfolding six backoffTotal_Suc zero
    by (simp add: newPlivoResilient_def mergeConfig_def noArguments_def retrySettingsOf_def
          jsOr_def plivoFlavour_def computeDelay_def Let_def)
qed

subsection \<open>Instances as failed calls leave them\<close>

lemma makeCall_breaker_opened_by_failed_call:
  "thisAfter (initiateRecordedCall (newPlivoResilient noArguments) (latency 100) (flaky 4 boom firedCall) 0) = (newPlivoResilient noArguments)\<lparr>makeCallBreaker := recordFailure (makeCallBreaker (newPlivoResilient noArguments))\<rparr>"
proof -
  have rf: "rejectsFirst (flaky 4 boom firedCall) (Suc (plivoMaxRetries (newPlivoResilient noArguments))) 0"
    by (rule rejectsFirst_flaky) (simp add: newPlivoResilient_noArguments)
  have nop: "cbState (makeCallBreaker (newPlivoResilient noArguments)) \<noteq> Open"
    by (simp add: newPlivoResilient_noArguments)
  from initiateRecordedCall_exhausts [where spent = "latency 100", OF nop rf]
  show ?thesis by (auto simp: thisAfter_def newPlivoResilient_noArguments)
qed

lemma both_plivo_breakers_opened_by_failed_calls:
  "thisAfter (getCallDetails (thisAfter (initiateRecordedCall (newPlivoResilient noArguments) (latency 100) (flaky 4 boom firedCall) 0)) (latency 100) (flaky 8 boom ''completed'') 4) = (newPlivoResilient noArguments)\<lparr>makeCallBreaker := recordFailure (makeCallBreaker (newPlivoResilient noArguments)),
          getCallDetailsBreaker := recordFailure (getCallDetailsBreaker (newPlivoResilient noArguments))\<rparr>"
proof -
  let ?p1 = "(newPlivoResilient noArguments)\<lparr>makeCallBreaker := recordFailure (makeCallBreaker (newPlivoResilient noArguments))\<rparr>"
  have rf: "rejectsFirst (flaky 8 boom ''completed'') (Suc (plivoMaxRetries ?p1)) 4"
    by (rule rejectsFirst_flaky)
       (simp add: plivoMaxRetries_ignores_breakers newPlivoResilient_noArguments)
  have nop: "cbState (getCallDetailsBreaker ?p1) \<noteq> Open"
    by (simp add: newPlivoResilient_noArguments)
  from getCallDetails_exhausts [where spent = "latency 100", OF nop rf]
  show ?thesis
    unfolding makeCall_breaker_opened_by_failed_call
    by (auto simp: thisAfter_def newPlivoResilient_noArguments)
qed

lemma transcribe_breaker_opened_by_failed_call:
  "thisAfter (transcribeRecording (newDeepgramResilient noArguments) (latency 100) (flaky 4 boom v) 0)
     = (newDeepgramResilient noArguments)\<lparr>transcribeBreaker := recordFailure (transcribeBreaker (newDeepgramResilient noArguments))\<rparr>"
proof -
  have rf: "rejectsFirst (flaky 4 boom v) (Suc (deepgramMaxRetries (newDeepgramResilient noArguments))) 0"
    by (rule rejectsFirst_flaky) (simp add: newDeepgramResilient_noArguments)
  have nop: "cbState (transcribeBreaker (newDeepgramResilient noArguments)) \<noteq> Open"
    by (simp add: newDeepgramResilient_noArguments)
  from transcribeRecording_exhausts [where spent = "latency 100", OF nop rf]
  show ?thesis by (auto simp: thisAfter_def newDeepgramResilient_noArguments)
qed

lemma open_after_failed_calls:
  "cbState (makeCallBreaker (thisAfter (initiateRecordedCall (newPlivoResilient noArguments) (latency 100) (flaky 4 boom firedCall) 0))) = Open"
  "cbState (makeCallBreaker (thisAfter (getCallDetails (thisAfter (initiateRecordedCall (newPlivoResilient noArguments) (latency 100) (flaky 4 boom firedCall) 0)) (latency 100) (flaky 8 boom ''completed'') 4))) = Open"
  "cbState (getCallDetailsBreaker (thisAfter (getCallDetails (thisAfter (initiateRecordedCall (newPlivoResilient noArguments) (latency 100) (flaky 4 boom firedCall) 0)) (latency 100) (flaky 8 boom ''completed'') 4))) = Open"
  "cbState (transcribeBreaker (thisAfter (transcribeRecording (newDeepgramResilient noArguments) (latency 100) (flaky 4 boom ''hello world'') 0))) = Open"
proof -
  show "cbState (makeCallBreaker (thisAfter (initiateRecordedCall (newPlivoResilient noArguments) (latency 100) (flaky 4 boom firedCall) 0))) = Open"
    by (simp add: makeCall_breaker_opened_by_failed_call newPlivoResilient_noArguments)
  show "cbState (makeCallBreaker (thisAfter (getCallDetails (thisAfter (initiateRecordedCall (newPlivoResilient noArguments) (latency 100) (flaky 4 boom firedCall) 0)) (latency 100) (flaky 8 boom ''completed'') 4))) = Open"
    by (simp add: both_plivo_breakers_opened_by_failed_calls newPlivoResilient_noArguments)
  show "cbState (getCallDetailsBreaker (thisAfter (getCallDetails (thisAfter (initiateRecordedCall (newPlivoResilient noArguments) (latency 100) (flaky 4 boom firedCall) 0)) (latency 100) (flaky 8 boom ''completed'') 4))) = Open"
    by (simp add: both_plivo_breakers_opened_by_failed_calls newPlivoResilient_noArguments)
  show "cbState (transcribeBreaker (thisAfter (transcribeRecording (newDeepgramResilient noArguments) (latency 100) (flaky 4 boom ''hello world'') 0))) = Open"
    by (simp add: transcribe_breaker_opened_by_failed_call newDeepgramResilient_noArguments)
qed

text \<open>
  With six retries the backoff delays alone add up to 35 seconds, more than the 30 seconds
  of the request timeout.
\<close>

lemma initiateRecordedCall_outlasts_timeout:
  "fst (initiateRecordedCall (newPlivoResilient (noArguments\<lparr>maxRetries := Value 6\<rparr>)) (latency 100) (flaky 6 boom firedCall) 0)
     = Inr \<lparr>success = False, data = None,
            error = Some (JsError ''Error'' ''Timed out after 30000ms''),
            retryCount = None, circuitBreakerState = Some ''true''\<rparr>"
  "thisAfter (initiateRecordedCall (newPlivoResilient (noArguments\<lparr>maxRetries := Value 6\<rparr>)) (latency 100) (flaky 6 boom firedCall) 0)
     = (newPlivoResilient (noArguments\<lparr>maxRetries := Value 6\<rparr>))\<lparr>makeCallBreaker := recordFailure (makeCallBreaker (newPlivoResilient (noArguments\<lparr>maxRetries := Value 6\<rparr>)))\<rparr>"
proof -
  have nop: "cbState (makeCallBreaker (newPlivoResilient (noArguments\<lparr>maxRetries := Value 6\<rparr>))) \<noteq> Open"
    by (simp add: newPlivoResilient_six_retries)
  have le: "6 \<le> plivoMaxRetries (newPlivoResilient (noArguments\<lparr>maxRetries := Value 6\<rparr>))"
    by (simp add: newPlivoResilient_six_retries)
  have late: "requestTimeout (makeCallBreaker (newPlivoResilient (noArguments\<lparr>maxRetries := Value 6\<rparr>)))
      \<le> plivoRunTime (newPlivoResilient (noArguments\<lparr>maxRetries := Value 6\<rparr>)) (latency 100) (flaky 6 boom firedCall) 6 0"
    by (simp add: newPlivoResilient_six_retries plivoRunTime_flaky backoffTotal_noArguments)
  from initiateRecordedCall_times_out [OF nop le failsThenSucceeds_flaky late]
  obtain tr where run: "initiateRecordedCall (newPlivoResilient (noArguments\<lparr>maxRetries := Value 6\<rparr>)) (latency 100) (flaky 6 boom firedCall) 0
      = (Inr \<lparr>success = False, data = None,
               error = Some (JsError ''Error'' ''Timed out after 30000ms''),
               retryCount = None, circuitBreakerState = Some ''true''\<rparr>,
         (newPlivoResilient (noArguments\<lparr>maxRetries := Value 6\<rparr>))\<lparr>makeCallBreaker := recordFailure (makeCallBreaker (newPlivoResilient (noArguments\<lparr>maxRetries := Value 6\<rparr>)))\<rparr>,
         worldAfter (flaky 6 boom firedCall) (Suc 6) 0, tr)"
    by (auto simp: newPlivoResilient_six_retries timedOutError_noArguments opened_def jsString_def
          simp del: worldAfter.simps)
  show "fst (initiateRecordedCall (newPlivoResilient (noArguments\<lparr>maxRetries := Value 6\<rparr>)) (latency 100) (flaky 6 boom firedCall) 0)
     = Inr \<lparr>success = False, data = None,
            error = Some (JsError ''Error'' ''Timed out after 30000ms''),
            retryCount = None, circuitBreakerState = Some ''true''\<rparr>"
    by (simp add: run)
  show "thisAfter (initiateRecordedCall (newPlivoResilient (noArguments\<lparr>maxRetries := Value 6\<rparr>)) (latency 100) (flaky 6 boom firedCall) 0)
     = (newPlivoResilient (noArguments\<lparr>maxRetries := Value 6\<rparr>))\<lparr>makeCallBreaker := recordFailure (makeCallBreaker (newPlivoResilient (noArguments\<lparr>maxRetries := Value 6\<rparr>)))\<rparr>"
    by (simp add: run thisAfter_def)
qed

subsection \<open>What a step leaves unchanged\<close>

lemma afterPlivo_eq: "afterPlivo cs r = (cs\<lparr>plivoClient := thisAfter r\<rparr>, worldLeft r)"
  by (simp add: afterPlivo_def thisAfter_def worldLeft_def split_beta)

lemma afterDeepgram_eq: "afterDeepgram cs r = (cs\<lparr>deepgramClient := thisAfter r\<rparr>, worldLeft r)"
  by (simp add: afterDeepgram_def thisAfter_def worldLeft_def split_beta)

lemma plivo_methods_frame:
  "getCallDetailsBreaker (thisAfter (initiateRecordedCall p spent dIni w)) = getCallDetailsBreaker p"
  "getCallDetailsBreaker (thisAfter (makeCall p spent dMak w)) = getCallDetailsBreaker p"
  "makeCallBreaker (thisAfter (getCallDetails p spent dDet w)) = makeCallBreaker p"
  "thisAfter (terminateCall p dTer w) = p"
  "thisAfter (waitForRecording p dWai w) = p"
proof -
  show "getCallDetailsBreaker (thisAfter (initiateRecordedCall p spent dIni w)) = getCallDetailsBreaker p"
    by (simp add: initiateRecordedCall_def thisAfter_def split_beta)
  show "getCallDetailsBreaker (thisAfter (makeCall p spent dMak w)) = getCallDetailsBreaker p"
    by (simp add: makeCall_def thisAfter_def split_beta)
  show "makeCallBreaker (thisAfter (getCallDetails p spent dDet w)) = makeCallBreaker p"
    by (simp add: getCallDetails_def thisAfter_def split_beta)
  show "thisAfter (terminateCall p dTer w) = p"
    using terminateCall_envelope [of p dTer w] by blast
  show "thisAfter (waitForRecording p dWai w) = p"
    using waitForRecording_invokes [of p dWai w] by blast
qed

lemma perform_frame:
  "K \<notin> set (touches c) \<Longrightarrow> breakerAt K (fst (perform spent cs c w)) = breakerAt K cs"
  by (cases c; cases K)
     (simp_all add: afterPlivo_eq afterDeepgram_eq plivo_methods_frame
        plivoResetCircuitBreakers_def deepgramResetCircuitBreakers_def)

lemma performAll_frame:
  "\<forall>c\<in>set calls. K \<notin> set (touches c) \<Longrightarrow>
     breakerAt K (fst (performAll spent cs calls w)) = breakerAt K cs"
proof (induction calls arbitrary: cs w)
  case Nil
  show ?case by simp
next
  case (Cons c calls)
  obtain cs' w' where st: "perform spent cs c w = (cs', w')" by (cases "perform spent cs c w")
  from Cons.prems have "K \<notin> set (touches c)" by simp
  from perform_frame [OF this, of spent cs w] st have "breakerAt K cs' = breakerAt K cs" by simp
  moreover from Cons.prems have "\<forall>c\<in>set calls. K \<notin> set (touches c)" by simp
  from Cons.IH [OF this, of cs' w'] have "breakerAt K (fst (performAll spent cs' calls w')) = breakerAt K cs'" .
  ultimately show ?case using st by simp
qed

lemma perform_onDeepgram:
  "onDeepgram c \<Longrightarrow> plivoClient (fst (perform spent cs c w)) = plivoClient cs"
  by (cases c) (simp_all add: afterDeepgram_eq)

lemma perform_onPlivo:
  "\<not> onDeepgram c \<Longrightarrow> deepgramClient (fst (perform spent cs c w)) = deepgramClient cs"
  by (cases c) (simp_all add: afterPlivo_eq)

lemma performAll_onDeepgram:
  "\<forall>c\<in>set calls. onDeepgram c \<Longrightarrow> plivoClient (fst (performAll spent cs calls w)) = plivoClient cs"
proof (induction calls arbitrary: cs w)
  case Nil
  show ?case by simp
next
  case (Cons c calls)
  obtain cs' w' where st: "perform spent cs c w = (cs', w')" by (cases "perform spent cs c w")
  from Cons.prems have "onDeepgram c" by simp
  from perform_onDeepgram [OF this, of spent cs w] st have "plivoClient cs' = plivoClient cs" by simp
  moreover from Cons.prems have "\<forall>c\<in>set calls. onDeepgram c" by simp
  from Cons.IH [OF this, of cs' w'] have "plivoClient (fst (performAll spent cs' calls w')) = plivoClient cs'" .
  ultimately show ?case using st by simp
qed

lemma performAll_onPlivo:
  "\<forall>c\<in>set calls. \<not> onDeepgram c \<Longrightarrow>
     deepgramClient (fst (performAll spent cs calls w)) = deepgramClient cs"
proof (induction calls arbitrary: cs w)
  case Nil
  show ?case by simp
next
  case (Cons c calls)
  obtain cs' w' where st: "perform spent cs c w = (cs', w')" by (cases "perform spent cs c w")
  from Cons.prems have "\<not> onDeepgram c" by simp
  from perform_onPlivo [OF this, of spent cs w] st have "deepgramClient cs' = deepgramClient cs" by simp
  moreover from Cons.prems have "\<forall>c\<in>set calls. \<not> onDeepgram c" by simp
  from Cons.IH [OF this, of cs' w']
  have "deepgramClient (fst (performAll spent cs' calls w')) = deepgramClient cs'" .
  ultimately show ?case using st by simp
qed

lemma perform_ignores_deepgramClient:
  "\<not> onDeepgram c \<Longrightarrow>
     perform spent (cs\<lparr>deepgramClient := g\<rparr>) c w
       = (case perform spent cs c w of (cs', w') \<Rightarrow> (cs'\<lparr>deepgramClient := g\<rparr>, w'))"
  by (cases c) (simp_all add: afterPlivo_eq)

lemma perform_ignores_plivoClient:
  "onDeepgram c \<Longrightarrow>
     perform spent (cs\<lparr>plivoClient := p\<rparr>) c w
       = (case perform spent cs c w of (cs', w') \<Rightarrow> (cs'\<lparr>plivoClient := p\<rparr>, w'))"
  by (cases c) (simp_all add: afterDeepgram_eq)

lemma placed_call_goes_through:
  assumes "cbState (makeCallBreaker (plivoClient cs)) \<noteq> Open"
    and "failsThenSucceeds dIni 0 w vIni"
  shows "snd (perform spent cs (InitiateRecordedCall dIni) w) = worldAfter dIni 1 w"
proof (cases "plivoRunTime (plivoClient cs) spent dIni 0 w
                < requestTimeout (makeCallBreaker (plivoClient cs))")
  case True
  have z: "0 \<le> plivoMaxRetries (plivoClient cs)" by simp
  from initiateRecordedCall_succeeds [OF assms(1) z assms(2) True]
  show ?thesis by (auto simp: afterPlivo_eq worldLeft_tuple simp del: worldAfter.simps)
next
  case False
  then have late: "requestTimeout (makeCallBreaker (plivoClient cs))
      \<le> plivoRunTime (plivoClient cs) spent dIni 0 w" by simp
  have z: "0 \<le> plivoMaxRetries (plivoClient cs)" by simp
  from initiateRecordedCall_times_out [OF assms(1) z assms(2) late]
  show ?thesis by (auto simp: afterPlivo_eq worldLeft_tuple simp del: worldAfter.simps)
qed

section \<open>Claims about the backoff policy and the retry engine\<close>





text \<open>
  C7, as stated: the error of an exhausted retry loop carries the operation name. It does
  not. With the default settings, an operation that rejects with \<^verbatim>\<open>new Error('boom')\<close> on
  each of its four calls and the operation name \<^verbatim>\<open>'terminateCall'\<close>, the retry engine
  rejects with that very error: its name is \<^verbatim>\<open>Error\<close>, its message is \<^verbatim>\<open>boom\<close>, and the
  operation name occurs in neither.
\<close>

theorem exhaustion_error_without_operation_name:
  "fst (executeWithRetry plivoFlavour noSettings (flaky 4 boom ()) ''terminateCall'' 0)
     = Inl (ThrownError (JsError ''Error'' ''boom''))
   \<and> \<not> sublist ''terminateCall'' ''boom'' \<and> \<not> sublist ''terminateCall'' ''Error''"
proof -
  have rf: "rejectsFirst (flaky 4 boom ()) (Suc (rsMaxRetries (retrySettingsOf plivoFlavour noSettings))) 0"
    by (rule rejectsFirst_flaky) (simp add: retrySettingsOf_noSettings_plivo)
  from executeWithRetry_exhausts [OF rf, of "''terminateCall''"]
  have "fst (executeWithRetry plivoFlavour noSettings (flaky 4 boom ()) ''terminateCall'' 0)
     = Inl (ThrownError (JsError ''Error'' ''boom''))"
    by (auto simp: retrySettingsOf_noSettings_plivo outcomeAt_flaky boom_def)
  then show ?thesis by (simp add: sublist_Cons_right)
qed

text \<open>
  C7, amended: when the first \<open>maxRetries + 1\<close> calls reject, the retry engine rejects with
  the error caught on the last call, unchanged. The operation name goes to the console
  only: the last thing the run does is one \<^verbatim>\<open>console.error\<close> whose text
  \<^verbatim>\<open>"<tag> <operationName> failed after <maxRetries + 1> attempts"\<close> contains the name and
  whose second argument is the message of that error.
\<close>

theorem exhaustion_error_unchanged_name_logged:
  assumes "rejectsFirst operation (Suc (rsMaxRetries (retrySettingsOf fl config))) w"
  shows "\<exists>e tr. outcomeAt operation (rsMaxRetries (retrySettingsOf fl config)) w = Inl e
         \<and> fst (executeWithRetry fl config operation operationName w) = Inl (ThrownError (toError e))
         \<and> snd (snd (executeWithRetry fl config operation operationName w))
             = tr @ [ConsoleError (errorLine (tag fl) operationName
                        (rsMaxRetries (retrySettingsOf fl config))) (message (toError e))]
         \<and> sublist operationName
              (errorLine (tag fl) operationName (rsMaxRetries (retrySettingsOf fl config)))"
proof -
  from executeWithRetry_exhausts [OF assms, of operationName]
  obtain e tr where
    "outcomeAt operation (rsMaxRetries (retrySettingsOf fl config)) w = Inl e"
    "executeWithRetry fl config operation operationName w
       = (Inl (ThrownError (toError e)),
          worldAfter operation (Suc (rsMaxRetries (retrySettingsOf fl config))) w,
          tr @ [ConsoleError (errorLine (tag fl) operationName
                   (rsMaxRetries (retrySettingsOf fl config))) (message (toError e))])"
    by blast
  then show ?thesis using sublist_errorLine by fastforce
qed

theorem exhaustion_error_unchanged_name_logged_witness:
  "rejectsFirst (flaky 4 boom ()) (Suc (rsMaxRetries (retrySettingsOf plivoFlavour noSettings))) 0
   \<and> fst (executeWithRetry plivoFlavour noSettings (flaky 4 boom ()) ''terminateCall'' 0) = Inl boom
   \<and> last (snd (snd (executeWithRetry plivoFlavour noSettings (flaky 4 boom ()) ''terminateCall'' 0)))
       = ConsoleError (errorLine ''[PlivoResilient]'' ''terminateCall'' 3) ''boom''"
proof -
  have rf: "rejectsFirst (flaky 4 boom ()) (Suc (rsMaxRetries (retrySettingsOf plivoFlavour noSettings))) 0"
    by (rule rejectsFirst_flaky) (simp add: retrySettingsOf_noSettings_plivo)
  from exhaustion_error_unchanged_name_logged [OF rf, of "''terminateCall''"]
  show ?thesis
    using rf
    by (auto simp: retrySettingsOf_noSettings_plivo outcomeAt_flaky boom_def tag_plivoFlavour)
qed

section \<open>Claims about the facades\<close>

text \<open>
  C1, as stated: when the inner retry loop fails up to \<^verbatim>\<open>maxRetries\<close> times and then
  succeeds, the breaker records one success. It records a failure when the run is not over
  before the request timeout of the breaker. An instance of \<^verbatim>\<open>PlivoResilient\<close> that is
  given \<^verbatim>\<open>maxRetries: 6\<close> and nothing else has a request timeout of 30000 ms and waits
  1000, 2000, 4000, 8000, 10000 and 10000 ms between its seven attempts. With a delegate
  that rejects six times and then resolves, \<^verbatim>\<open>initiateRecordedCall\<close> on the new, closed
  breaker leaves one sample in the window, and it is a failure: no success and one failure.
  The breaker is the one of the specification (sections 3, 4.3 and 5).
\<close>

theorem slow_recovery_is_recorded_as_failure:
  "failsThenSucceeds (flaky 6 boom firedCall) 6 0 firedCall
   \<and> 6 \<le> plivoMaxRetries (newPlivoResilient (noArguments\<lparr>maxRetries := Value 6\<rparr>))
   \<and> cbState (makeCallBreaker (newPlivoResilient (noArguments\<lparr>maxRetries := Value 6\<rparr>))) = Closed
   \<and> samples (makeCallBreaker (newPlivoResilient (noArguments\<lparr>maxRetries := Value 6\<rparr>))) = []
   \<and> samples (makeCallBreaker
        (thisAfter (initiateRecordedCall (newPlivoResilient (noArguments\<lparr>maxRetries := Value 6\<rparr>)) (latency 100) (flaky 6 boom firedCall) 0))) = [(0, False)]
   \<and> successes (makeCallBreaker
        (thisAfter (initiateRecordedCall (newPlivoResilient (noArguments\<lparr>maxRetries := Value 6\<rparr>)) (latency 100) (flaky 6 boom firedCall) 0))) = 0
   \<and> failures (makeCallBreaker
        (thisAfter (initiateRecordedCall (newPlivoResilient (noArguments\<lparr>maxRetries := Value 6\<rparr>)) (latency 100) (flaky 6 boom firedCall) 0))) = 1"
  by (simp add: failsThenSucceeds_flaky newPlivoResilient_six_retries
        initiateRecordedCall_outlasts_timeout samples_recordFailure successes_def failures_def)

text \<open>
  C1, amended: a method that goes through a circuit breaker hands the whole retrying
  execution to \<^verbatim>\<open>fire\<close> as one operation, so one call of the method that the breaker lets
  through is exactly one new sample of that breaker's window, however many attempts the
  retry loop makes. For each of the seven guarded methods, on a breaker that is not open:
  if the delegate rejects \<open>k \<le> maxRetries\<close> times and then resolves, and the run (the
  \<open>k + 1\<close> calls of the delegate and the \<open>k\<close> delays between them) takes less than the
  request timeout of the breaker, the window is the old one, grown older by the time of the
  run, with one success put in front; if such a run takes the request timeout or longer,
  one failure is put in front instead, at the moment the timeout strikes; if the delegate
  rejects on all \<open>maxRetries + 1\<close> attempts, one failure is put in front, when the run ends
  or when the timeout strikes, whichever is first; and whatever the delegate does, the
  window after the call is the old one, grown older, with exactly one sample put in front.
\<close>

theorem one_sample_per_guarded_call:
  "(cbState (makeCallBreaker p) \<noteq> Open \<longrightarrow> k \<le> plivoMaxRetries p \<longrightarrow> failsThenSucceeds dIni k w vIni \<longrightarrow>
        plivoRunTime p spent dIni k w < requestTimeout (makeCallBreaker p) \<longrightarrow>
        samples (makeCallBreaker (thisAfter (initiateRecordedCall p spent dIni w)))
          = (0, True) # samples (aged (plivoRunTime p spent dIni k w) (makeCallBreaker p)))
   \<and> (cbState (makeCallBreaker p) \<noteq> Open \<longrightarrow> k \<le> plivoMaxRetries p \<longrightarrow> failsThenSucceeds dIni k w vIni \<longrightarrow>
        requestTimeout (makeCallBreaker p) \<le> plivoRunTime p spent dIni k w \<longrightarrow>
        samples (makeCallBreaker (thisAfter (initiateRecordedCall p spent dIni w)))
          = (0, False) # samples (aged (requestTimeout (makeCallBreaker p)) (makeCallBreaker p)))
   \<and> (cbState (makeCallBreaker p) \<noteq> Open \<longrightarrow> rejectsFirst eIni (Suc (plivoMaxRetries p)) w \<longrightarrow>
        samples (makeCallBreaker (thisAfter (initiateRecordedCall p spent eIni w)))
          = (0, False) # samples (aged (min (requestTimeout (makeCallBreaker p)) (plivoRunTime p spent eIni (plivoMaxRetries p) w)) (makeCallBreaker p)))
   \<and> (cbState (makeCallBreaker p) \<noteq> Open \<longrightarrow>
        (\<exists>t ok. samples (makeCallBreaker (thisAfter (initiateRecordedCall p spent dIni w))) = (0, ok) # samples (aged t (makeCallBreaker p))))
   \<and> (cbState (makeCallBreaker p) \<noteq> Open \<longrightarrow> k \<le> plivoMaxRetries p \<longrightarrow> failsThenSucceeds dMak k w vMak \<longrightarrow>
        plivoRunTime p spent dMak k w < requestTimeout (makeCallBreaker p) \<longrightarrow>
        samples (makeCallBreaker (thisAfter (makeCall p spent dMak w)))
          = (0, True) # samples (aged (plivoRunTime p spent dMak k w) (makeCallBreaker p)))
   \<and> (cbState (makeCallBreaker p) \<noteq> Open \<longrightarrow> k \<le> plivoMaxRetries p \<longrightarrow> failsThenSucceeds dMak k w vMak \<longrightarrow>
        requestTimeout (makeCallBreaker p) \<le> plivoRunTime p spent dMak k w \<longrightarrow>
        samples (makeCallBreaker (thisAfter (makeCall p spent dMak w)))
          = (0, False) # samples (aged (requestTimeout (makeCallBreaker p)) (makeCallBreaker p)))
   \<and> (cbState (makeCallBreaker p) \<noteq> Open \<longrightarrow> rejectsFirst eMak (Suc (plivoMaxRetries p)) w \<longrightarrow>
        samples (makeCallBreaker (thisAfter (makeCall p spent eMak w)))
          = (0, False) # samples (aged (min (requestTimeout (makeCallBreaker p)) (plivoRunTime p spent eMak (plivoMaxRetries p) w)) (makeCallBreaker p)))
   \<and> (cbState (makeCallBreaker p) \<noteq> Open \<longrightarrow>
        (\<exists>t ok. samples (makeCallBreaker (thisAfter (makeCall p spent dMak w))) = (0, ok) # samples (aged t (makeCallBreaker p))))
   \<and> (cbState (getCallDetailsBreaker p) \<noteq> Open \<longrightarrow> k \<le> plivoMaxRetries p \<longrightarrow> failsThenSucceeds dDet k w vDet \<longrightarrow>
        plivoRunTime p spent dDet k w < requestTimeout (getCallDetailsBreaker p) \<longrightarrow>
        samples (getCallDetailsBreaker (thisAfter (getCallDetails p spent dDet w)))
          = (0, True) # samples (aged (plivoRunTime p spent dDet k w) (getCallDetailsBreaker p)))
   \<and> (cbState (getCallDetailsBreaker p) \<noteq> Open \<longrightarrow> k \<le> plivoMaxRetries p \<longrightarrow> failsThenSucceeds dDet k w vDet \<longrightarrow>
        requestTimeout (getCallDetailsBreaker p) \<le> plivoRunTime p spent dDet k w \<longrightarrow>
        samples (getCallDetailsBreaker (thisAfter (getCallDetails p spent dDet w)))
          = (0, False) # samples (aged (requestTimeout (getCallDetailsBreaker p)) (getCallDetailsBreaker p)))
   \<and> (cbState (getCallDetailsBreaker p) \<noteq> Open \<longrightarrow> rejectsFirst eDet (Suc (plivoMaxRetries p)) w \<longrightarrow>
        samples (getCallDetailsBreaker (thisAfter (getCallDetails p spent eDet w)))
          = (0, False) # samples (aged (min (requestTimeout (getCallDetailsBreaker p)) (plivoRunTime p spent eDet (plivoMaxRetries p) w)) (getCallDetailsBreaker p)))
   \<and> (cbState (getCallDetailsBreaker p) \<noteq> Open \<longrightarrow>
        (\<exists>t ok. samples (getCallDetailsBreaker (thisAfter (getCallDetails p spent dDet w))) = (0, ok) # samples (aged t (getCallDetailsBreaker p))))
   \<and> (cbState (transcribeBreaker g) \<noteq> Open \<longrightarrow> k \<le> deepgramMaxRetries g \<longrightarrow> failsThenSucceeds dRec k w vRec \<longrightarrow>
        deepgramRunTime g spent dRec k w < requestTimeout (transcribeBreaker g) \<longrightarrow>
        samples (transcribeBreaker (thisAfter (transcribeRecording g spent dRec w)))
          = (0, True) # samples (aged (deepgramRunTime g spent dRec k w) (transcribeBreaker g)))
   \<and> (cbState (transcribeBreaker g) \<noteq> Open \<longrightarrow> k \<le> deepgramMaxRetries g \<longrightarrow> failsThenSucceeds dRec k w vRec \<longrightarrow>
        requestTimeout (transcribeBreaker g) \<le> deepgramRunTime g spent dRec k w \<longrightarrow>
        samples (transcribeBreaker (thisAfter (transcribeRecording g spent dRec w)))
          = (0, False) # samples (aged (requestTimeout (transcribeBreaker g)) (transcribeBreaker g)))
   \<and> (cbState (transcribeBreaker g) \<noteq> Open \<longrightarrow> rejectsFirst eRec (Suc (deepgramMaxRetries g)) w \<longrightarrow>
        samples (transcribeBreaker (thisAfter (transcribeRecording g spent eRec w)))
          = (0, False) # samples (aged (min (requestTimeout (transcribeBreaker g)) (deepgramRunTime g spent eRec (deepgramMaxRetries g) w)) (transcribeBreaker g)))
   \<and> (cbState (transcribeBreaker g) \<noteq> Open \<longrightarrow>
        (\<exists>t ok. samples (transcribeBreaker (thisAfter (transcribeRecording g spent dRec w))) = (0, ok) # samples (aged t (transcribeBreaker g))))
   \<and> (cbState (transcribeBreaker g) \<noteq> Open \<longrightarrow> k \<le> deepgramMaxRetries g \<longrightarrow> failsThenSucceeds dUrl k w vUrl \<longrightarrow>
        deepgramRunTime g spent dUrl k w < requestTimeout (transcribeBreaker g) \<longrightarrow>
        samples (transcribeBreaker (thisAfter (transcribeUrl g spent dUrl w)))
          = (0, True) # samples (aged (deepgramRunTime g spent dUrl k w) (transcribeBreaker g)))
   \<and> (cbState (transcribeBreaker g) \<noteq> Open \<longrightarrow> k \<le> deepgramMaxRetries g \<longrightarrow> failsThenSucceeds dUrl k w vUrl \<longrightarrow>
        requestTimeout (transcribeBreaker g) \<le> deepgramRunTime g spent dUrl k w \<longrightarrow>
        samples (transcribeBreaker (thisAfter (transcribeUrl g spent dUrl w)))
          = (0, False) # samples (aged (requestTimeout (transcribeBreaker g)) (transcribeBreaker g)))
   \<and> (cbState (transcribeBreaker g) \<noteq> Open \<longrightarrow> rejectsFirst eUrl (Suc (deepgramMaxRetries g)) w \<longrightarrow>
        samples (transcribeBreaker (thisAfter (transcribeUrl g spent eUrl w)))
          = (0, False) # samples (aged (min (requestTimeout (transcribeBreaker g)) (deepgramRunTime g spent eUrl (deepgramMaxRetries g) w)) (transcribeBreaker g)))
   \<and> (cbState (transcribeBreaker g) \<noteq> Open \<longrightarrow>
        (\<exists>t ok. samples (transcribeBreaker (thisAfter (transcribeUrl g spent dUrl w))) = (0, ok) # samples (aged t (transcribeBreaker g))))
   \<and> (cbState (transcribeBreaker g) \<noteq> Open \<longrightarrow> k \<le> deepgramMaxRetries g \<longrightarrow> failsThenSucceeds dIns k w vIns \<longrightarrow>
        deepgramRunTime g spent dIns k w < requestTimeout (transcribeBreaker g) \<longrightarrow>
        samples (transcribeBreaker (thisAfter (transcribeWithInsights g spent dIns w)))
          = (0, True) # samples (aged (deepgramRunTime g spent dIns k w) (transcribeBreaker g)))
   \<and> (cbState (transcribeBreaker g) \<noteq> Open \<longrightarrow> k \<le> deepgramMaxRetries g \<longrightarrow> failsThenSucceeds dIns k w vIns \<longrightarrow>
        requestTimeout (transcribeBreaker g) \<le> deepgramRunTime g spent dIns k w \<longrightarrow>
        samples (transcribeBreaker (thisAfter (transcribeWithInsights g spent dIns w)))
          = (0, False) # samples (aged (requestTimeout (transcribeBreaker g)) (transcribeBreaker g)))
   \<and> (cbState (transcribeBreaker g) \<noteq> Open \<longrightarrow> rejectsFirst eIns (Suc (deepgramMaxRetries g)) w \<longrightarrow>
        samples (transcribeBreaker (thisAfter (transcribeWithInsights g spent eIns w)))
          = (0, False) # samples (aged (min (requestTimeout (transcribeBreaker g)) (deepgramRunTime g spent eIns (deepgramMaxRetries g) w)) (transcribeBreaker g)))
   \<and> (cbState (transcribeBreaker g) \<noteq> Open \<longrightarrow>
        (\<exists>t ok. samples (transcribeBreaker (thisAfter (transcribeWithInsights g spent dIns w))) = (0, ok) # samples (aged t (transcribeBreaker g))))
   \<and> (cbState (transcribeBreaker g) \<noteq> Open \<longrightarrow> k \<le> deepgramMaxRetries g \<longrightarrow> failsThenSucceeds dBuf k w vBuf \<longrightarrow>
        deepgramRunTime g spent dBuf k w < requestTimeout (transcribeBreaker g) \<longrightarrow>
        samples (transcribeBreaker (thisAfter (transcribeBuffer g spent dBuf w)))
          = (0, True) # samples (aged (deepgramRunTime g spent dBuf k w) (transcribeBreaker g)))
   \<and> (cbState (transcribeBreaker g) \<noteq> Open \<longrightarrow> k \<le> deepgramMaxRetries g \<longrightarrow> failsThenSucceeds dBuf k w vBuf \<longrightarrow>
        requestTimeout (transcribeBreaker g) \<le> deepgramRunTime g spent dBuf k w \<longrightarrow>
        samples (transcribeBreaker (thisAfter (transcribeBuffer g spent dBuf w)))
          = (0, False) # samples (aged (requestTimeout (transcribeBreaker g)) (transcribeBreaker g)))
   \<and> (cbState (transcribeBreaker g) \<noteq> Open \<longrightarrow> rejectsFirst eBuf (Suc (deepgramMaxRetries g)) w \<longrightarrow>
        samples (transcribeBreaker (thisAfter (transcribeBuffer g spent eBuf w)))
          = (0, False) # samples (aged (min (requestTimeout (transcribeBreaker g)) (deepgramRunTime g spent eBuf (deepgramMaxRetries g) w)) (transcribeBreaker g)))
   \<and> (cbState (transcribeBreaker g) \<noteq> Open \<longrightarrow>
        (\<exists>t ok. samples (transcribeBreaker (thisAfter (transcribeBuffer g spent dBuf w))) = (0, ok) # samples (aged t (transcribeBreaker g))))"
proof -
  have c1: "cbState (makeCallBreaker p) \<noteq> Open \<longrightarrow> k \<le> plivoMaxRetries p \<longrightarrow> failsThenSucceeds dIni k w vIni \<longrightarrow>
        plivoRunTime p spent dIni k w < requestTimeout (makeCallBreaker p) \<longrightarrow>
        samples (makeCallBreaker (thisAfter (initiateRecordedCall p spent dIni w)))
          = (0, True) # samples (aged (plivoRunTime p spent dIni k w) (makeCallBreaker p))"
    using initiateRecordedCall_succeeds [where p = p and w = w and dIni = dIni and k = k and vIni = vIni and spent = spent] by (auto simp: thisAfter_def recordSuccess_simps)
  have c2: "cbState (makeCallBreaker p) \<noteq> Open \<longrightarrow> k \<le> plivoMaxRetries p \<longrightarrow> failsThenSucceeds dIni k w vIni \<longrightarrow>
        requestTimeout (makeCallBreaker p) \<le> plivoRunTime p spent dIni k w \<longrightarrow>
        samples (makeCallBreaker (thisAfter (initiateRecordedCall p spent dIni w)))
          = (0, False) # samples (aged (requestTimeout (makeCallBreaker p)) (makeCallBreaker p))"
    using initiateRecordedCall_times_out [where p = p and w = w and dIni = dIni and k = k and vIni = vIni and spent = spent] by (auto simp: thisAfter_def samples_recordFailure)
  have c3: "cbState (makeCallBreaker p) \<noteq> Open \<longrightarrow> rejectsFirst eIni (Suc (plivoMaxRetries p)) w \<longrightarrow>
        samples (makeCallBreaker (thisAfter (initiateRecordedCall p spent eIni w)))
          = (0, False) # samples (aged (min (requestTimeout (makeCallBreaker p)) (plivoRunTime p spent eIni (plivoMaxRetries p) w)) (makeCallBreaker p))"
    using initiateRecordedCall_exhausts [where p = p and w = w and dIni = eIni and spent = spent] by (auto simp: thisAfter_def samples_recordFailure)
  have c4: "cbState (makeCallBreaker p) \<noteq> Open \<longrightarrow>
        (\<exists>t ok. samples (makeCallBreaker (thisAfter (initiateRecordedCall p spent dIni w))) = (0, ok) # samples (aged t (makeCallBreaker p)))"
    using initiateRecordedCall_envelope [where p = p and w = w and dIni = dIni and spent = spent] by (auto simp: thisAfter_def)
  have c5: "cbState (makeCallBreaker p) \<noteq> Open \<longrightarrow> k \<le> plivoMaxRetries p \<longrightarrow> failsThenSucceeds dMak k w vMak \<longrightarrow>
        plivoRunTime p spent dMak k w < requestTimeout (makeCallBreaker p) \<longrightarrow>
        samples (makeCallBreaker (thisAfter (makeCall p spent dMak w)))
          = (0, True) # samples (aged (plivoRunTime p spent dMak k w) (makeCallBreaker p))"
    using makeCall_succeeds [where p = p and w = w and dMak = dMak and k = k and vMak = vMak and spent = spent] by (auto simp: thisAfter_def recordSuccess_simps)
  have c6: "cbState (makeCallBreaker p) \<noteq> Open \<longrightarrow> k \<le> plivoMaxRetries p \<longrightarrow> failsThenSucceeds dMak k w vMak \<longrightarrow>
        requestTimeout (makeCallBreaker p) \<le> plivoRunTime p spent dMak k w \<longrightarrow>
        samples (makeCallBreaker (thisAfter (makeCall p spent dMak w)))
          = (0, False) # samples (aged (requestTimeout (makeCallBreaker p)) (makeCallBreaker p))"
    using makeCall_times_out [where p = p and w = w and dMak = dMak and k = k and vMak = vMak and spent = spent] by (auto simp: thisAfter_def samples_recordFailure)
  have c7: "cbState (makeCallBreaker p) \<noteq> Open \<longrightarrow> rejectsFirst eMak (Suc (plivoMaxRetries p)) w \<longrightarrow>
        samples (makeCallBreaker (thisAfter (makeCall p spent eMak w)))
          = (0, False) # samples (aged (min (requestTimeout (makeCallBreaker p)) (plivoRunTime p spent eMak (plivoMaxRetries p) w)) (makeCallBreaker p))"
    using makeCall_exhausts [where p = p and w = w and dMak = eMak and spent = spent] by (auto simp: thisAfter_def samples_recordFailure)
  have c8: "cbState (makeCallBreaker p) \<noteq> Open \<longrightarrow>
        (\<exists>t ok. samples (makeCallBreaker (thisAfter (makeCall p spent dMak w))) = (0, ok) # samples (aged t (makeCallBreaker p)))"
    using makeCall_envelope [where p = p and w = w and dMak = dMak and spent = spent] by (auto simp: thisAfter_def)
  have c9: "cbState (getCallDetailsBreaker p) \<noteq> Open \<longrightarrow> k \<le> plivoMaxRetries p \<longrightarrow> failsThenSucceeds dDet k w vDet \<longrightarrow>
        plivoRunTime p spent dDet k w < requestTimeout (getCallDetailsBreaker p) \<longrightarrow>
        samples (getCallDetailsBreaker (thisAfter (getCallDetails p spent dDet w)))
          = (0, True) # samples (aged (plivoRunTime p spent dDet k w) (getCallDetailsBreaker p))"
    using getCallDetails_succeeds [where p = p and w = w and dDet = dDet and k = k and vDet = vDet and spent = spent] by (auto simp: thisAfter_def recordSuccess_simps)
  have c10: "cbState (getCallDetailsBreaker p) \<noteq> Open \<longrightarrow> k \<le> plivoMaxRetries p \<longrightarrow> failsThenSucceeds dDet k w vDet \<longrightarrow>
        requestTimeout (getCallDetailsBreaker p) \<le> plivoRunTime p spent dDet k w \<longrightarrow>
        samples (getCallDetailsBreaker (thisAfter (getCallDetails p spent dDet w)))
          = (0, False) # samples (aged (requestTimeout (getCallDetailsBreaker p)) (getCallDetailsBreaker p))"
    using getCallDetails_times_out [where p = p and w = w and dDet = dDet and k = k and vDet = vDet and spent = spent] by (auto simp: thisAfter_def samples_recordFailure)
  have c11: "cbState (getCallDetailsBreaker p) \<noteq> Open \<longrightarrow> rejectsFirst eDet (Suc (plivoMaxRetries p)) w \<longrightarrow>
        samples (getCallDetailsBreaker (thisAfter (getCallDetails p spent eDet w)))
          = (0, False) # samples (aged (min (requestTimeout (getCallDetailsBreaker p)) (plivoRunTime p spent eDet (plivoMaxRetries p) w)) (getCallDetailsBreaker p))"
    using getCallDetails_exhausts [where p = p and w = w and dDet = eDet and spent = spent] by (auto simp: thisAfter_def samples_recordFailure)
  have c12: "cbState (getCallDetailsBreaker p) \<noteq> Open \<longrightarrow>
        (\<exists>t ok. samples (getCallDetailsBreaker (thisAfter (getCallDetails p spent dDet w))) = (0, ok) # samples (aged t (getCallDetailsBreaker p)))"
    using getCallDetails_envelope [where p = p and w = w and dDet = dDet and spent = spent] by (auto simp: thisAfter_def)
  have c13: "cbState (transcribeBreaker g) \<noteq> Open \<longrightarrow> k \<le> deepgramMaxRetries g \<longrightarrow> failsThenSucceeds dRec k w vRec \<longrightarrow>
        deepgramRunTime g spent dRec k w < requestTimeout (transcribeBreaker g) \<longrightarrow>
        samples (transcribeBreaker (thisAfter (transcribeRecording g spent dRec w)))
          = (0, True) # samples (aged (deepgramRunTime g spent dRec k w) (transcribeBreaker g))"
    using transcribeRecording_succeeds [where g = g and w = w and dRec = dRec and k = k and vRec = vRec and spent = spent] by (auto simp: thisAfter_def recordSuccess_simps)
  have c14: "cbState (transcribeBreaker g) \<noteq> Open \<longrightarrow> k \<le> deepgramMaxRetries g \<longrightarrow> failsThenSucceeds dRec k w vRec \<longrightarrow>
        requestTimeout (transcribeBreaker g) \<le> deepgramRunTime g spent dRec k w \<longrightarrow>
        samples (transcribeBreaker (thisAfter (transcribeRecording g spent dRec w)))
          = (0, False) # samples (aged (requestTimeout (transcribeBreaker g)) (transcribeBreaker g))"
    using transcribeRecording_times_out [where g = g and w = w and dRec = dRec and k = k and vRec = vRec and spent = spent] by (auto simp: thisAfter_def samples_recordFailure)
  have c15: "cbState (transcribeBreaker g) \<noteq> Open \<longrightarrow> rejectsFirst eRec (Suc (deepgramMaxRetries g)) w \<longrightarrow>
        samples (transcribeBreaker (thisAfter (transcribeRecording g spent eRec w)))
          = (0, False) # samples (aged (min (requestTimeout (transcribeBreaker g)) (deepgramRunTime g spent eRec (deepgramMaxRetries g) w)) (transcribeBreaker g))"
    using transcribeRecording_exhausts [where g = g and w = w and dRec = eRec and spent = spent] by (auto simp: thisAfter_def samples_recordFailure)
  have c16: "cbState (transcribeBreaker g) \<noteq> Open \<longrightarrow>
        (\<exists>t ok. samples (transcribeBreaker (thisAfter (transcribeRecording g spent dRec w))) = (0, ok) # samples (aged t (transcribeBreaker g)))"
    using transcribeRecording_envelope [where g = g and w = w and dRec = dRec and spent = spent] by (auto simp: thisAfter_def)
  have c17: "cbState (transcribeBreaker g) \<noteq> Open \<longrightarrow> k \<le> deepgramMaxRetries g \<longrightarrow> failsThenSucceeds dUrl k w vUrl \<longrightarrow>
        deepgramRunTime g spent dUrl k w < requestTimeout (transcribeBreaker g) \<longrightarrow>
        samples (transcribeBreaker (thisAfter (transcribeUrl g spent dUrl w)))
          = (0, True) # samples (aged (deepgramRunTime g spent dUrl k w) (transcribeBreaker g))"
    using transcribeUrl_succeeds [where g = g and w = w and dUrl = dUrl and k = k and vUrl = vUrl and spent = spent] by (auto simp: thisAfter_def recordSuccess_simps)
  have c18: "cbState (transcribeBreaker g) \<noteq> Open \<longrightarrow> k \<le> deepgramMaxRetries g \<longrightarrow> failsThenSucceeds dUrl k w vUrl \<longrightarrow>
        requestTimeout (transcribeBreaker g) \<le> deepgramRunTime g spent dUrl k w \<longrightarrow>
        samples (transcribeBreaker (thisAfter (transcribeUrl g spent dUrl w)))
          = (0, False) # samples (aged (requestTimeout (transcribeBreaker g)) (transcribeBreaker g))"
    using transcribeUrl_times_out [where g = g and w = w and dUrl = dUrl and k = k and vUrl = vUrl and spent = spent] by (auto simp: thisAfter_def samples_recordFailure)
  have c19: "cbState (transcribeBreaker g) \<noteq> Open \<longrightarrow> rejectsFirst eUrl (Suc (deepgramMaxRetries g)) w \<longrightarrow>
        samples (transcribeBreaker (thisAfter (transcribeUrl g spent eUrl w)))
          = (0, False) # samples (aged (min (requestTimeout (transcribeBreaker g)) (deepgramRunTime g spent eUrl (deepgramMaxRetries g) w)) (transcribeBreaker g))"
    using transcribeUrl_exhausts [where g = g and w = w and dUrl = eUrl and spent = spent] by (auto simp: thisAfter_def samples_recordFailure)
  have c20: "cbState (transcribeBreaker g) \<noteq> Open \<longrightarrow>
        (\<exists>t ok. samples (transcribeBreaker (thisAfter (transcribeUrl g spent dUrl w))) = (0, ok) # samples (aged t (transcribeBreaker g)))"
    using transcribeUrl_envelope [where g = g and w = w and dUrl = dUrl and spent = spent] by (auto simp: thisAfter_def)
  have c21: "cbState (transcribeBreaker g) \<noteq> Open \<longrightarrow> k \<le> deepgramMaxRetries g \<longrightarrow> failsThenSucceeds dIns k w vIns \<longrightarrow>
        deepgramRunTime g spent dIns k w < requestTimeout (transcribeBreaker g) \<longrightarrow>
        samples (transcribeBreaker (thisAfter (transcribeWithInsights g spent dIns w)))
          = (0, True) # samples (aged (deepgramRunTime g spent dIns k w) (transcribeBreaker g))"
    using transcribeWithInsights_succeeds [where g = g and w = w and dIns = dIns and k = k and vIns = vIns and spent = spent] by (auto simp: thisAfter_def recordSuccess_simps)
  have c22: "cbState (transcribeBreaker g) \<noteq> Open \<longrightarrow> k \<le> deepgramMaxRetries g \<longrightarrow> failsThenSucceeds dIns k w vIns \<longrightarrow>
        requestTimeout (transcribeBreaker g) \<le> deepgramRunTime g spent dIns k w \<longrightarrow>
        samples (transcribeBreaker (thisAfter (transcribeWithInsights g spent dIns w)))
          = (0, False) # samples (aged (requestTimeout (transcribeBreaker g)) (transcribeBreaker g))"
    using transcribeWithInsights_times_out [where g = g and w = w and dIns = dIns and k = k and vIns = vIns and spent = spent] by (auto simp: thisAfter_def samples_recordFailure)
  have c23: "cbState (transcribeBreaker g) \<noteq> Open \<longrightarrow> rejectsFirst eIns (Suc (deepgramMaxRetries g)) w \<longrightarrow>
        samples (transcribeBreaker (thisAfter (transcribeWithInsights g spent eIns w)))
          = (0, False) # samples (aged (min (requestTimeout (transcribeBreaker g)) (deepgramRunTime g spent eIns (deepgramMaxRetries g) w)) (transcribeBreaker g))"
    using transcribeWithInsights_exhausts [where g = g and w = w and dIns = eIns and spent = spent] by (auto simp: thisAfter_def samples_recordFailure)
  have c24: "cbState (transcribeBreaker g) \<noteq> Open \<longrightarrow>
        (\<exists>t ok. samples (transcribeBreaker (thisAfter (transcribeWithInsights g spent dIns w))) = (0, ok) # samples (aged t (transcribeBreaker g)))"
    using transcribeWithInsights_envelope [where g = g and w = w and dIns = dIns and spent = spent] by (auto simp: thisAfter_def)
  have c25: "cbState (transcribeBreaker g) \<noteq> Open \<longrightarrow> k \<le> deepgramMaxRetries g \<longrightarrow> failsThenSucceeds dBuf k w vBuf \<longrightarrow>
        deepgramRunTime g spent dBuf k w < requestTimeout (transcribeBreaker g) \<longrightarrow>
        samples (transcribeBreaker (thisAfter (transcribeBuffer g spent dBuf w)))
          = (0, True) # samples (aged (deepgramRunTime g spent dBuf k w) (transcribeBreaker g))"
    using transcribeBuffer_succeeds [where g = g and w = w and dBuf = dBuf and k = k and vBuf = vBuf and spent = spent] by (auto simp: thisAfter_def recordSuccess_simps)
  have c26: "cbState (transcribeBreaker g) \<noteq> Open \<longrightarrow> k \<le> deepgramMaxRetries g \<longrightarrow> failsThenSucceeds dBuf k w vBuf \<longrightarrow>
        requestTimeout (transcribeBreaker g) \<le> deepgramRunTime g spent dBuf k w \<longrightarrow>
        samples (transcribeBreaker (thisAfter (transcribeBuffer g spent dBuf w)))
          = (0, False) # samples (aged (requestTimeout (transcribeBreaker g)) (transcribeBreaker g))"
    using transcribeBuffer_times_out [where g = g and w = w and dBuf = dBuf and k = k and vBuf = vBuf and spent = spent] by (auto simp: thisAfter_def samples_recordFailure)
  have c27: "cbState (transcribeBreaker g) \<noteq> Open \<longrightarrow> rejectsFirst eBuf (Suc (deepgramMaxRetries g)) w \<longrightarrow>
        samples (transcribeBreaker (thisAfter (transcribeBuffer g spent eBuf w)))
          = (0, False) # samples (aged (min (requestTimeout (transcribeBreaker g)) (deepgramRunTime g spent eBuf (deepgramMaxRetries g) w)) (transcribeBreaker g))"
    using transcribeBuffer_exhausts [where g = g and w = w and dBuf = eBuf and spent = spent] by (auto simp: thisAfter_def samples_recordFailure)
  have c28: "cbState (transcribeBreaker g) \<noteq> Open \<longrightarrow>
        (\<exists>t ok. samples (transcribeBreaker (thisAfter (transcribeBuffer g spent dBuf w))) = (0, ok) # samples (aged t (transcribeBreaker g)))"
    using transcribeBuffer_envelope [where g = g and w = w and dBuf = dBuf and spent = spent] by (auto simp: thisAfter_def)
  show ?thesis
    by (intro conjI) (fact c1 c2 c3 c4 c5 c6 c7 c8 c9 c10 c11 c12 c13 c14 c15 c16 c17 c18 c19 c20 c21 c22 c23 c24 c25 c26 c27 c28)+
qed

theorem one_sample_per_guarded_call_witness:
  "samples (makeCallBreaker (thisAfter (initiateRecordedCall (newPlivoResilient noArguments) (latency 100) (flaky 2 boom firedCall) 0))) = [(0, True)]
   \<and> samples (makeCallBreaker (thisAfter (initiateRecordedCall (newPlivoResilient noArguments) (latency 20000) (flaky 2 boom firedCall) 0))) = [(0, False)]
   \<and> samples (makeCallBreaker (thisAfter (initiateRecordedCall (newPlivoResilient noArguments) (latency 100) (flaky 4 boom firedCall) 0))) = [(0, False)]
   \<and> (\<exists>ok. samples (makeCallBreaker (thisAfter (initiateRecordedCall (newPlivoResilient noArguments) (latency 100) (flaky 2 boom firedCall) 0))) = [(0, ok)])
   \<and> samples (makeCallBreaker (thisAfter (makeCall (newPlivoResilient noArguments) (latency 100) (flaky 2 boom queuedCall) 0))) = [(0, True)]
   \<and> samples (makeCallBreaker (thisAfter (makeCall (newPlivoResilient noArguments) (latency 20000) (flaky 2 boom queuedCall) 0))) = [(0, False)]
   \<and> samples (makeCallBreaker (thisAfter (makeCall (newPlivoResilient noArguments) (latency 100) (flaky 4 boom queuedCall) 0))) = [(0, False)]
   \<and> (\<exists>ok. samples (makeCallBreaker (thisAfter (makeCall (newPlivoResilient noArguments) (latency 100) (flaky 2 boom queuedCall) 0))) = [(0, ok)])
   \<and> samples (getCallDetailsBreaker (thisAfter (getCallDetails (newPlivoResilient noArguments) (latency 100) (flaky 2 boom ''completed'') 0))) = [(0, True)]
   \<and> samples (getCallDetailsBreaker (thisAfter (getCallDetails (newPlivoResilient noArguments) (latency 20000) (flaky 2 boom ''completed'') 0))) = [(0, False)]
   \<and> samples (getCallDetailsBreaker (thisAfter (getCallDetails (newPlivoResilient noArguments) (latency 100) (flaky 4 boom ''completed'') 0))) = [(0, False)]
   \<and> (\<exists>ok. samples (getCallDetailsBreaker (thisAfter (getCallDetails (newPlivoResilient noArguments) (latency 100) (flaky 2 boom ''completed'') 0))) = [(0, ok)])
   \<and> samples (transcribeBreaker (thisAfter (transcribeRecording (newDeepgramResilient noArguments) (latency 100) (flaky 2 boom ''hello world'') 0))) = [(0, True)]
   \<and> samples (transcribeBreaker (thisAfter (transcribeRecording (newDeepgramResilient noArguments) (latency 20000) (flaky 2 boom ''hello world'') 0))) = [(0, False)]
   \<and> samples (transcribeBreaker (thisAfter (transcribeRecording (newDeepgramResilient noArguments) (latency 100) (flaky 4 boom ''hello world'') 0))) = [(0, False)]
   \<and> (\<exists>ok. samples (transcribeBreaker (thisAfter (transcribeRecording (newDeepgramResilient noArguments) (latency 100) (flaky 2 boom ''hello world'') 0))) = [(0, ok)])
   \<and> samples (transcribeBreaker (thisAfter (transcribeUrl (newDeepgramResilient noArguments) (latency 100) (flaky 2 boom ''hello world'') 0))) = [(0, True)]
   \<and> samples (transcribeBreaker (thisAfter (transcribeUrl (newDeepgramResilient noArguments) (latency 20000) (flaky 2 boom ''hello world'') 0))) = [(0, False)]
   \<and> samples (transcribeBreaker (thisAfter (transcribeUrl (newDeepgramResilient noArguments) (latency 100) (flaky 4 boom ''hello world'') 0))) = [(0, False)]
   \<and> (\<exists>ok. samples (transcribeBreaker (thisAfter (transcribeUrl (newDeepgramResilient noArguments) (latency 100) (flaky 2 boom ''hello world'') 0))) = [(0, ok)])
   \<and> samples (transcribeBreaker (thisAfter (transcribeWithInsights (newDeepgramResilient noArguments) (latency 100) (flaky 2 boom ''hello world'') 0))) = [(0, True)]
   \<and> samples (transcribeBreaker (thisAfter (transcribeWithInsights (newDeepgramResilient noArguments) (latency 20000) (flaky 2 boom ''hello world'') 0))) = [(0, False)]
   \<and> samples (transcribeBreaker (thisAfter (transcribeWithInsights (newDeepgramResilient noArguments) (latency 100) (flaky 4 boom ''hello world'') 0))) = [(0, False)]
   \<and> (\<exists>ok. samples (transcribeBreaker (thisAfter (transcribeWithInsights (newDeepgramResilient noArguments) (latency 100) (flaky 2 boom ''hello world'') 0))) = [(0, ok)])
   \<and> samples (transcribeBreaker (thisAfter (transcribeBuffer (newDeepgramResilient noArguments) (latency 100) (flaky 2 boom ''hello world'') 0))) = [(0, True)]
   \<and> samples (transcribeBreaker (thisAfter (transcribeBuffer (newDeepgramResilient noArguments) (latency 20000) (flaky 2 boom ''hello world'') 0))) = [(0, False)]
   \<and> samples (transcribeBreaker (thisAfter (transcribeBuffer (newDeepgramResilient noArguments) (latency 100) (flaky 4 boom ''hello world'') 0))) = [(0, False)]
   \<and> (\<exists>ok. samples (transcribeBreaker (thisAfter (transcribeBuffer (newDeepgramResilient noArguments) (latency 100) (flaky 2 boom ''hello world'') 0))) = [(0, ok)])"
proof -
  note T = one_sample_per_guarded_call [where p = "newPlivoResilient noArguments" and g = "newDeepgramResilient noArguments" and k = "2" and w = "0::nat" and dIni = "flaky 2 boom firedCall" and vIni = "firedCall" and eIni = "flaky 4 boom firedCall" and dMak = "flaky 2 boom queuedCall" and vMak = "queuedCall" and eMak = "flaky 4 boom queuedCall" and dDet = "flaky 2 boom ''completed''" and vDet = "''completed''" and eDet = "flaky 4 boom ''completed''" and dRec = "flaky 2 boom ''hello world''" and vRec = "''hello world''" and eRec = "flaky 4 boom ''hello world''" and dUrl = "flaky 2 boom ''hello world''" and vUrl = "''hello world''" and eUrl = "flaky 4 boom ''hello world''" and dIns = "flaky 2 boom ''hello world''" and vIns = "''hello world''" and eIns = "flaky 4 boom ''hello world''" and dBuf = "flaky 2 boom ''hello world''" and vBuf = "''hello world''" and eBuf = "flaky 4 boom ''hello world''" and spent = "latency 100"]
  note U = one_sample_per_guarded_call [where p = "newPlivoResilient noArguments" and g = "newDeepgramResilient noArguments" and k = "2" and w = "0::nat" and dIni = "flaky 2 boom firedCall" and vIni = "firedCall" and eIni = "flaky 4 boom firedCall" and dMak = "flaky 2 boom queuedCall" and vMak = "queuedCall" and eMak = "flaky 4 boom queuedCall" and dDet = "flaky 2 boom ''completed''" and vDet = "''completed''" and eDet = "flaky 4 boom ''completed''" and dRec = "flaky 2 boom ''hello world''" and vRec = "''hello world''" and eRec = "flaky 4 boom ''hello world''" and dUrl = "flaky 2 boom ''hello world''" and vUrl = "''hello world''" and eUrl = "flaky 4 boom ''hello world''" and dIns = "flaky 2 boom ''hello world''" and vIns = "''hello world''" and eIns = "flaky 4 boom ''hello world''" and dBuf = "flaky 2 boom ''hello world''" and vBuf = "''hello world''" and eBuf = "flaky 4 boom ''hello world''" and spent = "latency 20000"]
  have w1: "samples (makeCallBreaker (thisAfter (initiateRecordedCall (newPlivoResilient noArguments) (latency 100) (flaky 2 boom firedCall) 0))) = [(0, True)]"
    using T [THEN conjunct1] by (simp add: newPlivoResilient_noArguments newDeepgramResilient_noArguments failsThenSucceeds_flaky plivoRunTime_flaky backoffTotal_noArguments)
  have w2: "samples (makeCallBreaker (thisAfter (initiateRecordedCall (newPlivoResilient noArguments) (latency 20000) (flaky 2 boom firedCall) 0))) = [(0, False)]"
    using U [THEN conjunct2, THEN conjunct1] by (simp add: newPlivoResilient_noArguments newDeepgramResilient_noArguments failsThenSucceeds_flaky plivoRunTime_flaky backoffTotal_noArguments)
  have w3: "samples (makeCallBreaker (thisAfter (initiateRecordedCall (newPlivoResilient noArguments) (latency 100) (flaky 4 boom firedCall) 0))) = [(0, False)]"
    using T [THEN conjunct2, THEN conjunct2, THEN conjunct1] by (simp add: newPlivoResilient_noArguments newDeepgramResilient_noArguments rejectsFirst_flaky)
  have w4: "\<exists>ok. samples (makeCallBreaker (thisAfter (initiateRecordedCall (newPlivoResilient noArguments) (latency 100) (flaky 2 boom firedCall) 0))) = [(0, ok)]"
    using T [THEN conjunct2, THEN conjunct2, THEN conjunct2, THEN conjunct1] by (simp add: newPlivoResilient_noArguments newDeepgramResilient_noArguments)
  have w5: "samples (makeCallBreaker (thisAfter (makeCall (newPlivoResilient noArguments) (latency 100) (flaky 2 boom queuedCall) 0))) = [(0, True)]"
    using T [THEN conjunct2, THEN conjunct2, THEN conjunct2, THEN conjunct2, THEN conjunct1] by (simp add: newPlivoResilient_noArguments newDeepgramResilient_noArguments failsThenSucceeds_flaky plivoRunTime_flaky backoffTotal_noArguments)
  have w6: "samples (makeCallBreaker (thisAfter (makeCall (newPlivoResilient noArguments) (latency 20000) (flaky 2 boom queuedCall) 0))) = [(0, False)]"
    using U [THEN conjunct2, THEN conjunct2, THEN conjunct2, THEN conjunct2, THEN conjunct2, THEN conjunct1] by (simp add: newPlivoResilient_noArguments newDeepgramResilient_noArguments failsThenSucceeds_flaky plivoRunTime_flaky backoffTotal_noArguments)
  have w7: "samples (makeCallBreaker (thisAfter (makeCall (newPlivoResilient noArguments) (latency 100) (flaky 4 boom queuedCall) 0))) = [(0, False)]"
    using T [THEN conjunct2, THEN conjunct2, THEN conjunct2, THEN conjunct2, THEN conjunct2, THEN conjunct2, THEN conjunct1] by (simp add: newPlivoResilient_noArguments newDeepgramResilient_noArguments rejectsFirst_flaky)
  have w8: "\<exists>ok. samples (makeCallBreaker (thisAfter (makeCall (newPlivoResilient noArguments) (latency 100) (flaky 2 boom queuedCall) 0))) = [(0, ok)]"
    using T [THEN conjunct2, THEN conjunct2, THEN conjunct2, THEN conjunct2, THEN conjunct2, THEN conjunct2, THEN conjunct2, THEN conjunct1] by (simp add: newPlivoResilient_noArguments newDeepgramResilient_noArguments)
  have w9: "samples (getCallDetailsBreaker (thisAfter (getCallDetails (newPlivoResilient noArguments) (latency 100) (flaky 2 boom ''completed'') 0))) = [(0, True)]"
    using T [THEN conjunct2, THEN conjunct2, THEN conjunct2, THEN conjunct2, THEN conjunct2, THEN conjunct2, THEN conjunct2, THEN conjunct2, THEN conjunct1] by (simp add: newPlivoResilient_noArguments newDeepgramResilient_noArguments failsThenSucceeds_flaky plivoRunTime_flaky backoffTotal_noArguments)
  have w10: "samples (getCallDetailsBreaker (thisAfter (getCallDetails (newPlivoResilient noArguments) (latency 20000) (flaky 2 boom ''completed'') 0))) = [(0, False)]"
    using U [THEN conjunct2, THEN conjunct2, THEN conjunct2, THEN conjunct2, THEN conjunct2, THEN conjunct2, THEN conjunct2, THEN conjunct2, THEN conjunct2, THEN conjunct1] by (simp add: newPlivoResilient_noArguments newDeepgramResilient_noArguments failsThenSucceeds_flaky plivoRunTime_flaky backoffTotal_noArguments)
  have w11: "samples (getCallDetailsBreaker (thisAfter (getCallDetails (newPlivoResilient noArguments) (latency 100) (flaky 4 boom ''completed'') 0))) = [(0, False)]"
    using T [THEN conjunct2, THEN conjunct2, THEN conjunct2, THEN conjunct2, THEN conjunct2, THEN conjunct2, THEN conjunct2, THEN conjunct2, THEN conjunct2, THEN conjunct2, THEN conjunct1] by (simp add: newPlivoResilient_noArguments newDeepgramResilient_noArguments rejectsFirst_flaky)
  have w12: "\<exists>ok. samples (getCallDetailsBreaker (thisAfter (getCallDetails (newPlivoResilient noArguments) (latency 100) (flaky 2 boom ''completed'') 0))) = [(0, ok)]"
    using T [THEN conjunct2, THEN conjunct2, THEN conjunct2, THEN conjunct2, THEN conjunct2, THEN conjunct2, THEN conjunct2, THEN conjunct2, THEN conjunct2, THEN conjunct2, THEN conjunct2, THEN conjunct1] by (simp add: newPlivoResilient_noArguments newDeepgramResilient_noArguments)
  have w13: "samples (transcribeBreaker (thisAfter (transcribeRecording (newDeepgramResilient noArguments) (latency 100) (flaky 2 boom ''hello world'') 0))) = [(0, True)]"
    using T [THEN conjunct2, THEN conjunct2, THEN conjunct2, THEN conjunct2, THEN conjunct2, THEN conjunct2, THEN conjunct2, THEN conjunct2, THEN conjunct2, THEN conjunct2, THEN conjunct2, THEN conjunct2, THEN conjunct1] by (simp add: newPlivoResilient_noArguments newDeepgramResilient_noArguments failsThenSucceeds_flaky deepgramRunTime_flaky backoffTotal_noArguments)
  have w14: "samples (transcribeBreaker (thisAfter (transcribeRecording (newDeepgramResilient noArguments) (latency 20000) (flaky 2 boom ''hello world'') 0))) = [(0, False)]"
    using U [THEN conjunct2, THEN conjunct2, THEN conjunct2, THEN conjunct2, THEN conjunct2, THEN conjunct2, THEN conjunct2, THEN conjunct2, THEN conjunct2, THEN conjunct2, THEN conjunct2, THEN conjunct2, THEN conjunct2, THEN conjunct1] by (simp add: newPlivoResilient_noArguments newDeepgramResilient_noArguments failsThenSucceeds_flaky deepgramRunTime_flaky backoffTotal_noArguments)
  have w15: "samples (transcribeBreaker (thisAfter (transcribeRecording (newDeepgramResilient noArguments) (latency 100) (flaky 4 boom ''hello world'') 0))) = [(0, False)]"
    using T [THEN conjunct2, THEN conjunct2, THEN conjunct2, THEN conjunct2, THEN conjunct2, THEN conjunct2, THEN conjunct2, THEN conjunct2, THEN conjunct2, THEN conjunct2, THEN conjunct2, THEN conjunct2, THEN conjunct2, THEN conjunct2, THEN conjunct1] by (simp add: newPlivoResilient_noArguments newDeepgramResilient_noArguments rejectsFirst_flaky)
  have w16: "\<exists>ok. samples (transcribeBreaker (thisAfter (transcribeRecording (newDeepgramResilient noArguments) (latency 100) (flaky 2 boom ''hello world'') 0))) = [(0, ok)]"
    using T [THEN conjunct2, THEN conjunct2, THEN conjunct2, THEN conjunct2, THEN conjunct2, THEN conjunct2, THEN conjunct2, THEN conjunct2, THEN conjunct2, THEN conjunct2, THEN conjunct2, THEN conjunct2, THEN conjunct2, THEN conjunct2, THEN conjunct2, THEN conjunct1] by (simp add: newPlivoResilient_noArguments newDeepgramResilient_noArguments)
  have w17: "samples (transcribeBreaker (thisAfter (transcribeUrl (newDeepgramResilient noArguments) (latency 100) (flaky 2 boom ''hello world'') 0))) = [(0, True)]"
    using T [THEN conjunct2, THEN conjunct2, THEN conjunct2, THEN conjunct2, THEN conjunct2, THEN conjunct2, THEN conjunct2, THEN conjunct2, THEN conjunct2, THEN conjunct2, THEN conjunct2, THEN conjunct2, THEN conjunct2, THEN conjunct2, THEN conjunct2, THEN conjunct2, THEN conjunct1] by (simp add: newPlivoResilient_noArguments newDeepgramResilient_noArguments failsThenSucceeds_flaky deepgramRunTime_flaky backoffTotal_noArguments)
  have w18: "samples (transcribeBreaker (thisAfter (transcribeUrl (newDeepgramResilient noArguments) (latency 20000) (flaky 2 boom ''hello world'') 0))) = [(0, False)]"
    using U [THEN conjunct2, THEN conjunct2, THEN conjunct2, THEN conjunct2, THEN conjunct2, THEN conjunct2, THEN conjunct2, THEN conjunct2, THEN conjunct2, THEN conjunct2, THEN conjunct2, THEN conjunct2, THEN conjunct2, THEN conjunct2, THEN conjunct2, THEN conjunct2, THEN conjunct2, THEN conjunct1] by (simp add: newPlivoResilient_noArguments newDeepgramResilient_noArguments failsThenSucceeds_flaky deepgramRunTime_flaky backoffTotal_noArguments)
  have w19: "samples (transcribeBreaker (thisAfter (transcribeUrl (newDeepgramResilient noArguments) (latency 100) (flaky 4 boom ''hello world'') 0))) = [(0, False)]"
    using T [THEN conjunct2, THEN conjunct2, THEN conjunct2, THEN conjunct2, THEN conjunct2, THEN conjunct2, THEN conjunct2, THEN conjunct2, THEN conjunct2, THEN conjunct2, THEN conjunct2, THEN conjunct2, THEN conjunct2, THEN conjunct2, THEN conjunct2, THEN conjunct2, THEN conjunct2, THEN conjunct2, THEN conjunct1] by (simp add: newPlivoResilient_noArguments newDeepgramResilient_noArguments rejectsFirst_flaky)
  have w20: "\<exists>ok. samples (transcribeBreaker (thisAfter (transcribeUrl (newDeepgramResilient noArguments) (latency 100) (flaky 2 boom ''hello world'') 0))) = [(0, ok)]"
    using T [THEN conjunct2, THEN conjunct2, THEN conjunct2, THEN conjunct2, THEN conjunct2, THEN conjunct2, THEN conjunct2, THEN conjunct2, THEN conjunct2, THEN conjunct2, THEN conjunct2, THEN conjunct2, THEN conjunct2, THEN conjunct2, THEN conjunct2, THEN conjunct2, THEN conjunct2, THEN conjunct2, THEN conjunct2, THEN conjunct1] by (simp add: newPlivoResilient_noArguments newDeepgramResilient_noArguments)
  have w21: "samples (transcribeBreaker (thisAfter (transcribeWithInsights (newDeepgramResilient noArguments) (latency 100) (flaky 2 boom ''hello world'') 0))) = [(0, True)]"
    using T [THEN conjunct2, THEN conjunct2, THEN conjunct2, THEN conjunct2, THEN conjunct2, THEN conjunct2, THEN conjunct2, THEN conjunct2, THEN conjunct2, THEN conjunct2, THEN conjunct2, THEN conjunct2, THEN conjunct2, THEN conjunct2, THEN conjunct2, THEN conjunct2, THEN conjunct2, THEN conjunct2, THEN conjunct2, THEN conjunct2, THEN conjunct1] by (simp add: newPlivoResilient_noArguments newDeepgramResilient_noArguments failsThenSucceeds_flaky deepgramRunTime_flaky backoffTotal_noArguments)
  have w22: "samples (transcribeBreaker (thisAfter (transcribeWithInsights (newDeepgramResilient noArguments) (latency 20000) (flaky 2 boom ''hello world'') 0))) = [(0, False)]"
    using U [THEN conjunct2, THEN conjunct2, THEN conjunct2, THEN conjunct2, THEN conjunct2, THEN conjunct2, THEN conjunct2, THEN conjunct2, THEN conjunct2, THEN conjunct2, THEN conjunct2, THEN conjunct2, THEN conjunct2, THEN conjunct2, THEN conjunct2, THEN conjunct2, THEN conjunct2, THEN conjunct2, THEN conjunct2, THEN conjunct2, THEN conjunct2, THEN conjunct1] by (simp add: newPlivoResilient_noArguments newDeepgramResilient_noArguments failsThenSucceeds_flaky deepgramRunTime_flaky backoffTotal_noArguments)
  have w23: "samples (transcribeBreaker (thisAfter (transcribeWithInsights (newDeepgramResilient noArguments) (latency 100) (flaky 4 boom ''hello world'') 0))) = [(0, False)]"
    using T [THEN conjunct2, THEN conjunct2, THEN conjunct2, THEN conjunct2, THEN conjunct2, THEN conjunct2, THEN conjunct2, THEN conjunct2, THEN conjunct2, THEN conjunct2, THEN conjunct2, THEN conjunct2, THEN conjunct2, THEN conjunct2, THEN conjunct2, THEN conjunct2, THEN conjunct2, THEN conjunct2, THEN conjunct2, THEN conjunct2, THEN conjunct2, THEN conjunct2, THEN conjunct1] by (simp add: newPlivoResilient_noArguments newDeepgramResilient_noArguments rejectsFirst_flaky)
  have w24: "\<exists>ok. samples (transcribeBreaker (thisAfter (transcribeWithInsights (newDeepgramResilient noArguments) (latency 100) (flaky 2 boom ''hello world'') 0))) = [(0, ok)]"
    using T [THEN conjunct2, THEN conjunct2, THEN conjunct2, THEN conjunct2, THEN conjunct2, THEN conjunct2, THEN conjunct2, THEN conjunct2, THEN conjunct2, THEN conjunct2, THEN conjunct2, THEN conjunct2, THEN conjunct2, THEN conjunct2, THEN conjunct2, THEN conjunct2, THEN conjunct2, THEN conjunct2, THEN conjunct2, THEN conjunct2, THEN conjunct2, THEN conjunct2, THEN conjunct2, THEN conjunct1] by (simp add: newPlivoResilient_noArguments newDeepgramResilient_noArguments)
  have w25: "samples (transcribeBreaker (thisAfter (transcribeBuffer (newDeepgramResilient noArguments) (latency 100) (flaky 2 boom ''hello world'') 0))) = [(0, True)]"
    using T [THEN conjunct2, THEN conjunct2, THEN conjunct2, THEN conjunct2, THEN conjunct2, THEN conjunct2, THEN conjunct2, THEN conjunct2, THEN conjunct2, THEN conjunct2, THEN conjunct2, THEN conjunct2, THEN conjunct2, THEN conjunct2, THEN conjunct2, THEN conjunct2, THEN conjunct2, THEN conjunct2, THEN conjunct2, THEN conjunct2, THEN conjunct2, THEN conjunct2, THEN conjunct2, THEN conjunct2, THEN conjunct1] by (simp add: newPlivoResilient_noArguments newDeepgramResilient_noArguments failsThenSucceeds_flaky deepgramRunTime_flaky backoffTotal_noArguments)
  have w26: "samples (transcribeBreaker (thisAfter (transcribeBuffer (newDeepgramResilient noArguments) (latency 20000) (flaky 2 boom ''hello world'') 0))) = [(0, False)]"
    using U [THEN conjunct2, THEN conjunct2, THEN conjunct2, THEN conjunct2, THEN conjunct2, THEN conjunct2, THEN conjunct2, THEN conjunct2, THEN conjunct2, THEN conjunct2, THEN conjunct2, THEN conjunct2, THEN conjunct2, THEN conjunct2, THEN conjunct2, THEN conjunct2, THEN conjunct2, THEN conjunct2, THEN conjunct2, THEN conjunct2, THEN conjunct2, THEN conjunct2, THEN conjunct2, THEN conjunct2, THEN conjunct2, THEN conjunct1] by (simp add: newPlivoResilient_noArguments newDeepgramResilient_noArguments failsThenSucceeds_flaky deepgramRunTime_flaky backoffTotal_noArguments)
  have w27: "samples (transcribeBreaker (thisAfter (transcribeBuffer (newDeepgramResilient noArguments) (latency 100) (flaky 4 boom ''hello world'') 0))) = [(0, False)]"
    using T [THEN conjunct2, THEN conjunct2, THEN conjunct2, THEN conjunct2, THEN conjunct2, THEN conjunct2, THEN conjunct2, THEN conjunct2, THEN conjunct2, THEN conjunct2, THEN conjunct2, THEN conjunct2, THEN conjunct2, THEN conjunct2, THEN conjunct2, THEN conjunct2, THEN conjunct2, THEN conjunct2, THEN conjunct2, THEN conjunct2, THEN conjunct2, THEN conjunct2, THEN conjunct2, THEN conjunct2, THEN conjunct2, THEN conjunct2, THEN conjunct1] by (simp add: newPlivoResilient_noArguments newDeepgramResilient_noArguments rejectsFirst_flaky)
  have w28: "\<exists>ok. samples (transcribeBreaker (thisAfter (transcribeBuffer (newDeepgramResilient noArguments) (latency 100) (flaky 2 boom ''hello world'') 0))) = [(0, ok)]"
    using T [THEN conjunct2, THEN conjunct2, THEN conjunct2, THEN conjunct2, THEN conjunct2, THEN conjunct2, THEN conjunct2, THEN conjunct2, THEN conjunct2, THEN conjunct2, THEN conjunct2, THEN conjunct2, THEN conjunct2, THEN conjunct2, THEN conjunct2, THEN conjunct2, THEN conjunct2, THEN conjunct2, THEN conjunct2, THEN conjunct2, THEN conjunct2, THEN conjunct2, THEN conjunct2, THEN conjunct2, THEN conjunct2, THEN conjunct2, THEN conjunct2] by (simp add: newPlivoResilient_noArguments newDeepgramResilient_noArguments)
  show ?thesis
    by (intro conjI) (fact w1 w2 w3 w4 w5 w6 w7 w8 w9 w10 w11 w12 w13 w14 w15 w16 w17 w18 w19 w20 w21 w22 w23 w24 w25 w26 w27 w28)+
qed

text \<open>
  C4, as stated: whenever the operation fails \<open>k \<le> maxRetries\<close> times and then succeeds, the
  facade returns \<^verbatim>\<open>success: true\<close> with \<^verbatim>\<open>retryCount = k + 1\<close>. It does not while the
  breaker of the method is open, and it does not when the run outlasts the request timeout
  of the breaker. A delegate that rejects its first four calls and resolves ever after
  makes a first \<^verbatim>\<open>initiateRecordedCall\<close> on a new instance use up all four attempts, which
  opens the \<^verbatim>\<open>makeCall\<close> breaker. On the second call the delegate would resolve at once
  (\<open>k = 0\<close>), yet the envelope says \<^verbatim>\<open>success: false\<close> with the breaker's error and no
  \<^verbatim>\<open>retryCount\<close>, and the delegate has not been called: the world still counts four calls.
  And on a new instance that is given \<^verbatim>\<open>maxRetries: 6\<close>, whose breaker is closed, a delegate
  that rejects six times and then resolves is waited for longer than the 30000 ms of the
  request timeout: the envelope says \<^verbatim>\<open>success: false\<close> with the error of the timeout.
\<close>

theorem recovering_operation_without_success_envelope:
  "failsThenSucceeds (flaky 4 boom firedCall) 0 4 firedCall
   \<and> fst (initiateRecordedCall (thisAfter (initiateRecordedCall (newPlivoResilient noArguments) (latency 100) (flaky 4 boom firedCall) 0)) (latency 100) (flaky 4 boom firedCall) 4)
       = Inr \<lparr>success = False, data = None, error = Some (JsError ''Error'' ''Breaker is open''),
              retryCount = None, circuitBreakerState = Some ''true''\<rparr>
   \<and> worldLeft (initiateRecordedCall (thisAfter (initiateRecordedCall (newPlivoResilient noArguments) (latency 100) (flaky 4 boom firedCall) 0)) (latency 100) (flaky 4 boom firedCall) 4) = 4
   \<and> failsThenSucceeds (flaky 6 boom firedCall) 6 0 firedCall
   \<and> 6 \<le> plivoMaxRetries (newPlivoResilient (noArguments\<lparr>maxRetries := Value 6\<rparr>))
   \<and> cbState (makeCallBreaker (newPlivoResilient (noArguments\<lparr>maxRetries := Value 6\<rparr>))) = Closed
   \<and> fst (initiateRecordedCall (newPlivoResilient (noArguments\<lparr>maxRetries := Value 6\<rparr>)) (latency 100) (flaky 6 boom firedCall) 0)
       = Inr \<lparr>success = False, data = None,
              error = Some (JsError ''Error'' ''Timed out after 30000ms''),
              retryCount = None, circuitBreakerState = Some ''true''\<rparr>"
proof -
  have op: "cbState (makeCallBreaker (thisAfter (initiateRecordedCall (newPlivoResilient noArguments) (latency 100) (flaky 4 boom firedCall) 0))) = Open"
    by (rule open_after_failed_calls)
  from initiateRecordedCall_open [OF op, of "latency 100" "flaky 4 boom firedCall" 4]
  show ?thesis
    by (simp add: recovered_flaky failsThenSucceeds_flaky worldLeft_def
          newPlivoResilient_six_retries initiateRecordedCall_outlasts_timeout)
qed

text \<open>
  C4, amended: for each of the seven guarded methods whose breaker is not open when the
  method is called: if the delegate rejects \<open>k \<le> maxRetries\<close> times and then resolves with
  \<open>v\<close>, and the run (the \<open>k + 1\<close> calls of the delegate and the \<open>k\<close> delays between them)
  takes less than the request timeout of the breaker, the method resolves with the envelope
  \<^verbatim>\<open>{success: true, data, retryCount: k + 1}\<close>, and the delegate has been called exactly
  \<open>k + 1\<close> times: the world is the one after \<open>k + 1\<close> calls. The same holds for
  \<^verbatim>\<open>terminateCall\<close>, which has neither a breaker nor a timeout. \<^verbatim>\<open>data\<close> is built from
  \<open>v\<close>: it is \<open>v\<close> itself for \<^verbatim>\<open>makeCall\<close>, \<^verbatim>\<open>getCallDetails\<close> and the four transcription
  methods, the fields \<^verbatim>\<open>callUuid\<close>, \<^verbatim>\<open>message\<close> and \<^verbatim>\<open>apiId\<close> of \<open>v\<close> for
  \<^verbatim>\<open>initiateRecordedCall\<close>, and the \<^verbatim>\<open>message\<close> of \<open>v\<close> for \<^verbatim>\<open>terminateCall\<close>. While the
  breaker of a guarded method is open, the method resolves with \<^verbatim>\<open>success: false\<close> and the
  breaker's error, and the delegate is not called: the world stays as it is. When the run
  takes the request timeout or longer, the method resolves with \<^verbatim>\<open>success: false\<close>, the
  error of the timeout and no \<^verbatim>\<open>retryCount\<close>.
\<close>

theorem success_envelope_of_recovering_operation:
  "(cbState (makeCallBreaker p) \<noteq> Open \<longrightarrow> k \<le> plivoMaxRetries p \<longrightarrow> failsThenSucceeds dIni k w vIni \<longrightarrow>
        plivoRunTime p spent dIni k w < requestTimeout (makeCallBreaker p) \<longrightarrow>
        fst (initiateRecordedCall p spent dIni w)
          = Inr \<lparr>success = True, data = Some \<lparr>callUuid = ircCallUuid vIni, icMessage = ircMessage vIni, apiId = ircApiId vIni\<rparr>, error = None, retryCount = Some (k + 1),
                 circuitBreakerState = Some ''false''\<rparr>
        \<and> worldLeft (initiateRecordedCall p spent dIni w) = worldAfter dIni (Suc k) w)
   \<and> (cbState (makeCallBreaker p) = Open \<longrightarrow>
        fst (initiateRecordedCall p spent dIni w)
          = Inr \<lparr>success = False, data = None, error = Some (JsError ''Error'' ''Breaker is open''),
                 retryCount = None, circuitBreakerState = Some ''true''\<rparr>
        \<and> worldLeft (initiateRecordedCall p spent dIni w) = w)
   \<and> (cbState (makeCallBreaker p) \<noteq> Open \<longrightarrow> k \<le> plivoMaxRetries p \<longrightarrow> failsThenSucceeds dIni k w vIni \<longrightarrow>
        requestTimeout (makeCallBreaker p) \<le> plivoRunTime p spent dIni k w \<longrightarrow>
        fst (initiateRecordedCall p spent dIni w)
          = Inr \<lparr>success = False, data = None, error = Some (timedOutError (makeCallBreaker p)),
                 retryCount = None,
                 circuitBreakerState = Some (jsString
                   (opened (recordFailure (aged (requestTimeout (makeCallBreaker p)) (makeCallBreaker p)))))\<rparr>)
   \<and> (cbState (makeCallBreaker p) \<noteq> Open \<longrightarrow> k \<le> plivoMaxRetries p \<longrightarrow> failsThenSucceeds dMak k w vMak \<longrightarrow>
        plivoRunTime p spent dMak k w < requestTimeout (makeCallBreaker p) \<longrightarrow>
        fst (makeCall p spent dMak w)
          = Inr \<lparr>success = True, data = Some vMak, error = None, retryCount = Some (k + 1),
                 circuitBreakerState = Some ''false''\<rparr>
        \<and> worldLeft (makeCall p spent dMak w) = worldAfter dMak (Suc k) w)
   \<and> (cbState (makeCallBreaker p) = Open \<longrightarrow>
        fst (makeCall p spent dMak w)
          = Inr \<lparr>success = False, data = None, error = Some (JsError ''Error'' ''Breaker is open''),
                 retryCount = None, circuitBreakerState = Some ''true''\<rparr>
        \<and> worldLeft (makeCall p spent dMak w) = w)
   \<and> (cbState (makeCallBreaker p) \<noteq> Open \<longrightarrow> k \<le> plivoMaxRetries p \<longrightarrow> failsThenSucceeds dMak k w vMak \<longrightarrow>
        requestTimeout (makeCallBreaker p) \<le> plivoRunTime p spent dMak k w \<longrightarrow>
        fst (makeCall p spent dMak w)
          = Inr \<lparr>success = False, data = None, error = Some (timedOutError (makeCallBreaker p)),
                 retryCount = None,
                 circuitBreakerState = Some (jsString
                   (opened (recordFailure (aged (requestTimeout (makeCallBreaker p)) (makeCallBreaker p)))))\<rparr>)
   \<and> (cbState (getCallDetailsBreaker p) \<noteq> Open \<longrightarrow> k \<le> plivoMaxRetries p \<longrightarrow> failsThenSucceeds dDet k w vDet \<longrightarrow>
        plivoRunTime p spent dDet k w < requestTimeout (getCallDetailsBreaker p) \<longrightarrow>
        fst (getCallDetails p spent dDet w)
          = Inr \<lparr>success = True, data = Some vDet, error = None, retryCount = Some (k + 1),
                 circuitBreakerState = Some ''false''\<rparr>
        \<and> worldLeft (getCallDetails p spent dDet w) = worldAfter dDet (Suc k) w)
   \<and> (cbState (getCallDetailsBreaker p) = Open \<longrightarrow>
        fst (getCallDetails p spent dDet w)
          = Inr \<lparr>success = False, data = None, error = Some (JsError ''Error'' ''Breaker is open''),
                 retryCount = None, circuitBreakerState = Some ''true''\<rparr>
        \<and> worldLeft (getCallDetails p spent dDet w) = w)
   \<and> (cbState (getCallDetailsBreaker p) \<noteq> Open \<longrightarrow> k \<le> plivoMaxRetries p \<longrightarrow> failsThenSucceeds dDet k w vDet \<longrightarrow>
        requestTimeout (getCallDetailsBreaker p) \<le> plivoRunTime p spent dDet k w \<longrightarrow>
        fst (getCallDetails p spent dDet w)
          = Inr \<lparr>success = False, data = None, error = Some (timedOutError (getCallDetailsBreaker p)),
                 retryCount = None,
                 circuitBreakerState = Some (jsString
                   (opened (recordFailure (aged (requestTimeout (getCallDetailsBreaker p)) (getCallDetailsBreaker p)))))\<rparr>)
   \<and> (k \<le> plivoMaxRetries p \<longrightarrow> failsThenSucceeds dTer k w vTer \<longrightarrow>
        fst (terminateCall p dTer w)
          = Inr \<lparr>success = True, data = Some \<lparr>tdMessage = tcMessage vTer\<rparr>, error = None,
                 retryCount = Some (k + 1), circuitBreakerState = None\<rparr>
        \<and> worldLeft (terminateCall p dTer w) = worldAfter dTer (Suc k) w)
   \<and> (cbState (transcribeBreaker g) \<noteq> Open \<longrightarrow> k \<le> deepgramMaxRetries g \<longrightarrow> failsThenSucceeds dRec k w vRec \<longrightarrow>
        deepgramRunTime g spent dRec k w < requestTimeout (transcribeBreaker g) \<longrightarrow>
        fst (transcribeRecording g spent dRec w)
          = Inr \<lparr>success = True, data = Some vRec, error = None, retryCount = Some (k + 1),
                 circuitBreakerState = Some ''false''\<rparr>
        \<and> worldLeft (transcribeRecording g spent dRec w) = worldAfter dRec (Suc k) w)
   \<and> (cbState (transcribeBreaker g) = Open \<longrightarrow>
        fst (transcribeRecording g spent dRec w)
          = Inr \<lparr>success = False, data = None, error = Some (JsError ''Error'' ''Breaker is open''),
                 retryCount = None, circuitBreakerState = Some ''true''\<rparr>
        \<and> worldLeft (transcribeRecording g spent dRec w) = w)
   \<and> (cbState (transcribeBreaker g) \<noteq> Open \<longrightarrow> k \<le> deepgramMaxRetries g \<longrightarrow> failsThenSucceeds dRec k w vRec \<longrightarrow>
        requestTimeout (transcribeBreaker g) \<le> deepgramRunTime g spent dRec k w \<longrightarrow>
        fst (transcribeRecording g spent dRec w)
          = Inr \<lparr>success = False, data = None, error = Some (timedOutError (transcribeBreaker g)),
                 retryCount = None,
                 circuitBreakerState = Some (jsString
                   (opened (recordFailure (aged (requestTimeout (transcribeBreaker g)) (transcribeBreaker g)))))\<rparr>)
   \<and> (cbState (transcribeBreaker g) \<noteq> Open \<longrightarrow> k \<le> deepgramMaxRetries g \<longrightarrow> failsThenSucceeds dUrl k w vUrl \<longrightarrow>
        deepgramRunTime g spent dUrl k w < requestTimeout (transcribeBreaker g) \<longrightarrow>
        fst (transcribeUrl g spent dUrl w)
          = Inr \<lparr>success = True, data = Some vUrl, error = None, retryCount = Some (k + 1),
                 circuitBreakerState = Some ''false''\<rparr>
        \<and> worldLeft (transcribeUrl g spent dUrl w) = worldAfter dUrl (Suc k) w)
   \<and> (cbState (transcribeBreaker g) = Open \<longrightarrow>
        fst (transcribeUrl g spent dUrl w)
          = Inr \<lparr>success = False, data = None, error = Some (JsError ''Error'' ''Breaker is open''),
                 retryCount = None, circuitBreakerState = Some ''true''\<rparr>
        \<and> worldLeft (transcribeUrl g spent dUrl w) = w)
   \<and> (cbState (transcribeBreaker g) \<noteq> Open \<longrightarrow> k \<le> deepgramMaxRetries g \<longrightarrow> failsThenSucceeds dUrl k w vUrl \<longrightarrow>
        requestTimeout (transcribeBreaker g) \<le> deepgramRunTime g spent dUrl k w \<longrightarrow>
        fst (transcribeUrl g spent dUrl w)
          = Inr \<lparr>success = False, data = None, error = Some (timedOutError (transcribeBreaker g)),
                 retryCount = None,
                 circuitBreakerState = Some (jsString
                   (opened (recordFailure (aged (requestTimeout (transcribeBreaker g)) (transcribeBreaker g)))))\<rparr>)
   \<and> (cbState (transcribeBreaker g) \<noteq> Open \<longrightarrow> k \<le> deepgramMaxRetries g \<longrightarrow> failsThenSucceeds dIns k w vIns \<longrightarrow>
        deepgramRunTime g spent dIns k w < requestTimeout (transcribeBreaker g) \<longrightarrow>
        fst (transcribeWithInsights g spent dIns w)
          = Inr \<lparr>success = True, data = Some vIns, error = None, retryCount = Some (k + 1),
                 circuitBreakerState = Some ''false''\<rparr>
        \<and> worldLeft (transcribeWithInsights g spent dIns w) = worldAfter dIns (Suc k) w)
   \<and> (cbState (transcribeBreaker g) = Open \<longrightarrow>
        fst (transcribeWithInsights g spent dIns w)
          = Inr \<lparr>success = False, data = None, error = Some (JsError ''Error'' ''Breaker is open''),
                 retryCount = None, circuitBreakerState = Some ''true''\<rparr>
        \<and> worldLeft (transcribeWithInsights g spent dIns w) = w)
   \<and> (cbState (transcribeBreaker g) \<noteq> Open \<longrightarrow> k \<le> deepgramMaxRetries g \<longrightarrow> failsThenSucceeds dIns k w vIns \<longrightarrow>
        requestTimeout (transcribeBreaker g) \<le> deepgramRunTime g spent dIns k w \<longrightarrow>
        fst (transcribeWithInsights g spent dIns w)
          = Inr \<lparr>success = False, data = None, error = Some (timedOutError (transcribeBreaker g)),
                 retryCount = None,
                 circuitBreakerState = Some (jsString
                   (opened (recordFailure (aged (requestTimeout (transcribeBreaker g)) (transcribeBreaker g)))))\<rparr>)
   \<and> (cbState (transcribeBreaker g) \<noteq> Open \<longrightarrow> k \<le> deepgramMaxRetries g \<longrightarrow> failsThenSucceeds dBuf k w vBuf \<longrightarrow>
        deepgramRunTime g spent dBuf k w < requestTimeout (transcribeBreaker g) \<longrightarrow>
        fst (transcribeBuffer g spent dBuf w)
          = Inr \<lparr>success = True, data = Some vBuf, error = None, retryCount = Some (k + 1),
                 circuitBreakerState = Some ''false''\<rparr>
        \<and> worldLeft (transcribeBuffer g spent dBuf w) = worldAfter dBuf (Suc k) w)
   \<and> (cbState (transcribeBreaker g) = Open \<longrightarrow>
        fst (transcribeBuffer g spent dBuf w)
          = Inr \<lparr>success = False, data = None, error = Some (JsError ''Error'' ''Breaker is open''),
                 retryCount = None, circuitBreakerState = Some ''true''\<rparr>
        \<and> worldLeft (transcribeBuffer g spent dBuf w) = w)
   \<and> (cbState (transcribeBreaker g) \<noteq> Open \<longrightarrow> k \<le> deepgramMaxRetries g \<longrightarrow> failsThenSucceeds dBuf k w vBuf \<longrightarrow>
        requestTimeout (transcribeBreaker g) \<le> deepgramRunTime g spent dBuf k w \<longrightarrow>
        fst (transcribeBuffer g spent dBuf w)
          = Inr \<lparr>success = False, data = None, error = Some (timedOutError (transcribeBreaker g)),
                 retryCount = None,
                 circuitBreakerState = Some (jsString
                   (opened (recordFailure (aged (requestTimeout (transcribeBreaker g)) (transcribeBreaker g)))))\<rparr>)"
proof -
  have c1: "cbState (makeCallBreaker p) \<noteq> Open \<longrightarrow> k \<le> plivoMaxRetries p \<longrightarrow> failsThenSucceeds dIni k w vIni \<longrightarrow>
        plivoRunTime p spent dIni k w < requestTimeout (makeCallBreaker p) \<longrightarrow>
        fst (initiateRecordedCall p spent dIni w)
          = Inr \<lparr>success = True, data = Some \<lparr>callUuid = ircCallUuid vIni, icMessage = ircMessage vIni, apiId = ircApiId vIni\<rparr>, error = None, retryCount = Some (k + 1),
                 circuitBreakerState = Some ''false''\<rparr>
        \<and> worldLeft (initiateRecordedCall p spent dIni w) = worldAfter dIni (Suc k) w"
    using initiateRecordedCall_succeeds [where p = p and w = w and dIni = dIni and k = k and vIni = vIni and spent = spent] by (auto simp: worldLeft_def simp del: worldAfter.simps)
  have c2: "cbState (makeCallBreaker p) = Open \<longrightarrow>
        fst (initiateRecordedCall p spent dIni w)
          = Inr \<lparr>success = False, data = None, error = Some (JsError ''Error'' ''Breaker is open''),
                 retryCount = None, circuitBreakerState = Some ''true''\<rparr>
        \<and> worldLeft (initiateRecordedCall p spent dIni w) = w"
    using initiateRecordedCall_open [where p = p and w = w and dIni = dIni and spent = spent] by (auto simp: worldLeft_def)
  have c3: "cbState (makeCallBreaker p) \<noteq> Open \<longrightarrow> k \<le> plivoMaxRetries p \<longrightarrow> failsThenSucceeds dIni k w vIni \<longrightarrow>
        requestTimeout (makeCallBreaker p) \<le> plivoRunTime p spent dIni k w \<longrightarrow>
        fst (initiateRecordedCall p spent dIni w)
          = Inr \<lparr>success = False, data = None, error = Some (timedOutError (makeCallBreaker p)),
                 retryCount = None,
                 circuitBreakerState = Some (jsString
                   (opened (recordFailure (aged (requestTimeout (makeCallBreaker p)) (makeCallBreaker p)))))\<rparr>"
    using initiateRecordedCall_times_out [where p = p and w = w and dIni = dIni and k = k and vIni = vIni and spent = spent] by auto
  have c4: "cbState (makeCallBreaker p) \<noteq> Open \<longrightarrow> k \<le> plivoMaxRetries p \<longrightarrow> failsThenSucceeds dMak k w vMak \<longrightarrow>
        plivoRunTime p spent dMak k w < requestTimeout (makeCallBreaker p) \<longrightarrow>
        fst (makeCall p spent dMak w)
          = Inr \<lparr>success = True, data = Some vMak, error = None, retryCount = Some (k + 1),
                 circuitBreakerState = Some ''false''\<rparr>
        \<and> worldLeft (makeCall p spent dMak w) = worldAfter dMak (Suc k) w"
    using makeCall_succeeds [where p = p and w = w and dMak = dMak and k = k and vMak = vMak and spent = spent] by (auto simp: worldLeft_def simp del: worldAfter.simps)
  have c5: "cbState (makeCallBreaker p) = Open \<longrightarrow>
        fst (makeCall p spent dMak w)
          = Inr \<lparr>success = False, data = None, error = Some (JsError ''Error'' ''Breaker is open''),
                 retryCount = None, circuitBreakerState = Some ''true''\<rparr>
        \<and> worldLeft (makeCall p spent dMak w) = w"
    using makeCall_open [where p = p and w = w and dMak = dMak and spent = spent] by (auto simp: worldLeft_def)
  have c6: "cbState (makeCallBreaker p) \<noteq> Open \<longrightarrow> k \<le> plivoMaxRetries p \<longrightarrow> failsThenSucceeds dMak k w vMak \<longrightarrow>
        requestTimeout (makeCallBreaker p) \<le> plivoRunTime p spent dMak k w \<longrightarrow>
        fst (makeCall p spent dMak w)
          = Inr \<lparr>success = False, data = None, error = Some (timedOutError (makeCallBreaker p)),
                 retryCount = None,
                 circuitBreakerState = Some (jsString
                   (opened (recordFailure (aged (requestTimeout (makeCallBreaker p)) (makeCallBreaker p)))))\<rparr>"
    using makeCall_times_out [where p = p and w = w and dMak = dMak and k = k and vMak = vMak and spent = spent] by auto
  have c7: "cbState (getCallDetailsBreaker p) \<noteq> Open \<longrightarrow> k \<le> plivoMaxRetries p \<longrightarrow> failsThenSucceeds dDet k w vDet \<longrightarrow>
        plivoRunTime p spent dDet k w < requestTimeout (getCallDetailsBreaker p) \<longrightarrow>
        fst (getCallDetails p spent dDet w)
          = Inr \<lparr>success = True, data = Some vDet, error = None, retryCount = Some (k + 1),
                 circuitBreakerState = Some ''false''\<rparr>
        \<and> worldLeft (getCallDetails p spent dDet w) = worldAfter dDet (Suc k) w"
    using getCallDetails_succeeds [where p = p and w = w and dDet = dDet and k = k and vDet = vDet and spent = spent] by (auto simp: worldLeft_def simp del: worldAfter.simps)
  have c8: "cbState (getCallDetailsBreaker p) = Open \<longrightarrow>
        fst (getCallDetails p spent dDet w)
          = Inr \<lparr>success = False, data = None, error = Some (JsError ''Error'' ''Breaker is open''),
                 retryCount = None, circuitBreakerState = Some ''true''\<rparr>
        \<and> worldLeft (getCallDetails p spent dDet w) = w"
    using getCallDetails_open [where p = p and w = w and dDet = dDet and spent = spent] by (auto simp: worldLeft_def)
  have c9: "cbState (getCallDetailsBreaker p) \<noteq> Open \<longrightarrow> k \<le> plivoMaxRetries p \<longrightarrow> failsThenSucceeds dDet k w vDet \<longrightarrow>
        requestTimeout (getCallDetailsBreaker p) \<le> plivoRunTime p spent dDet k w \<longrightarrow>
        fst (getCallDetails p spent dDet w)
          = Inr \<lparr>success = False, data = None, error = Some (timedOutError (getCallDetailsBreaker p)),
                 retryCount = None,
                 circuitBreakerState = Some (jsString
                   (opened (recordFailure (aged (requestTimeout (getCallDetailsBreaker p)) (getCallDetailsBreaker p)))))\<rparr>"
    using getCallDetails_times_out [where p = p and w = w and dDet = dDet and k = k and vDet = vDet and spent = spent] by auto
  have c10: "k \<le> plivoMaxRetries p \<longrightarrow> failsThenSucceeds dTer k w vTer \<longrightarrow>
        fst (terminateCall p dTer w)
          = Inr \<lparr>success = True, data = Some \<lparr>tdMessage = tcMessage vTer\<rparr>, error = None,
                 retryCount = Some (k + 1), circuitBreakerState = None\<rparr>
        \<and> worldLeft (terminateCall p dTer w) = worldAfter dTer (Suc k) w"
    using terminateCall_succeeds [where p = p and w = w and dTer = dTer and k = k and vTer = vTer] by (auto simp: worldLeft_def simp del: worldAfter.simps)
  have c11: "cbState (transcribeBreaker g) \<noteq> Open \<longrightarrow> k \<le> deepgramMaxRetries g \<longrightarrow> failsThenSucceeds dRec k w vRec \<longrightarrow>
        deepgramRunTime g spent dRec k w < requestTimeout (transcribeBreaker g) \<longrightarrow>
        fst (transcribeRecording g spent dRec w)
          = Inr \<lparr>success = True, data = Some vRec, error = None, retryCount = Some (k + 1),
                 circuitBreakerState = Some ''false''\<rparr>
        \<and> worldLeft (transcribeRecording g spent dRec w) = worldAfter dRec (Suc k) w"
    using transcribeRecording_succeeds [where g = g and w = w and dRec = dRec and k = k and vRec = vRec and spent = spent] by (auto simp: worldLeft_def simp del: worldAfter.simps)
  have c12: "cbState (transcribeBreaker g) = Open \<longrightarrow>
        fst (transcribeRecording g spent dRec w)
          = Inr \<lparr>success = False, data = None, error = Some (JsError ''Error'' ''Breaker is open''),
                 retryCount = None, circuitBreakerState = Some ''true''\<rparr>
        \<and> worldLeft (transcribeRecording g spent dRec w) = w"
    using transcribeRecording_open [where g = g and w = w and dRec = dRec and spent = spent] by (auto simp: worldLeft_def)
  have c13: "cbState (transcribeBreaker g) \<noteq> Open \<longrightarrow> k \<le> deepgramMaxRetries g \<longrightarrow> failsThenSucceeds dRec k w vRec \<longrightarrow>
        requestTimeout (transcribeBreaker g) \<le> deepgramRunTime g spent dRec k w \<longrightarrow>
        fst (transcribeRecording g spent dRec w)
          = Inr \<lparr>success = False, data = None, error = Some (timedOutError (transcribeBreaker g)),
                 retryCount = None,
                 circuitBreakerState = Some (jsString
                   (opened (recordFailure (aged (requestTimeout (transcribeBreaker g)) (transcribeBreaker g)))))\<rparr>"
    using transcribeRecording_times_out [where g = g and w = w and dRec = dRec and k = k and vRec = vRec and spent = spent] by auto
  have c14: "cbState (transcribeBreaker g) \<noteq> Open \<longrightarrow> k \<le> deepgramMaxRetries g \<longrightarrow> failsThenSucceeds dUrl k w vUrl \<longrightarrow>
        deepgramRunTime g spent dUrl k w < requestTimeout (transcribeBreaker g) \<longrightarrow>
        fst (transcribeUrl g spent dUrl w)
          = Inr \<lparr>success = True, data = Some vUrl, error = None, retryCount = Some (k + 1),
                 circuitBreakerState = Some ''false''\<rparr>
        \<and> worldLeft (transcribeUrl g spent dUrl w) = worldAfter dUrl (Suc k) w"
    using transcribeUrl_succeeds [where g = g and w = w and dUrl = dUrl and k = k and vUrl = vUrl and spent = spent] by (auto simp: worldLeft_def simp del: worldAfter.simps)
  have c15: "cbState (transcribeBreaker g) = Open \<longrightarrow>
        fst (transcribeUrl g spent dUrl w)
          = Inr \<lparr>success = False, data = None, error = Some (JsError ''Error'' ''Breaker is open''),
                 retryCount = None, circuitBreakerState = Some ''true''\<rparr>
        \<and> worldLeft (transcribeUrl g spent dUrl w) = w"
    using transcribeUrl_open [where g = g and w = w and dUrl = dUrl and spent = spent] by (auto simp: worldLeft_def)
  have c16: "cbState (transcribeBreaker g) \<noteq> Open \<longrightarrow> k \<le> deepgramMaxRetries g \<longrightarrow> failsThenSucceeds dUrl k w vUrl \<longrightarrow>
        requestTimeout (transcribeBreaker g) \<le> deepgramRunTime g spent dUrl k w \<longrightarrow>
        fst (transcribeUrl g spent dUrl w)
          = Inr \<lparr>success = False, data = None, error = Some (timedOutError (transcribeBreaker g)),
                 retryCount = None,
                 circuitBreakerState = Some (jsString
                   (opened (recordFailure (aged (requestTimeout (transcribeBreaker g)) (transcribeBreaker g)))))\<rparr>"
    using transcribeUrl_times_out [where g = g and w = w and dUrl = dUrl and k = k and vUrl = vUrl and spent = spent] by auto
  have c17: "cbState (transcribeBreaker g) \<noteq> Open \<longrightarrow> k \<le> deepgramMaxRetries g \<longrightarrow> failsThenSucceeds dIns k w vIns \<longrightarrow>
        deepgramRunTime g spent dIns k w < requestTimeout (transcribeBreaker g) \<longrightarrow>
        fst (transcribeWithInsights g spent dIns w)
          = Inr \<lparr>success = True, data = Some vIns, error = None, retryCount = Some (k + 1),
                 circuitBreakerState = Some ''false''\<rparr>
        \<and> worldLeft (transcribeWithInsights g spent dIns w) = worldAfter dIns (Suc k) w"
    using transcribeWithInsights_succeeds [where g = g and w = w and dIns = dIns and k = k and vIns = vIns and spent = spent] by (auto simp: worldLeft_def simp del: worldAfter.simps)
  have c18: "cbState (transcribeBreaker g) = Open \<longrightarrow>
        fst (transcribeWithInsights g spent dIns w)
          = Inr \<lparr>success = False, data = None, error = Some (JsError ''Error'' ''Breaker is open''),
                 retryCount = None, circuitBreakerState = Some ''true''\<rparr>
        \<and> worldLeft (transcribeWithInsights g spent dIns w) = w"
    using transcribeWithInsights_open [where g = g and w = w and dIns = dIns and spent = spent] by (auto simp: worldLeft_def)
  have c19: "cbState (transcribeBreaker g) \<noteq> Open \<longrightarrow> k \<le> deepgramMaxRetries g \<longrightarrow> failsThenSucceeds dIns k w vIns \<longrightarrow>
        requestTimeout (transcribeBreaker g) \<le> deepgramRunTime g spent dIns k w \<longrightarrow>
        fst (transcribeWithInsights g spent dIns w)
          = Inr \<lparr>success = False, data = None, error = Some (timedOutError (transcribeBreaker g)),
                 retryCount = None,
                 circuitBreakerState = Some (jsString
                   (opened (recordFailure (aged (requestTimeout (transcribeBreaker g)) (transcribeBreaker g)))))\<rparr>"
    using transcribeWithInsights_times_out [where g = g and w = w and dIns = dIns and k = k and vIns = vIns and spent = spent] by auto
  have c20: "cbState (transcribeBreaker g) \<noteq> Open \<longrightarrow> k \<le> deepgramMaxRetries g \<longrightarrow> failsThenSucceeds dBuf k w vBuf \<longrightarrow>
        deepgramRunTime g spent dBuf k w < requestTimeout (transcribeBreaker g) \<longrightarrow>
        fst (transcribeBuffer g spent dBuf w)
          = Inr \<lparr>success = True, data = Some vBuf, error = None, retryCount = Some (k + 1),
                 circuitBreakerState = Some ''false''\<rparr>
        \<and> worldLeft (transcribeBuffer g spent dBuf w) = worldAfter dBuf (Suc k) w"
    using transcribeBuffer_succeeds [where g = g and w = w and dBuf = dBuf and k = k and vBuf = vBuf and spent = spent] by (auto simp: worldLeft_def simp del: worldAfter.simps)
  have c21: "cbState (transcribeBreaker g) = Open \<longrightarrow>
        fst (transcribeBuffer g spent dBuf w)
          = Inr \<lparr>success = False, data = None, error = Some (JsError ''Error'' ''Breaker is open''),
                 retryCount = None, circuitBreakerState = Some ''true''\<rparr>
        \<and> worldLeft (transcribeBuffer g spent dBuf w) = w"
    using transcribeBuffer_open [where g = g and w = w and dBuf = dBuf and spent = spent] by (auto simp: worldLeft_def)
  have c22: "cbState (transcribeBreaker g) \<noteq> Open \<longrightarrow> k \<le> deepgramMaxRetries g \<longrightarrow> failsThenSucceeds dBuf k w vBuf \<longrightarrow>
        requestTimeout (transcribeBreaker g) \<le> deepgramRunTime g spent dBuf k w \<longrightarrow>
        fst (transcribeBuffer g spent dBuf w)
          = Inr \<lparr>success = False, data = None, error = Some (timedOutError (transcribeBreaker g)),
                 retryCount = None,
                 circuitBreakerState = Some (jsString
                   (opened (recordFailure (aged (requestTimeout (transcribeBreaker g)) (transcribeBreaker g)))))\<rparr>"
    using transcribeBuffer_times_out [where g = g and w = w and dBuf = dBuf and k = k and vBuf = vBuf and spent = spent] by auto
  show ?thesis
    by (intro conjI) (fact c1 c2 c3 c4 c5 c6 c7 c8 c9 c10 c11 c12 c13 c14 c15 c16 c17 c18 c19 c20 c21 c22)+
qed

theorem success_envelope_of_recovering_operation_witness:
  "fst (initiateRecordedCall (newPlivoResilient noArguments) (latency 100) (flaky 2 boom firedCall) 0)
       = Inr \<lparr>success = True, data = Some \<lparr>callUuid = ''abc-123-def'', icMessage = ''call fired'', apiId = ''api-1''\<rparr>, error = None, retryCount = Some 3,
              circuitBreakerState = Some ''false''\<rparr>
   \<and> worldLeft (initiateRecordedCall (newPlivoResilient noArguments) (latency 100) (flaky 2 boom firedCall) 0) = 3
   \<and> fst (initiateRecordedCall (thisAfter (getCallDetails (thisAfter (initiateRecordedCall (newPlivoResilient noArguments) (latency 100) (flaky 4 boom firedCall) 0)) (latency 100) (flaky 8 boom ''completed'') 4)) (latency 100) (flaky 8 boom firedCall) 8)
       = Inr \<lparr>success = False, data = None, error = Some (JsError ''Error'' ''Breaker is open''),
              retryCount = None, circuitBreakerState = Some ''true''\<rparr>
   \<and> worldLeft (initiateRecordedCall (thisAfter (getCallDetails (thisAfter (initiateRecordedCall (newPlivoResilient noArguments) (latency 100) (flaky 4 boom firedCall) 0)) (latency 100) (flaky 8 boom ''completed'') 4)) (latency 100) (flaky 8 boom firedCall) 8) = 8
   \<and> fst (initiateRecordedCall (newPlivoResilient noArguments) (latency 20000) (flaky 2 boom firedCall) 0)
       = Inr \<lparr>success = False, data = None,
              error = Some (JsError ''Error'' ''Timed out after 30000ms''),
              retryCount = None, circuitBreakerState = Some ''true''\<rparr>
   \<and> fst (makeCall (newPlivoResilient noArguments) (latency 100) (flaky 2 boom queuedCall) 0)
       = Inr \<lparr>success = True, data = Some queuedCall, error = None, retryCount = Some 3,
              circuitBreakerState = Some ''false''\<rparr>
   \<and> worldLeft (makeCall (newPlivoResilient noArguments) (latency 100) (flaky 2 boom queuedCall) 0) = 3
   \<and> fst (makeCall (thisAfter (getCallDetails (thisAfter (initiateRecordedCall (newPlivoResilient noArguments) (latency 100) (flaky 4 boom firedCall) 0)) (latency 100) (flaky 8 boom ''completed'') 4)) (latency 100) (flaky 8 boom queuedCall) 8)
       = Inr \<lparr>success = False, data = None, error = Some (JsError ''Error'' ''Breaker is open''),
              retryCount = None, circuitBreakerState = Some ''true''\<rparr>
   \<and> worldLeft (makeCall (thisAfter (getCallDetails (thisAfter (initiateRecordedCall (newPlivoResilient noArguments) (latency 100) (flaky 4 boom firedCall) 0)) (latency 100) (flaky 8 boom ''completed'') 4)) (latency 100) (flaky 8 boom queuedCall) 8) = 8
   \<and> fst (makeCall (newPlivoResilient noArguments) (latency 20000) (flaky 2 boom queuedCall) 0)
       = Inr \<lparr>success = False, data = None,
              error = Some (JsError ''Error'' ''Timed out after 30000ms''),
              retryCount = None, circuitBreakerState = Some ''true''\<rparr>
   \<and> fst (getCallDetails (newPlivoResilient noArguments) (latency 100) (flaky 2 boom ''completed'') 0)
       = Inr \<lparr>success = True, data = Some ''completed'', error = None, retryCount = Some 3,
              circuitBreakerState = Some ''false''\<rparr>
   \<and> worldLeft (getCallDetails (newPlivoResilient noArguments) (latency 100) (flaky 2 boom ''completed'') 0) = 3
   \<and> fst (getCallDetails (thisAfter (getCallDetails (thisAfter (initiateRecordedCall (newPlivoResilient noArguments) (latency 100) (flaky 4 boom firedCall) 0)) (latency 100) (flaky 8 boom ''completed'') 4)) (latency 100) (flaky 8 boom ''completed'') 8)
       = Inr \<lparr>success = False, data = None, error = Some (JsError ''Error'' ''Breaker is open''),
              retryCount = None, circuitBreakerState = Some ''true''\<rparr>
   \<and> worldLeft (getCallDetails (thisAfter (getCallDetails (thisAfter (initiateRecordedCall (newPlivoResilient noArguments) (latency 100) (flaky 4 boom firedCall) 0)) (latency 100) (flaky 8 boom ''completed'') 4)) (latency 100) (flaky 8 boom ''completed'') 8) = 8
   \<and> fst (getCallDetails (newPlivoResilient noArguments) (latency 20000) (flaky 2 boom ''completed'') 0)
       = Inr \<lparr>success = False, data = None,
              error = Some (JsError ''Error'' ''Timed out after 30000ms''),
              retryCount = None, circuitBreakerState = Some ''true''\<rparr>
   \<and> fst (terminateCall (newPlivoResilient noArguments) (flaky 2 boom hungUp) 0)
       = Inr \<lparr>success = True, data = Some \<lparr>tdMessage = ''Call terminated successfully''\<rparr>, error = None,
              retryCount = Some 3, circuitBreakerState = None\<rparr>
   \<and> worldLeft (terminateCall (newPlivoResilient noArguments) (flaky 2 boom hungUp) 0) = 3
   \<and> fst (transcribeRecording (newDeepgramResilient noArguments) (latency 100) (flaky 2 boom ''hello world'') 0)
       = Inr \<lparr>success = True, data = Some ''hello world'', error = None, retryCount = Some 3,
              circuitBreakerState = Some ''false''\<rparr>
   \<and> worldLeft (transcribeRecording (newDeepgramResilient noArguments) (latency 100) (flaky 2 boom ''hello world'') 0) = 3
   \<and> fst (transcribeRecording (thisAfter (transcribeRecording (newDeepgramResilient noArguments) (latency 100) (flaky 4 boom ''hello world'') 0)) (latency 100) (flaky 8 boom ''hello world'') 8)
       = Inr \<lparr>success = False, data = None, error = Some (JsError ''Error'' ''Breaker is open''),
              retryCount = None, circuitBreakerState = Some ''true''\<rparr>
   \<and> worldLeft (transcribeRecording (thisAfter (transcribeRecording (newDeepgramResilient noArguments) (latency 100) (flaky 4 boom ''hello world'') 0)) (latency 100) (flaky 8 boom ''hello world'') 8) = 8
   \<and> fst (transcribeRecording (newDeepgramResilient noArguments) (latency 20000) (flaky 2 boom ''hello world'') 0)
       = Inr \<lparr>success = False, data = None,
              error = Some (JsError ''Error'' ''Timed out after 60000ms''),
              retryCount = None, circuitBreakerState = Some ''true''\<rparr>
   \<and> fst (transcribeUrl (newDeepgramResilient noArguments) (latency 100) (flaky 2 boom ''hello world'') 0)
       = Inr \<lparr>success = True, data = Some ''hello world'', error = None, retryCount = Some 3,
              circuitBreakerState = Some ''false''\<rparr>
   \<and> worldLeft (transcribeUrl (newDeepgramResilient noArguments) (latency 100) (flaky 2 boom ''hello world'') 0) = 3
   \<and> fst (transcribeUrl (thisAfter (transcribeRecording (newDeepgramResilient noArguments) (latency 100) (flaky 4 boom ''hello world'') 0)) (latency 100) (flaky 8 boom ''hello world'') 8)
       = Inr \<lparr>success = False, data = None, error = Some (JsError ''Error'' ''Breaker is open''),
              retryCount = None, circuitBreakerState = Some ''true''\<rparr>
   \<and> worldLeft (transcribeUrl (thisAfter (transcribeRecording (newDeepgramResilient noArguments) (latency 100) (flaky 4 boom ''hello world'') 0)) (latency 100) (flaky 8 boom ''hello world'') 8) = 8
   \<and> fst (transcribeUrl (newDeepgramResilient noArguments) (latency 20000) (flaky 2 boom ''hello world'') 0)
       = Inr \<lparr>success = False, data = None,
              error = Some (JsError ''Error'' ''Timed out after 60000ms''),
              retryCount = None, circuitBreakerState = Some ''true''\<rparr>
   \<and> fst (transcribeWithInsights (newDeepgramResilient noArguments) (latency 100) (flaky 2 boom ''hello world'') 0)
       = Inr \<lparr>success = True, data = Some ''hello world'', error = None, retryCount = Some 3,
              circuitBreakerState = Some ''false''\<rparr>
   \<and> worldLeft (transcribeWithInsights (newDeepgramResilient noArguments) (latency 100) (flaky 2 boom ''hello world'') 0) = 3
   \<and> fst (transcribeWithInsights (thisAfter (transcribeRecording (newDeepgramResilient noArguments) (latency 100) (flaky 4 boom ''hello world'') 0)) (latency 100) (flaky 8 boom ''hello world'') 8)
       = Inr \<lparr>success = False, data = None, error = Some (JsError ''Error'' ''Breaker is open''),
              retryCount = None, circuitBreakerState = Some ''true''\<rparr>
   \<and> worldLeft (transcribeWithInsights (thisAfter (transcribeRecording (newDeepgramResilient noArguments) (latency 100) (flaky 4 boom ''hello world'') 0)) (latency 100) (flaky 8 boom ''hello world'') 8) = 8
   \<and> fst (transcribeWithInsights (newDeepgramResilient noArguments) (latency 20000) (flaky 2 boom ''hello world'') 0)
       = Inr \<lparr>success = False, data = None,
              error = Some (JsError ''Error'' ''Timed out after 60000ms''),
              retryCount = None, circuitBreakerState = Some ''true''\<rparr>
   \<and> fst (transcribeBuffer (newDeepgramResilient noArguments) (latency 100) (flaky 2 boom ''hello world'') 0)
       = Inr \<lparr>success = True, data = Some ''hello world'', error = None, retryCount = Some 3,
              circuitBreakerState = Some ''false''\<rparr>
   \<and> worldLeft (transcribeBuffer (newDeepgramResilient noArguments) (latency 100) (flaky 2 boom ''hello world'') 0) = 3
   \<and> fst (transcribeBuffer (thisAfter (transcribeRecording (newDeepgramResilient noArguments) (latency 100) (flaky 4 boom ''hello world'') 0)) (latency 100) (flaky 8 boom ''hello world'') 8)
       = Inr \<lparr>success = False, data = None, error = Some (JsError ''Error'' ''Breaker is open''),
              retryCount = None, circuitBreakerState = Some ''true''\<rparr>
   \<and> worldLeft (transcribeBuffer (thisAfter (transcribeRecording (newDeepgramResilient noArguments) (latency 100) (flaky 4 boom ''hello world'') 0)) (latency 100) (flaky 8 boom ''hello world'') 8) = 8
   \<and> fst (transcribeBuffer (newDeepgramResilient noArguments) (latency 20000) (flaky 2 boom ''hello world'') 0)
       = Inr \<lparr>success = False, data = None,
              error = Some (JsError ''Error'' ''Timed out after 60000ms''),
              retryCount = None, circuitBreakerState = Some ''true''\<rparr>"
proof -
  note T = success_envelope_of_recovering_operation [where p = "newPlivoResilient noArguments" and g = "newDeepgramResilient noArguments" and k = "2" and w = "0::nat" and dIni = "flaky 2 boom firedCall" and vIni = "firedCall" and dMak = "flaky 2 boom queuedCall" and vMak = "queuedCall" and dDet = "flaky 2 boom ''completed''" and vDet = "''completed''" and dTer = "flaky 2 boom hungUp" and vTer = "hungUp" and dRec = "flaky 2 boom ''hello world''" and vRec = "''hello world''" and dUrl = "flaky 2 boom ''hello world''" and vUrl = "''hello world''" and dIns = "flaky 2 boom ''hello world''" and vIns = "''hello world''" and dBuf = "flaky 2 boom ''hello world''" and vBuf = "''hello world''" and spent = "latency 100"]
  note U = success_envelope_of_recovering_operation [where p = "newPlivoResilient noArguments" and g = "newDeepgramResilient noArguments" and k = "2" and w = "0::nat" and dIni = "flaky 2 boom firedCall" and vIni = "firedCall" and dMak = "flaky 2 boom queuedCall" and vMak = "queuedCall" and dDet = "flaky 2 boom ''completed''" and vDet = "''completed''" and dTer = "flaky 2 boom hungUp" and vTer = "hungUp" and dRec = "flaky 2 boom ''hello world''" and vRec = "''hello world''" and dUrl = "flaky 2 boom ''hello world''" and vUrl = "''hello world''" and dIns = "flaky 2 boom ''hello world''" and vIns = "''hello world''" and dBuf = "flaky 2 boom ''hello world''" and vBuf = "''hello world''" and spent = "latency 20000"]
  note V = success_envelope_of_recovering_operation [where p = "thisAfter (getCallDetails (thisAfter (initiateRecordedCall (newPlivoResilient noArguments) (latency 100) (flaky 4 boom firedCall) 0)) (latency 100) (flaky 8 boom ''completed'') 4)" and g = "thisAfter (transcribeRecording (newDeepgramResilient noArguments) (latency 100) (flaky 4 boom ''hello world'') 0)" and k = "0" and w = "8::nat" and spent = "latency 100" and dIni = "flaky 8 boom firedCall" and vIni = "firedCall" and dMak = "flaky 8 boom queuedCall" and vMak = "queuedCall" and dDet = "flaky 8 boom ''completed''" and vDet = "''completed''" and dTer = "flaky 8 boom hungUp" and vTer = "hungUp" and dRec = "flaky 8 boom ''hello world''" and vRec = "''hello world''" and dUrl = "flaky 8 boom ''hello world''" and vUrl = "''hello world''" and dIns = "flaky 8 boom ''hello world''" and vIns = "''hello world''" and dBuf = "flaky 8 boom ''hello world''" and vBuf = "''hello world''"]
  have w1: "fst (initiateRecordedCall (newPlivoResilient noArguments) (latency 100) (flaky 2 boom firedCall) 0)
       = Inr \<lparr>success = True, data = Some \<lparr>callUuid = ''abc-123-def'', icMessage = ''call fired'', apiId = ''api-1''\<rparr>, error = None, retryCount = Some 3,
              circuitBreakerState = Some ''false''\<rparr>"
    using T [THEN conjunct1] by (simp add: newPlivoResilient_noArguments newDeepgramResilient_noArguments failsThenSucceeds_flaky worldAfter_flaky plivoRunTime_flaky backoffTotal_noArguments firedCall_def del: worldAfter.simps)
  have w2: "worldLeft (initiateRecordedCall (newPlivoResilient noArguments) (latency 100) (flaky 2 boom firedCall) 0) = 3"
    using T [THEN conjunct1] by (simp add: newPlivoResilient_noArguments newDeepgramResilient_noArguments failsThenSucceeds_flaky worldAfter_flaky plivoRunTime_flaky backoffTotal_noArguments firedCall_def del: worldAfter.simps)
  have w3: "fst (initiateRecordedCall (thisAfter (getCallDetails (thisAfter (initiateRecordedCall (newPlivoResilient noArguments) (latency 100) (flaky 4 boom firedCall) 0)) (latency 100) (flaky 8 boom ''completed'') 4)) (latency 100) (flaky 8 boom firedCall) 8)
       = Inr \<lparr>success = False, data = None, error = Some (JsError ''Error'' ''Breaker is open''),
              retryCount = None, circuitBreakerState = Some ''true''\<rparr>"
    using V [THEN conjunct2, THEN conjunct1] by (simp add: open_after_failed_calls)
  have w4: "worldLeft (initiateRecordedCall (thisAfter (getCallDetails (thisAfter (initiateRecordedCall (newPlivoResilient noArguments) (latency 100) (flaky 4 boom firedCall) 0)) (latency 100) (flaky 8 boom ''completed'') 4)) (latency 100) (flaky 8 boom firedCall) 8) = 8"
    using V [THEN conjunct2, THEN conjunct1] by (simp add: open_after_failed_calls)
  have w5: "fst (initiateRecordedCall (newPlivoResilient noArguments) (latency 20000) (flaky 2 boom firedCall) 0)
       = Inr \<lparr>success = False, data = None,
              error = Some (JsError ''Error'' ''Timed out after 30000ms''),
              retryCount = None, circuitBreakerState = Some ''true''\<rparr>"
    using U [THEN conjunct2, THEN conjunct2, THEN conjunct1] by (simp add: newPlivoResilient_noArguments newDeepgramResilient_noArguments failsThenSucceeds_flaky plivoRunTime_flaky backoffTotal_noArguments timedOutError_noArguments opened_def jsString_def)
  have w6: "fst (makeCall (newPlivoResilient noArguments) (latency 100) (flaky 2 boom queuedCall) 0)
       = Inr \<lparr>success = True, data = Some queuedCall, error = None, retryCount = Some 3,
              circuitBreakerState = Some ''false''\<rparr>"
    using T [THEN conjunct2, THEN conjunct2, THEN conjunct2, THEN conjunct1] by (simp add: newPlivoResilient_noArguments newDeepgramResilient_noArguments failsThenSucceeds_flaky worldAfter_flaky plivoRunTime_flaky backoffTotal_noArguments firedCall_def del: worldAfter.simps)
  have w7: "worldLeft (makeCall (newPlivoResilient noArguments) (latency 100) (flaky 2 boom queuedCall) 0) = 3"
    using T [THEN conjunct2, THEN conjunct2, THEN conjunct2, THEN conjunct1] by (simp add: newPlivoResilient_noArguments newDeepgramResilient_noArguments failsThenSucceeds_flaky worldAfter_flaky plivoRunTime_flaky backoffTotal_noArguments firedCall_def del: worldAfter.simps)
  have w8: "fst (makeCall (thisAfter (getCallDetails (thisAfter (initiateRecordedCall (newPlivoResilient noArguments) (latency 100) (flaky 4 boom firedCall) 0)) (latency 100) (flaky 8 boom ''completed'') 4)) (latency 100) (flaky 8 boom queuedCall) 8)
       = Inr \<lparr>success = False, data = None, error = Some (JsError ''Error'' ''Breaker is open''),
              retryCount = None, circuitBreakerState = Some ''true''\<rparr>"
    using V [THEN conjunct2, THEN conjunct2, THEN conjunct2, THEN conjunct2, THEN conjunct1] by (simp add: open_after_failed_calls)
  have w9: "worldLeft (makeCall (thisAfter (getCallDetails (thisAfter (initiateRecordedCall (newPlivoResilient noArguments) (latency 100) (flaky 4 boom firedCall) 0)) (latency 100) (flaky 8 boom ''completed'') 4)) (latency 100) (flaky 8 boom queuedCall) 8) = 8"
    using V [THEN conjunct2, THEN conjunct2, THEN conjunct2, THEN conjunct2, THEN conjunct1] by (simp add: open_after_failed_calls)
  have w10: "fst (makeCall (newPlivoResilient noArguments) (latency 20000) (flaky 2 boom queuedCall) 0)
       = Inr \<lparr>success = False, data = None,
              error = Some (JsError ''Error'' ''Timed out after 30000ms''),
              retryCount = None, circuitBreakerState = Some ''true''\<rparr>"
    using U [THEN conjunct2, THEN conjunct2, THEN conjunct2, THEN conjunct2, THEN conjunct2, THEN conjunct1] by (simp add: newPlivoResilient_noArguments newDeepgramResilient_noArguments failsThenSucceeds_flaky plivoRunTime_flaky backoffTotal_noArguments timedOutError_noArguments opened_def jsString_def)
  have w11: "fst (getCallDetails (newPlivoResilient noArguments) (latency 100) (flaky 2 boom ''completed'') 0)
       = Inr \<lparr>success = True, data = Some ''completed'', error = None, retryCount = Some 3,
              circuitBreakerState = Some ''false''\<rparr>"
    using T [THEN conjunct2, THEN conjunct2, THEN conjunct2, THEN conjunct2, THEN conjunct2, THEN conjunct2, THEN conjunct1] by (simp add: newPlivoResilient_noArguments newDeepgramResilient_noArguments failsThenSucceeds_flaky worldAfter_flaky plivoRunTime_flaky backoffTotal_noArguments firedCall_def del: worldAfter.simps)
  have w12: "worldLeft (getCallDetails (newPlivoResilient noArguments) (latency 100) (flaky 2 boom ''completed'') 0) = 3"
    using T [THEN conjunct2, THEN conjunct2, THEN conjunct2, THEN conjunct2, THEN conjunct2, THEN conjunct2, THEN conjunct1] by (simp add: newPlivoResilient_noArguments newDeepgramResilient_noArguments failsThenSucceeds_flaky worldAfter_flaky plivoRunTime_flaky backoffTotal_noArguments firedCall_def del: worldAfter.simps)
  have w13: "fst (getCallDetails (thisAfter (getCallDetails (thisAfter (initiateRecordedCall (newPlivoResilient noArguments) (latency 100) (flaky 4 boom firedCall) 0)) (latency 100) (flaky 8 boom ''completed'') 4)) (latency 100) (flaky 8 boom ''completed'') 8)
       = Inr \<lparr>success = False, data = None, error = Some (JsError ''Error'' ''Breaker is open''),
              retryCount = None, circuitBreakerState = Some ''true''\<rparr>"
    using V [THEN conjunct2, THEN conjunct2, THEN conjunct2, THEN conjunct2, THEN conjunct2, THEN conjunct2, THEN conjunct2, THEN conjunct1] by (simp add: open_after_failed_calls)
  have w14: "worldLeft (getCallDetails (thisAfter (getCallDetails (thisAfter (initiateRecordedCall (newPlivoResilient noArguments) (latency 100) (flaky 4 boom firedCall) 0)) (latency 100) (flaky 8 boom ''completed'') 4)) (latency 100) (flaky 8 boom ''completed'') 8) = 8"
    using V [THEN conjunct2, THEN conjunct2, THEN conjunct2, THEN conjunct2, THEN conjunct2, THEN conjunct2, THEN conjunct2, THEN conjunct1] by (simp add: open_after_failed_calls)
  have w15: "fst (getCallDetails (newPlivoResilient noArguments) (latency 20000) (flaky 2 boom ''completed'') 0)
       = Inr \<lparr>success = False, data = None,
              error = Some (JsError ''Error'' ''Timed out after 30000ms''),
              retryCount = None, circuitBreakerState = Some ''true''\<rparr>"
    using U [THEN conjunct2, THEN conjunct2, THEN conjunct2, THEN conjunct2, THEN conjunct2, THEN conjunct2, THEN conjunct2, THEN conjunct2, THEN conjunct1] by (simp add: newPlivoResilient_noArguments newDeepgramResilient_noArguments failsThenSucceeds_flaky plivoRunTime_flaky backoffTotal_noArguments timedOutError_noArguments opened_def jsString_def)
  have w16: "fst (terminateCall (newPlivoResilient noArguments) (flaky 2 boom hungUp) 0)
       = Inr \<lparr>success = True, data = Some \<lparr>tdMessage = ''Call terminated successfully''\<rparr>, error = None,
              retryCount = Some 3, circuitBreakerState = None\<rparr>"
    using T [THEN conjunct2, THEN conjunct2, THEN conjunct2, THEN conjunct2, THEN conjunct2, THEN conjunct2, THEN conjunct2, THEN conjunct2, THEN conjunct2, THEN conjunct1] by (simp add: newPlivoResilient_noArguments newDeepgramResilient_noArguments failsThenSucceeds_flaky worldAfter_flaky hungUp_def del: worldAfter.simps)
  have w17: "worldLeft (terminateCall (newPlivoResilient noArguments) (flaky 2 boom hungUp) 0) = 3"
    using T [THEN conjunct2, THEN conjunct2, THEN conjunct2, THEN conjunct2, THEN conjunct2, THEN conjunct2, THEN conjunct2, THEN conjunct2, THEN conjunct2, THEN conjunct1] by (simp add: newPlivoResilient_noArguments newDeepgramResilient_noArguments failsThenSucceeds_flaky worldAfter_flaky hungUp_def del: worldAfter.simps)
  have w18: "fst (transcribeRecording (newDeepgramResilient noArguments) (latency 100) (flaky 2 boom ''hello world'') 0)
       = Inr \<lparr>success = True, data = Some ''hello world'', error = None, retryCount = Some 3,
              circuitBreakerState = Some ''false''\<rparr>"
    using T [THEN conjunct2, THEN conjunct2, THEN conjunct2, THEN conjunct2, THEN conjunct2, THEN conjunct2, THEN conjunct2, THEN conjunct2, THEN conjunct2, THEN conjunct2, THEN conjunct1] by (simp add: newPlivoResilient_noArguments newDeepgramResilient_noArguments failsThenSucceeds_flaky worldAfter_flaky deepgramRunTime_flaky backoffTotal_noArguments firedCall_def del: worldAfter.simps)
  have w19: "worldLeft (transcribeRecording (newDeepgramResilient noArguments) (latency 100) (flaky 2 boom ''hello world'') 0) = 3"
    using T [THEN conjunct2, THEN conjunct2, THEN conjunct2, THEN conjunct2, THEN conjunct2, THEN conjunct2, THEN conjunct2, THEN conjunct2, THEN conjunct2, THEN conjunct2, THEN conjunct1] by (simp add: newPlivoResilient_noArguments newDeepgramResilient_noArguments failsThenSucceeds_flaky worldAfter_flaky deepgramRunTime_flaky backoffTotal_noArguments firedCall_def del: worldAfter.simps)
  have w20: "fst (transcribeRecording (thisAfter (transcribeRecording (newDeepgramResilient noArguments) (latency 100) (flaky 4 boom ''hello world'') 0)) (latency 100) (flaky 8 boom ''hello world'') 8)
       = Inr \<lparr>success = False, data = None, error = Some (JsError ''Error'' ''Breaker is open''),
              retryCount = None, circuitBreakerState = Some ''true''\<rparr>"
    using V [THEN conjunct2, THEN conjunct2, THEN conjunct2, THEN conjunct2, THEN conjunct2, THEN conjunct2, THEN conjunct2, THEN conjunct2, THEN conjunct2, THEN conjunct2, THEN conjunct2, THEN conjunct1] by (simp add: open_after_failed_calls)
  have w21: "worldLeft (transcribeRecording (thisAfter (transcribeRecording (newDeepgramResilient noArguments) (latency 100) (flaky 4 boom ''hello world'') 0)) (latency 100) (flaky 8 boom ''hello world'') 8) = 8"
    using V [THEN conjunct2, THEN conjunct2, THEN conjunct2, THEN conjunct2, THEN conjunct2, THEN conjunct2, THEN conjunct2, THEN conjunct2, THEN conjunct2, THEN conjunct2, THEN conjunct2, THEN conjunct1] by (simp add: open_after_failed_calls)
  have w22: "fst (transcribeRecording (newDeepgramResilient noArguments) (latency 20000) (flaky 2 boom ''hello world'') 0)
       = Inr \<lparr>success = False, data = None,
              error = Some (JsError ''Error'' ''Timed out after 60000ms''),
              retryCount = None, circuitBreakerState = Some ''true''\<rparr>"
    using U [THEN conjunct2, THEN conjunct2, THEN conjunct2, THEN conjunct2, THEN conjunct2, THEN conjunct2, THEN conjunct2, THEN conjunct2, THEN conjunct2, THEN conjunct2, THEN conjunct2, THEN conjunct2, THEN conjunct1] by (simp add: newPlivoResilient_noArguments newDeepgramResilient_noArguments failsThenSucceeds_flaky deepgramRunTime_flaky backoffTotal_noArguments timedOutError_noArguments opened_def jsString_def)
  have w23: "fst (transcribeUrl (newDeepgramResilient noArguments) (latency 100) (flaky 2 boom ''hello world'') 0)
       = Inr \<lparr>success = True, data = Some ''hello world'', error = None, retryCount = Some 3,
              circuitBreakerState = Some ''false''\<rparr>"
    using T [THEN conjunct2, THEN conjunct2, THEN conjunct2, THEN conjunct2, THEN conjunct2, THEN conjunct2, THEN conjunct2, THEN conjunct2, THEN conjunct2, THEN conjunct2, THEN conjunct2, THEN conjunct2, THEN conjunct2, THEN conjunct1] by (simp add: newPlivoResilient_noArguments newDeepgramResilient_noArguments failsThenSucceeds_flaky worldAfter_flaky deepgramRunTime_flaky backoffTotal_noArguments firedCall_def del: worldAfter.simps)
  have w24: "worldLeft (transcribeUrl (newDeepgramResilient noArguments) (latency 100) (flaky 2 boom ''hello world'') 0) = 3"
    using T [THEN conjunct2, THEN conjunct2, THEN conjunct2, THEN conjunct2, THEN conjunct2, THEN conjunct2, THEN conjunct2, THEN conjunct2, THEN conjunct2, THEN conjunct2, THEN conjunct2, THEN conjunct2, THEN conjunct2, THEN conjunct1] by (simp add: newPlivoResilient_noArguments newDeepgramResilient_noArguments failsThenSucceeds_flaky worldAfter_flaky deepgramRunTime_flaky backoffTotal_noArguments firedCall_def del: worldAfter.simps)
  have w25: "fst (transcribeUrl (thisAfter (transcribeRecording (newDeepgramResilient noArguments) (latency 100) (flaky 4 boom ''hello world'') 0)) (latency 100) (flaky 8 boom ''hello world'') 8)
       = Inr \<lparr>success = False, data = None, error = Some (JsError ''Error'' ''Breaker is open''),
              retryCount = None, circuitBreakerState = Some ''true''\<rparr>"
    using V [THEN conjunct2, THEN conjunct2, THEN conjunct2, THEN conjunct2, THEN conjunct2, THEN conjunct2, THEN conjunct2, THEN conjunct2, THEN conjunct2, THEN conjunct2, THEN conjunct2, THEN conjunct2, THEN conjunct2, THEN conjunct2, THEN conjunct1] by (simp add: open_after_failed_calls)
  have w26: "worldLeft (transcribeUrl (thisAfter (transcribeRecording (newDeepgramResilient noArguments) (latency 100) (flaky 4 boom ''hello world'') 0)) (latency 100) (flaky 8 boom ''hello world'') 8) = 8"
    using V [THEN conjunct2, THEN conjunct2, THEN conjunct2, THEN conjunct2, THEN conjunct2, THEN conjunct2, THEN conjunct2, THEN conjunct2, THEN conjunct2, THEN conjunct2, THEN conjunct2, THEN conjunct2, THEN conjunct2, THEN conjunct2, THEN conjunct1] by (simp add: open_after_failed_calls)
  have w27: "fst (transcribeUrl (newDeepgramResilient noArguments) (latency 20000) (flaky 2 boom ''hello world'') 0)
       = Inr \<lparr>success = False, data = None,
              error = Some (JsError ''Error'' ''Timed out after 60000ms''),
              retryCount = None, circuitBreakerState = Some ''true''\<rparr>"
    using U [THEN conjunct2, THEN conjunct2, THEN conjunct2, THEN conjunct2, THEN conjunct2, THEN conjunct2, THEN conjunct2, THEN conjunct2, THEN conjunct2, THEN conjunct2, THEN conjunct2, THEN conjunct2, THEN conjunct2, THEN conjunct2, THEN conjunct2, THEN conjunct1] by (simp add: newPlivoResilient_noArguments newDeepgramResilient_noArguments failsThenSucceeds_flaky deepgramRunTime_flaky backoffTotal_noArguments timedOutError_noArguments opened_def jsString_def)
  have w28: "fst (transcribeWithInsights (newDeepgramResilient noArguments) (latency 100) (flaky 2 boom ''hello world'') 0)
       = Inr \<lparr>success = True, data = Some ''hello world'', error = None, retryCount = Some 3,
              circuitBreakerState = Some ''false''\<rparr>"
    using T [THEN conjunct2, THEN conjunct2, THEN conjunct2, THEN conjunct2, THEN conjunct2, THEN conjunct2, THEN conjunct2, THEN conjunct2, THEN conjunct2, THEN conjunct2, THEN conjunct2, THEN conjunct2, THEN conjunct2, THEN conjunct2, THEN conjunct2, THEN conjunct2, THEN conjunct1] by (simp add: newPlivoResilient_noArguments newDeepgramResilient_noArguments failsThenSucceeds_flaky worldAfter_flaky deepgramRunTime_flaky backoffTotal_noArguments firedCall_def del: worldAfter.simps)
  have w29: "worldLeft (transcribeWithInsights (newDeepgramResilient noArguments) (latency 100) (flaky 2 boom ''hello world'') 0) = 3"
    using T [THEN conjunct2, THEN conjunct2, THEN conjunct2, THEN conjunct2, THEN conjunct2, THEN conjunct2, THEN conjunct2, THEN conjunct2, THEN conjunct2, THEN conjunct2, THEN conjunct2, THEN conjunct2, THEN conjunct2, THEN conjunct2, THEN conjunct2, THEN conjunct2, THEN conjunct1] by (simp add: newPlivoResilient_noArguments newDeepgramResilient_noArguments failsThenSucceeds_flaky worldAfter_flaky deepgramRunTime_flaky backoffTotal_noArguments firedCall_def del: worldAfter.simps)
  have w30: "fst (transcribeWithInsights (thisAfter (transcribeRecording (newDeepgramResilient noArguments) (latency 100) (flaky 4 boom ''hello world'') 0)) (latency 100) (flaky 8 boom ''hello world'') 8)
       = Inr \<lparr>success = False, data = None, error = Some (JsError ''Error'' ''Breaker is open''),
              retryCount = None, circuitBreakerState = Some ''true''\<rparr>"
    using V [THEN conjunct2, THEN conjunct2, THEN conjunct2, THEN conjunct2, THEN conjunct2, THEN conjunct2, THEN conjunct2, THEN conjunct2, THEN conjunct2, THEN conjunct2, THEN conjunct2, THEN conjunct2, THEN conjunct2, THEN conjunct2, THEN conjunct2, THEN conjunct2, THEN conjunct2, THEN conjunct1] by (simp add: open_after_failed_calls)
  have w31: "worldLeft (transcribeWithInsights (thisAfter (transcribeRecording (newDeepgramResilient noArguments) (latency 100) (flaky 4 boom ''hello world'') 0)) (latency 100) (flaky 8 boom ''hello world'') 8) = 8"
    using V [THEN conjunct2, THEN conjunct2, THEN conjunct2, THEN conjunct2, THEN conjunct2, THEN conjunct2, THEN conjunct2, THEN conjunct2, THEN conjunct2, THEN conjunct2, THEN conjunct2, THEN conjunct2, THEN conjunct2, THEN conjunct2, THEN conjunct2, THEN conjunct2, THEN conjunct2, THEN conjunct1] by (simp add: open_after_failed_calls)
  have w32: "fst (transcribeWithInsights (newDeepgramResilient noArguments) (latency 20000) (flaky 2 boom ''hello world'') 0)
       = Inr \<lparr>success = False, data = None,
              error = Some (JsError ''Error'' ''Timed out after 60000ms''),
              retryCount = None, circuitBreakerState = Some ''true''\<rparr>"
    using U [THEN conjunct2, THEN conjunct2, THEN conjunct2, THEN conjunct2, THEN conjunct2, THEN conjunct2, THEN conjunct2, THEN conjunct2, THEN conjunct2, THEN conjunct2, THEN conjunct2, THEN conjunct2, THEN conjunct2, THEN conjunct2, THEN conjunct2, THEN conjunct2, THEN conjunct2, THEN conjunct2, THEN conjunct1] by (simp add: newPlivoResilient_noArguments newDeepgramResilient_noArguments failsThenSucceeds_flaky deepgramRunTime_flaky backoffTotal_noArguments timedOutError_noArguments opened_def jsString_def)
  have w33: "fst (transcribeBuffer (newDeepgramResilient noArguments) (latency 100) (flaky 2 boom ''hello world'') 0)
       = Inr \<lparr>success = True, data = Some ''hello world'', error = None, retryCount = Some 3,
              circuitBreakerState = Some ''false''\<rparr>"
    using T [THEN conjunct2, THEN conjunct2, THEN conjunct2, THEN conjunct2, THEN conjunct2, THEN conjunct2, THEN conjunct2, THEN conjunct2, THEN conjunct2, THEN conjunct2, THEN conjunct2, THEN conjunct2, THEN conjunct2, THEN conjunct2, THEN conjunct2, THEN conjunct2, THEN conjunct2, THEN conjunct2, THEN conjunct2, THEN conjunct1] by (simp add: newPlivoResilient_noArguments newDeepgramResilient_noArguments failsThenSucceeds_flaky worldAfter_flaky deepgramRunTime_flaky backoffTotal_noArguments firedCall_def del: worldAfter.simps)
  have w34: "worldLeft (transcribeBuffer (newDeepgramResilient noArguments) (latency 100) (flaky 2 boom ''hello world'') 0) = 3"
    using T [THEN conjunct2, THEN conjunct2, THEN conjunct2, THEN conjunct2, THEN conjunct2, THEN conjunct2, THEN conjunct2, THEN conjunct2, THEN conjunct2, THEN conjunct2, THEN conjunct2, THEN conjunct2, THEN conjunct2, THEN conjunct2, THEN conjunct2, THEN conjunct2, THEN conjunct2, THEN conjunct2, THEN conjunct2, THEN conjunct1] by (simp add: newPlivoResilient_noArguments newDeepgramResilient_noArguments failsThenSucceeds_flaky worldAfter_flaky deepgramRunTime_flaky backoffTotal_noArguments firedCall_def del: worldAfter.simps)
  have w35: "fst (transcribeBuffer (thisAfter (transcribeRecording (newDeepgramResilient noArguments) (latency 100) (flaky 4 boom ''hello world'') 0)) (latency 100) (flaky 8 boom ''hello world'') 8)
       = Inr \<lparr>success = False, data = None, error = Some (JsError ''Error'' ''Breaker is open''),
              retryCount = None, circuitBreakerState = Some ''true''\<rparr>"
    using V [THEN conjunct2, THEN conjunct2, THEN conjunct2, THEN conjunct2, THEN conjunct2, THEN conjunct2, THEN conjunct2, THEN conjunct2, THEN conjunct2, THEN conjunct2, THEN conjunct2, THEN conjunct2, THEN conjunct2, THEN conjunct2, THEN conjunct2, THEN conjunct2, THEN conjunct2, THEN conjunct2, THEN conjunct2, THEN conjunct2, THEN conjunct1] by (simp add: open_after_failed_calls)
  have w36: "worldLeft (transcribeBuffer (thisAfter (transcribeRecording (newDeepgramResilient noArguments) (latency 100) (flaky 4 boom ''hello world'') 0)) (latency 100) (flaky 8 boom ''hello world'') 8) = 8"
    using V [THEN conjunct2, THEN conjunct2, THEN conjunct2, THEN conjunct2, THEN conjunct2, THEN conjunct2, THEN conjunct2, THEN conjunct2, THEN conjunct2, THEN conjunct2, THEN conjunct2, THEN conjunct2, THEN conjunct2, THEN conjunct2, THEN conjunct2, THEN conjunct2, THEN conjunct2, THEN conjunct2, THEN conjunct2, THEN conjunct2, THEN conjunct1] by (simp add: open_after_failed_calls)
  have w37: "fst (transcribeBuffer (newDeepgramResilient noArguments) (latency 20000) (flaky 2 boom ''hello world'') 0)
       = Inr \<lparr>success = False, data = None,
              error = Some (JsError ''Error'' ''Timed out after 60000ms''),
              retryCount = None, circuitBreakerState = Some ''true''\<rparr>"
    using U [THEN conjunct2, THEN conjunct2, THEN conjunct2, THEN conjunct2, THEN conjunct2, THEN conjunct2, THEN conjunct2, THEN conjunct2, THEN conjunct2, THEN conjunct2, THEN conjunct2, THEN conjunct2, THEN conjunct2, THEN conjunct2, THEN conjunct2, THEN conjunct2, THEN conjunct2, THEN conjunct2, THEN conjunct2, THEN conjunct2, THEN conjunct2] by (simp add: newPlivoResilient_noArguments newDeepgramResilient_noArguments failsThenSucceeds_flaky deepgramRunTime_flaky backoffTotal_noArguments timedOutError_noArguments opened_def jsString_def)
  show ?thesis
    by (intro conjI) (fact w1 w2 w3 w4 w5 w6 w7 w8 w9 w10 w11 w12 w13 w14 w15 w16 w17 w18 w19 w20 w21 w22 w23 w24 w25 w26 w27 w28 w29 w30 w31 w32 w33 w34 w35 w36 w37)+
qed

text \<open>
  C5. None of the eight public methods that return an envelope ever rejects, whatever the
  delegate's promise settles with and whatever state the breaker is in: the promise resolves with an
  envelope in which \<^verbatim>\<open>data\<close> is present and \<^verbatim>\<open>error\<close> absent exactly when \<^verbatim>\<open>success\<close> is
  true, and \<^verbatim>\<open>error\<close> is present and \<^verbatim>\<open>data\<close> absent exactly when \<^verbatim>\<open>success\<close> is false.
\<close>

theorem facade_methods_always_resolve:
  "(\<exists>env. fst (initiateRecordedCall p spent dIni w) = Inr env \<and> exactlyOneOfDataError env)
   \<and> (\<exists>env. fst (makeCall p spent dMak w) = Inr env \<and> exactlyOneOfDataError env)
   \<and> (\<exists>env. fst (getCallDetails p spent dDet w) = Inr env \<and> exactlyOneOfDataError env)
   \<and> (\<exists>env. fst (terminateCall p dTer w) = Inr env \<and> exactlyOneOfDataError env)
   \<and> (\<exists>env. fst (transcribeRecording g spent dRec w) = Inr env \<and> exactlyOneOfDataError env)
   \<and> (\<exists>env. fst (transcribeUrl g spent dUrl w) = Inr env \<and> exactlyOneOfDataError env)
   \<and> (\<exists>env. fst (transcribeWithInsights g spent dIns w) = Inr env \<and> exactlyOneOfDataError env)
   \<and> (\<exists>env. fst (transcribeBuffer g spent dBuf w) = Inr env \<and> exactlyOneOfDataError env)"
proof -
  have c1: "\<exists>env. fst (initiateRecordedCall p spent dIni w) = Inr env \<and> exactlyOneOfDataError env"
    using initiateRecordedCall_envelope [where p = p and w = w and dIni = dIni and spent = spent] by blast
  have c2: "\<exists>env. fst (makeCall p spent dMak w) = Inr env \<and> exactlyOneOfDataError env"
    using makeCall_envelope [where p = p and w = w and dMak = dMak and spent = spent] by blast
  have c3: "\<exists>env. fst (getCallDetails p spent dDet w) = Inr env \<and> exactlyOneOfDataError env"
    using getCallDetails_envelope [where p = p and w = w and dDet = dDet and spent = spent] by blast
  have c4: "\<exists>env. fst (terminateCall p dTer w) = Inr env \<and> exactlyOneOfDataError env"
    using terminateCall_envelope [where p = p and w = w and dTer = dTer] by blast
  have c5: "\<exists>env. fst (transcribeRecording g spent dRec w) = Inr env \<and> exactlyOneOfDataError env"
    using transcribeRecording_envelope [where g = g and w = w and dRec = dRec and spent = spent] by blast
  have c6: "\<exists>env. fst (transcribeUrl g spent dUrl w) = Inr env \<and> exactlyOneOfDataError env"
    using transcribeUrl_envelope [where g = g and w = w and dUrl = dUrl and spent = spent] by blast
  have c7: "\<exists>env. fst (transcribeWithInsights g spent dIns w) = Inr env \<and> exactlyOneOfDataError env"
    using transcribeWithInsights_envelope [where g = g and w = w and dIns = dIns and spent = spent] by blast
  have c8: "\<exists>env. fst (transcribeBuffer g spent dBuf w) = Inr env \<and> exactlyOneOfDataError env"
    using transcribeBuffer_envelope [where g = g and w = w and dBuf = dBuf and spent = spent] by blast
  show ?thesis
    by (intro conjI) (fact c1 c2 c3 c4 c5 c6 c7 c8)+
qed

theorem facade_methods_always_resolve_witness:
  "(\<exists>env. fst (initiateRecordedCall (newPlivoResilient noArguments) (latency 100) (flaky 2 boom firedCall) 0) = Inr env \<and> exactlyOneOfDataError env)
   \<and> (\<exists>env. fst (makeCall (newPlivoResilient noArguments) (latency 100) (flaky 2 boom queuedCall) 0) = Inr env \<and> exactlyOneOfDataError env)
   \<and> (\<exists>env. fst (getCallDetails (newPlivoResilient noArguments) (latency 100) (flaky 2 boom ''completed'') 0) = Inr env \<and> exactlyOneOfDataError env)
   \<and> (\<exists>env. fst (terminateCall (newPlivoResilient noArguments) (flaky 2 boom hungUp) 0) = Inr env \<and> exactlyOneOfDataError env)
   \<and> (\<exists>env. fst (transcribeRecording (newDeepgramResilient noArguments) (latency 100) (flaky 2 boom ''hello world'') 0) = Inr env \<and> exactlyOneOfDataError env)
   \<and> (\<exists>env. fst (transcribeUrl (newDeepgramResilient noArguments) (latency 100) (flaky 2 boom ''hello world'') 0) = Inr env \<and> exactlyOneOfDataError env)
   \<and> (\<exists>env. fst (transcribeWithInsights (newDeepgramResilient noArguments) (latency 100) (flaky 2 boom ''hello world'') 0) = Inr env \<and> exactlyOneOfDataError env)
   \<and> (\<exists>env. fst (transcribeBuffer (newDeepgramResilient noArguments) (latency 100) (flaky 2 boom ''hello world'') 0) = Inr env \<and> exactlyOneOfDataError env)"
  by (rule facade_methods_always_resolve [where p = "newPlivoResilient noArguments" and g = "newDeepgramResilient noArguments" and w = "0::nat" and spent = "latency 100" and dIni = "flaky 2 boom firedCall" and dMak = "flaky 2 boom queuedCall" and dDet = "flaky 2 boom ''completed''" and dTer = "flaky 2 boom hungUp" and dRec = "flaky 2 boom ''hello world''" and dUrl = "flaky 2 boom ''hello world''" and dIns = "flaky 2 boom ''hello world''" and dBuf = "flaky 2 boom ''hello world''"])

text \<open>
  C6. The three breakers are independent. A step that does not work on breaker \<open>K\<close> leaves
  \<open>K\<close> as it is, state, statistics and options alike, and so does every sequence of such
  steps; in particular a transcription never changes the \<^verbatim>\<open>makeCall\<close> or the
  \<^verbatim>\<open>getCallDetails\<close> breaker, and a method of \<^verbatim>\<open>PlivoResilient\<close> never changes the
  \<^verbatim>\<open>transcribe\<close> breaker. Any sequence of steps on \<^verbatim>\<open>DeepgramResilient\<close> leaves the whole
  \<^verbatim>\<open>PlivoResilient\<close> instance unchanged, and the other way round. What a step on one instance
  does is the same whatever the other instance is. And with the \<^verbatim>\<open>transcribe\<close> breaker
  open, a call placed through a \<^verbatim>\<open>makeCall\<close> breaker that is not open reaches the delegate.
\<close>

theorem breakers_are_independent:
  "(K \<notin> set (touches c) \<longrightarrow> breakerAt K (fst (perform spent cs c w)) = breakerAt K cs)
   \<and> ((\<forall>c\<in>set calls. K \<notin> set (touches c)) \<longrightarrow>
        breakerAt K (fst (performAll spent cs calls w)) = breakerAt K cs)
   \<and> ((\<forall>c\<in>set transcriptions. onDeepgram c) \<longrightarrow>
        plivoClient (fst (performAll spent cs transcriptions w)) = plivoClient cs)
   \<and> ((\<forall>c\<in>set phoneCalls. \<not> onDeepgram c) \<longrightarrow>
        deepgramClient (fst (performAll spent cs phoneCalls w)) = deepgramClient cs)
   \<and> (\<not> onDeepgram phoneCall \<longrightarrow>
        perform spent (cs\<lparr>deepgramClient := g\<rparr>) phoneCall w
          = (case perform spent cs phoneCall w of (cs', w') \<Rightarrow> (cs'\<lparr>deepgramClient := g\<rparr>, w')))
   \<and> (onDeepgram transcription \<longrightarrow>
        perform spent (cs\<lparr>plivoClient := p\<rparr>) transcription w
          = (case perform spent cs transcription w of (cs', w') \<Rightarrow> (cs'\<lparr>plivoClient := p\<rparr>, w')))
   \<and> (cbState (transcribeBreaker (deepgramClient cs)) = Open \<longrightarrow>
        cbState (makeCallBreaker (plivoClient cs)) \<noteq> Open \<longrightarrow> failsThenSucceeds dIni 0 w vIni \<longrightarrow>
        snd (perform spent cs (InitiateRecordedCall dIni) w) = worldAfter dIni 1 w)"
proof -
  have c1: "K \<notin> set (touches c) \<longrightarrow> breakerAt K (fst (perform spent cs c w)) = breakerAt K cs"
    by (simp add: perform_frame)
  have c2: "(\<forall>c\<in>set calls. K \<notin> set (touches c)) \<longrightarrow>
        breakerAt K (fst (performAll spent cs calls w)) = breakerAt K cs"
    by (simp add: performAll_frame)
  have c3: "(\<forall>c\<in>set transcriptions. onDeepgram c) \<longrightarrow>
        plivoClient (fst (performAll spent cs transcriptions w)) = plivoClient cs"
    by (simp add: performAll_onDeepgram)
  have c4: "(\<forall>c\<in>set phoneCalls. \<not> onDeepgram c) \<longrightarrow>
        deepgramClient (fst (performAll spent cs phoneCalls w)) = deepgramClient cs"
    by (simp add: performAll_onPlivo)
  have c5: "\<not> onDeepgram phoneCall \<longrightarrow>
        perform spent (cs\<lparr>deepgramClient := g\<rparr>) phoneCall w
          = (case perform spent cs phoneCall w of (cs', w') \<Rightarrow> (cs'\<lparr>deepgramClient := g\<rparr>, w'))"
    by (simp add: perform_ignores_deepgramClient)
  have c6: "onDeepgram transcription \<longrightarrow>
        perform spent (cs\<lparr>plivoClient := p\<rparr>) transcription w
          = (case perform spent cs transcription w of (cs', w') \<Rightarrow> (cs'\<lparr>plivoClient := p\<rparr>, w'))"
    by (simp add: perform_ignores_plivoClient)
  have c7: "cbState (transcribeBreaker (deepgramClient cs)) = Open \<longrightarrow>
        cbState (makeCallBreaker (plivoClient cs)) \<noteq> Open \<longrightarrow> failsThenSucceeds dIni 0 w vIni \<longrightarrow>
        snd (perform spent cs (InitiateRecordedCall dIni) w) = worldAfter dIni 1 w"
    by (intro impI) (rule placed_call_goes_through)
  show ?thesis
    by (intro conjI) (fact c1 c2 c3 c4 c5 c6 c7)+
qed

theorem breakers_are_independent_witness:
  "breakerAt MakeCallKind (fst (perform (latency 100) (\<lparr>plivoClient = newPlivoResilient noArguments, deepgramClient = thisAfter (transcribeRecording (newDeepgramResilient noArguments) (latency 100) (flaky 4 boom ''hello world'') 0)\<rparr>) (TranscribeRecording (flaky 4 boom ''hello world'') :: (nat, string, string) call) 0)) = makeCallBreaker (newPlivoResilient noArguments)
   \<and> breakerAt MakeCallKind (fst (performAll (latency 100) (\<lparr>plivoClient = newPlivoResilient noArguments, deepgramClient = thisAfter (transcribeRecording (newDeepgramResilient noArguments) (latency 100) (flaky 4 boom ''hello world'') 0)\<rparr>) [(TranscribeRecording (flaky 4 boom ''hello world'') :: (nat, string, string) call), (TranscribeRecording (flaky 4 boom ''hello world'') :: (nat, string, string) call)] 0)) = makeCallBreaker (newPlivoResilient noArguments)
   \<and> plivoClient (fst (performAll (latency 100) (\<lparr>plivoClient = newPlivoResilient noArguments, deepgramClient = thisAfter (transcribeRecording (newDeepgramResilient noArguments) (latency 100) (flaky 4 boom ''hello world'') 0)\<rparr>) [(TranscribeRecording (flaky 4 boom ''hello world'') :: (nat, string, string) call), (TranscribeRecording (flaky 4 boom ''hello world'') :: (nat, string, string) call)] 0)) = newPlivoResilient noArguments
   \<and> deepgramClient (fst (performAll (latency 100) (\<lparr>plivoClient = newPlivoResilient noArguments, deepgramClient = thisAfter (transcribeRecording (newDeepgramResilient noArguments) (latency 100) (flaky 4 boom ''hello world'') 0)\<rparr>) [(InitiateRecordedCall (flaky 0 boom firedCall) :: (nat, string, string) call), (InitiateRecordedCall (flaky 0 boom firedCall) :: (nat, string, string) call)] 0)) = thisAfter (transcribeRecording (newDeepgramResilient noArguments) (latency 100) (flaky 4 boom ''hello world'') 0)
   \<and> cbState (transcribeBreaker (deepgramClient (\<lparr>plivoClient = newPlivoResilient noArguments, deepgramClient = thisAfter (transcribeRecording (newDeepgramResilient noArguments) (latency 100) (flaky 4 boom ''hello world'') 0)\<rparr>))) = Open
   \<and> snd (perform (latency 100) (\<lparr>plivoClient = newPlivoResilient noArguments, deepgramClient = thisAfter (transcribeRecording (newDeepgramResilient noArguments) (latency 100) (flaky 4 boom ''hello world'') 0)\<rparr>) (InitiateRecordedCall (flaky 0 boom firedCall) :: (nat, string, string) call) 0) = 1"
proof -
  note T = breakers_are_independent [where K = "MakeCallKind" and c = "(TranscribeRecording (flaky 4 boom ''hello world'') :: (nat, string, string) call)" and cs = "\<lparr>plivoClient = newPlivoResilient noArguments, deepgramClient = thisAfter (transcribeRecording (newDeepgramResilient noArguments) (latency 100) (flaky 4 boom ''hello world'') 0)\<rparr>" and w = "0::nat" and calls = "[(TranscribeRecording (flaky 4 boom ''hello world'') :: (nat, string, string) call), (TranscribeRecording (flaky 4 boom ''hello world'') :: (nat, string, string) call)]" and transcriptions = "[(TranscribeRecording (flaky 4 boom ''hello world'') :: (nat, string, string) call), (TranscribeRecording (flaky 4 boom ''hello world'') :: (nat, string, string) call)]" and phoneCalls = "[(InitiateRecordedCall (flaky 0 boom firedCall) :: (nat, string, string) call), (InitiateRecordedCall (flaky 0 boom firedCall) :: (nat, string, string) call)]" and phoneCall = "(InitiateRecordedCall (flaky 0 boom firedCall) :: (nat, string, string) call)" and transcription = "(TranscribeRecording (flaky 4 boom ''hello world'') :: (nat, string, string) call)" and g = "newDeepgramResilient noArguments" and p = "thisAfter (initiateRecordedCall (newPlivoResilient noArguments) (latency 100) (flaky 4 boom firedCall) 0)" and dIni = "flaky 0 boom firedCall" and vIni = "firedCall" and spent = "latency 100"]
  have w1: "breakerAt MakeCallKind (fst (perform (latency 100) (\<lparr>plivoClient = newPlivoResilient noArguments, deepgramClient = thisAfter (transcribeRecording (newDeepgramResilient noArguments) (latency 100) (flaky 4 boom ''hello world'') 0)\<rparr>) (TranscribeRecording (flaky 4 boom ''hello world'') :: (nat, string, string) call) 0)) = makeCallBreaker (newPlivoResilient noArguments)"
    using T [THEN conjunct1] by simp
  have w2: "breakerAt MakeCallKind (fst (performAll (latency 100) (\<lparr>plivoClient = newPlivoResilient noArguments, deepgramClient = thisAfter (transcribeRecording (newDeepgramResilient noArguments) (latency 100) (flaky 4 boom ''hello world'') 0)\<rparr>) [(TranscribeRecording (flaky 4 boom ''hello world'') :: (nat, string, string) call), (TranscribeRecording (flaky 4 boom ''hello world'') :: (nat, string, string) call)] 0)) = makeCallBreaker (newPlivoResilient noArguments)"
    using T [THEN conjunct2, THEN conjunct1] by simp
  have w3: "plivoClient (fst (performAll (latency 100) (\<lparr>plivoClient = newPlivoResilient noArguments, deepgramClient = thisAfter (transcribeRecording (newDeepgramResilient noArguments) (latency 100) (flaky 4 boom ''hello world'') 0)\<rparr>) [(TranscribeRecording (flaky 4 boom ''hello world'') :: (nat, string, string) call), (TranscribeRecording (flaky 4 boom ''hello world'') :: (nat, string, string) call)] 0)) = newPlivoResilient noArguments"
    using T [THEN conjunct2, THEN conjunct2, THEN conjunct1] by simp
  have w4: "deepgramClient (fst (performAll (latency 100) (\<lparr>plivoClient = newPlivoResilient noArguments, deepgramClient = thisAfter (transcribeRecording (newDeepgramResilient noArguments) (latency 100) (flaky 4 boom ''hello world'') 0)\<rparr>) [(InitiateRecordedCall (flaky 0 boom firedCall) :: (nat, string, string) call), (InitiateRecordedCall (flaky 0 boom firedCall) :: (nat, string, string) call)] 0)) = thisAfter (transcribeRecording (newDeepgramResilient noArguments) (latency 100) (flaky 4 boom ''hello world'') 0)"
    using T [THEN conjunct2, THEN conjunct2, THEN conjunct2, THEN conjunct1] by simp
  have w5: "cbState (transcribeBreaker (deepgramClient (\<lparr>plivoClient = newPlivoResilient noArguments, deepgramClient = thisAfter (transcribeRecording (newDeepgramResilient noArguments) (latency 100) (flaky 4 boom ''hello world'') 0)\<rparr>))) = Open"
    by (simp add: open_after_failed_calls)
  have w6: "snd (perform (latency 100) (\<lparr>plivoClient = newPlivoResilient noArguments, deepgramClient = thisAfter (transcribeRecording (newDeepgramResilient noArguments) (latency 100) (flaky 4 boom ''hello world'') 0)\<rparr>) (InitiateRecordedCall (flaky 0 boom firedCall) :: (nat, string, string) call) 0) = 1"
    using T [THEN conjunct2, THEN conjunct2, THEN conjunct2, THEN conjunct2, THEN conjunct2, THEN conjunct2] by (simp add: open_after_failed_calls newPlivoResilient_noArguments recovered_flaky [of 0, simplified] flaky_def)
  show ?thesis
    by (intro conjI) (fact w1 w2 w3 w4 w5 w6)+
qed

text \<open>
  C8, as stated: every facade method that makes an external call, \<^verbatim>\<open>terminateCall\<close> and
  \<^verbatim>\<open>waitForRecording\<close> included, is gated by a breaker, so that an open breaker keeps the
  delegate from being called. \<^verbatim>\<open>terminateCall\<close> is not. After one failed
  \<^verbatim>\<open>initiateRecordedCall\<close> and one failed \<^verbatim>\<open>getCallDetails\<close> both breakers of the instance
  are open; \<^verbatim>\<open>terminateCall\<close> still calls its delegate (the world goes from 8 to 9 calls)
  and resolves with \<^verbatim>\<open>success: true\<close>.
\<close>

theorem terminateCall_runs_while_breakers_open:
  "cbState (makeCallBreaker (thisAfter (getCallDetails (thisAfter (initiateRecordedCall (newPlivoResilient noArguments) (latency 100) (flaky 4 boom firedCall) 0)) (latency 100) (flaky 8 boom ''completed'') 4))) = Open
   \<and> cbState (getCallDetailsBreaker (thisAfter (getCallDetails (thisAfter (initiateRecordedCall (newPlivoResilient noArguments) (latency 100) (flaky 4 boom firedCall) 0)) (latency 100) (flaky 8 boom ''completed'') 4))) = Open
   \<and> fst (terminateCall (thisAfter (getCallDetails (thisAfter (initiateRecordedCall (newPlivoResilient noArguments) (latency 100) (flaky 4 boom firedCall) 0)) (latency 100) (flaky 8 boom ''completed'') 4)) (flaky 8 boom hungUp) 8)
       = Inr \<lparr>success = True, data = Some \<lparr>tdMessage = ''Call terminated successfully''\<rparr>,
              error = None, retryCount = Some 1, circuitBreakerState = None\<rparr>
   \<and> worldLeft (terminateCall (thisAfter (getCallDetails (thisAfter (initiateRecordedCall (newPlivoResilient noArguments) (latency 100) (flaky 4 boom firedCall) 0)) (latency 100) (flaky 8 boom ''completed'') 4)) (flaky 8 boom hungUp) 8) = 9"
proof -
  have "fst (terminateCall p (flaky 8 boom hungUp) 8)
       = Inr \<lparr>success = True, data = Some \<lparr>tdMessage = ''Call terminated successfully''\<rparr>,
              error = None, retryCount = Some 1, circuitBreakerState = None\<rparr>
     \<and> worldLeft (terminateCall p (flaky 8 boom hungUp) 8) = 9" for p
    using terminateCall_succeeds [where k = 0 and p = p and dTer = "flaky 8 boom hungUp" and w = 8
        and vTer = hungUp] recovered_flaky [of 8 boom hungUp]
    by (auto simp: worldLeft_def hungUp_def flaky_def)
  then show ?thesis by (simp add: open_after_failed_calls)
qed

text \<open>
  C8, amended: the seven methods \<^verbatim>\<open>initiateRecordedCall\<close>, \<^verbatim>\<open>makeCall\<close>,
  \<^verbatim>\<open>getCallDetails\<close>, \<^verbatim>\<open>transcribeRecording\<close>, \<^verbatim>\<open>transcribeUrl\<close>,
  \<^verbatim>\<open>transcribeWithInsights\<close> and \<^verbatim>\<open>transcribeBuffer\<close> run the retry engine inside
  \<^verbatim>\<open>fire\<close> of their breaker: while that breaker is open the delegate is not called, the
  instance and the world stay as they are, and the envelope carries the breaker's error.
  \<^verbatim>\<open>terminateCall\<close> and \<^verbatim>\<open>waitForRecording\<close> run the retry engine directly: they call
  their delegate at least once and at most \<open>maxRetries + 1\<close> times, and what they do does
  not depend on the breakers of the instance.
\<close>

theorem open_breaker_blocks_guarded_methods_only:
  "(cbState (makeCallBreaker p) = Open \<longrightarrow>
        initiateRecordedCall p spent dIni w
          = (Inr \<lparr>success = False, data = None, error = Some (JsError ''Error'' ''Breaker is open''),
                  retryCount = None, circuitBreakerState = Some ''true''\<rparr>, p, w, []))
   \<and> (cbState (makeCallBreaker p) = Open \<longrightarrow>
        makeCall p spent dMak w
          = (Inr \<lparr>success = False, data = None, error = Some (JsError ''Error'' ''Breaker is open''),
                  retryCount = None, circuitBreakerState = Some ''true''\<rparr>, p, w, []))
   \<and> (cbState (getCallDetailsBreaker p) = Open \<longrightarrow>
        getCallDetails p spent dDet w
          = (Inr \<lparr>success = False, data = None, error = Some (JsError ''Error'' ''Breaker is open''),
                  retryCount = None, circuitBreakerState = Some ''true''\<rparr>, p, w, []))
   \<and> (cbState (transcribeBreaker g) = Open \<longrightarrow>
        transcribeRecording g spent dRec w
          = (Inr \<lparr>success = False, data = None, error = Some (JsError ''Error'' ''Breaker is open''),
                  retryCount = None, circuitBreakerState = Some ''true''\<rparr>, g, w, []))
   \<and> (cbState (transcribeBreaker g) = Open \<longrightarrow>
        transcribeUrl g spent dUrl w
          = (Inr \<lparr>success = False, data = None, error = Some (JsError ''Error'' ''Breaker is open''),
                  retryCount = None, circuitBreakerState = Some ''true''\<rparr>, g, w, []))
   \<and> (cbState (transcribeBreaker g) = Open \<longrightarrow>
        transcribeWithInsights g spent dIns w
          = (Inr \<lparr>success = False, data = None, error = Some (JsError ''Error'' ''Breaker is open''),
                  retryCount = None, circuitBreakerState = Some ''true''\<rparr>, g, w, []))
   \<and> (cbState (transcribeBreaker g) = Open \<longrightarrow>
        transcribeBuffer g spent dBuf w
          = (Inr \<lparr>success = False, data = None, error = Some (JsError ''Error'' ''Breaker is open''),
                  retryCount = None, circuitBreakerState = Some ''true''\<rparr>, g, w, []))
   \<and> (\<exists>n. 1 \<le> n \<and> n \<le> plivoMaxRetries p + 1
        \<and> worldLeft (terminateCall p dTer w) = worldAfter dTer n w)
   \<and> (terminateCall (p\<lparr>makeCallBreaker := b1, getCallDetailsBreaker := b2\<rparr>) dTer w
        = (case terminateCall p dTer w of
             (env, p', w', tr) \<Rightarrow> (env, p'\<lparr>makeCallBreaker := b1, getCallDetailsBreaker := b2\<rparr>, w', tr)))
   \<and> (\<exists>n. 1 \<le> n \<and> n \<le> plivoMaxRetries p + 1
        \<and> worldLeft (waitForRecording p dWai w) = worldAfter dWai n w)
   \<and> (waitForRecording (p\<lparr>makeCallBreaker := b1, getCallDetailsBreaker := b2\<rparr>) dWai w
        = (case waitForRecording p dWai w of
             (res, p', w', tr) \<Rightarrow> (res, p'\<lparr>makeCallBreaker := b1, getCallDetailsBreaker := b2\<rparr>, w', tr)))"
proof -
  have c1: "cbState (makeCallBreaker p) = Open \<longrightarrow>
        initiateRecordedCall p spent dIni w
          = (Inr \<lparr>success = False, data = None, error = Some (JsError ''Error'' ''Breaker is open''),
                  retryCount = None, circuitBreakerState = Some ''true''\<rparr>, p, w, [])"
    using initiateRecordedCall_open [where p = p and w = w and dIni = dIni and spent = spent] by blast
  have c2: "cbState (makeCallBreaker p) = Open \<longrightarrow>
        makeCall p spent dMak w
          = (Inr \<lparr>success = False, data = None, error = Some (JsError ''Error'' ''Breaker is open''),
                  retryCount = None, circuitBreakerState = Some ''true''\<rparr>, p, w, [])"
    using makeCall_open [where p = p and w = w and dMak = dMak and spent = spent] by blast
  have c3: "cbState (getCallDetailsBreaker p) = Open \<longrightarrow>
        getCallDetails p spent dDet w
          = (Inr \<lparr>success = False, data = None, error = Some (JsError ''Error'' ''Breaker is open''),
                  retryCount = None, circuitBreakerState = Some ''true''\<rparr>, p, w, [])"
    using getCallDetails_open [where p = p and w = w and dDet = dDet and spent = spent] by blast
  have c4: "cbState (transcribeBreaker g) = Open \<longrightarrow>
        transcribeRecording g spent dRec w
          = (Inr \<lparr>success = False, data = None, error = Some (JsError ''Error'' ''Breaker is open''),
                  retryCount = None, circuitBreakerState = Some ''true''\<rparr>, g, w, [])"
    using transcribeRecording_open [where g = g and w = w and dRec = dRec and spent = spent] by blast
  have c5: "cbState (transcribeBreaker g) = Open \<longrightarrow>
        transcribeUrl g spent dUrl w
          = (Inr \<lparr>success = False, data = None, error = Some (JsError ''Error'' ''Breaker is open''),
                  retryCount = None, circuitBreakerState = Some ''true''\<rparr>, g, w, [])"
    using transcribeUrl_open [where g = g and w = w and dUrl = dUrl and spent = spent] by blast
  have c6: "cbState (transcribeBreaker g) = Open \<longrightarrow>
        transcribeWithInsights g spent dIns w
          = (Inr \<lparr>success = False, data = None, error = Some (JsError ''Error'' ''Breaker is open''),
                  retryCount = None, circuitBreakerState = Some ''true''\<rparr>, g, w, [])"
    using transcribeWithInsights_open [where g = g and w = w and dIns = dIns and spent = spent] by blast
  have c7: "cbState (transcribeBreaker g) = Open \<longrightarrow>
        transcribeBuffer g spent dBuf w
          = (Inr \<lparr>success = False, data = None, error = Some (JsError ''Error'' ''Breaker is open''),
                  retryCount = None, circuitBreakerState = Some ''true''\<rparr>, g, w, [])"
    using transcribeBuffer_open [where g = g and w = w and dBuf = dBuf and spent = spent] by blast
  have c8: "\<exists>n. 1 \<le> n \<and> n \<le> plivoMaxRetries p + 1
        \<and> worldLeft (terminateCall p dTer w) = worldAfter dTer n w"
    by (rule terminateCall_invokes)
  have c9: "terminateCall (p\<lparr>makeCallBreaker := b1, getCallDetailsBreaker := b2\<rparr>) dTer w
        = (case terminateCall p dTer w of
             (env, p', w', tr) \<Rightarrow> (env, p'\<lparr>makeCallBreaker := b1, getCallDetailsBreaker := b2\<rparr>, w', tr))"
    by (rule terminateCall_ignores_breakers)
  have c10: "\<exists>n. 1 \<le> n \<and> n \<le> plivoMaxRetries p + 1
        \<and> worldLeft (waitForRecording p dWai w) = worldAfter dWai n w"
    using waitForRecording_invokes [of p dWai w] by blast
  have c11: "waitForRecording (p\<lparr>makeCallBreaker := b1, getCallDetailsBreaker := b2\<rparr>) dWai w
        = (case waitForRecording p dWai w of
             (res, p', w', tr) \<Rightarrow> (res, p'\<lparr>makeCallBreaker := b1, getCallDetailsBreaker := b2\<rparr>, w', tr))"
    by (rule waitForRecording_ignores_breakers)
  show ?thesis
    by (intro conjI) (fact c1 c2 c3 c4 c5 c6 c7 c8 c9 c10 c11)+
qed

theorem open_breaker_blocks_guarded_methods_only_witness:
  "worldLeft (initiateRecordedCall (thisAfter (getCallDetails (thisAfter (initiateRecordedCall (newPlivoResilient noArguments) (latency 100) (flaky 4 boom firedCall) 0)) (latency 100) (flaky 8 boom ''completed'') 4)) (latency 100) (flaky 8 boom firedCall) 8) = 8
   \<and> worldLeft (makeCall (thisAfter (getCallDetails (thisAfter (initiateRecordedCall (newPlivoResilient noArguments) (latency 100) (flaky 4 boom firedCall) 0)) (latency 100) (flaky 8 boom ''completed'') 4)) (latency 100) (flaky 8 boom queuedCall) 8) = 8
   \<and> worldLeft (getCallDetails (thisAfter (getCallDetails (thisAfter (initiateRecordedCall (newPlivoResilient noArguments) (latency 100) (flaky 4 boom firedCall) 0)) (latency 100) (flaky 8 boom ''completed'') 4)) (latency 100) (flaky 8 boom ''completed'') 8) = 8
   \<and> worldLeft (transcribeRecording (thisAfter (transcribeRecording (newDeepgramResilient noArguments) (latency 100) (flaky 4 boom ''hello world'') 0)) (latency 100) (flaky 8 boom ''hello world'') 8) = 8
   \<and> worldLeft (transcribeUrl (thisAfter (transcribeRecording (newDeepgramResilient noArguments) (latency 100) (flaky 4 boom ''hello world'') 0)) (latency 100) (flaky 8 boom ''hello world'') 8) = 8
   \<and> worldLeft (transcribeWithInsights (thisAfter (transcribeRecording (newDeepgramResilient noArguments) (latency 100) (flaky 4 boom ''hello world'') 0)) (latency 100) (flaky 8 boom ''hello world'') 8) = 8
   \<and> worldLeft (transcribeBuffer (thisAfter (transcribeRecording (newDeepgramResilient noArguments) (latency 100) (flaky 4 boom ''hello world'') 0)) (latency 100) (flaky 8 boom ''hello world'') 8) = 8
   \<and> 8 < worldLeft (terminateCall (thisAfter (getCallDetails (thisAfter (initiateRecordedCall (newPlivoResilient noArguments) (latency 100) (flaky 4 boom firedCall) 0)) (latency 100) (flaky 8 boom ''completed'') 4)) (flaky 8 boom hungUp) 8)
   \<and> 8 < worldLeft (waitForRecording (thisAfter (getCallDetails (thisAfter (initiateRecordedCall (newPlivoResilient noArguments) (latency 100) (flaky 4 boom firedCall) 0)) (latency 100) (flaky 8 boom ''completed'') 4)) (flaky 8 boom (Some ''completed'')) 8)"
proof -
  note T = open_breaker_blocks_guarded_methods_only [where p = "thisAfter (getCallDetails (thisAfter (initiateRecordedCall (newPlivoResilient noArguments) (latency 100) (flaky 4 boom firedCall) 0)) (latency 100) (flaky 8 boom ''completed'') 4)" and g = "thisAfter (transcribeRecording (newDeepgramResilient noArguments) (latency 100) (flaky 4 boom ''hello world'') 0)" and w = "8::nat" and spent = "latency 100" and dIni = "flaky 8 boom firedCall" and dMak = "flaky 8 boom queuedCall" and dDet = "flaky 8 boom ''completed''" and dRec = "flaky 8 boom ''hello world''" and dUrl = "flaky 8 boom ''hello world''" and dIns = "flaky 8 boom ''hello world''" and dBuf = "flaky 8 boom ''hello world''" and dTer = "flaky 8 boom hungUp" and dWai = "flaky 8 boom (Some ''completed'')"]
  have w1: "worldLeft (initiateRecordedCall (thisAfter (getCallDetails (thisAfter (initiateRecordedCall (newPlivoResilient noArguments) (latency 100) (flaky 4 boom firedCall) 0)) (latency 100) (flaky 8 boom ''completed'') 4)) (latency 100) (flaky 8 boom firedCall) 8) = 8"
    using T [THEN conjunct1] by (simp add: open_after_failed_calls worldLeft_tuple)
  have w2: "worldLeft (makeCall (thisAfter (getCallDetails (thisAfter (initiateRecordedCall (newPlivoResilient noArguments) (latency 100) (flaky 4 boom firedCall) 0)) (latency 100) (flaky 8 boom ''completed'') 4)) (latency 100) (flaky 8 boom queuedCall) 8) = 8"
    using T [THEN conjunct2, THEN conjunct1] by (simp add: open_after_failed_calls worldLeft_tuple)
  have w3: "worldLeft (getCallDetails (thisAfter (getCallDetails (thisAfter (initiateRecordedCall (newPlivoResilient noArguments) (latency 100) (flaky 4 boom firedCall) 0)) (latency 100) (flaky 8 boom ''completed'') 4)) (latency 100) (flaky 8 boom ''completed'') 8) = 8"
    using T [THEN conjunct2, THEN conjunct2, THEN conjunct1] by (simp add: open_after_failed_calls worldLeft_tuple)
  have w4: "worldLeft (transcribeRecording (thisAfter (transcribeRecording (newDeepgramResilient noArguments) (latency 100) (flaky 4 boom ''hello world'') 0)) (latency 100) (flaky 8 boom ''hello world'') 8) = 8"
    using T [THEN conjunct2, THEN conjunct2, THEN conjunct2, THEN conjunct1] by (simp add: open_after_failed_calls worldLeft_tuple)
  have w5: "worldLeft (transcribeUrl (thisAfter (transcribeRecording (newDeepgramResilient noArguments) (latency 100) (flaky 4 boom ''hello world'') 0)) (latency 100) (flaky 8 boom ''hello world'') 8) = 8"
    using T [THEN conjunct2, THEN conjunct2, THEN conjunct2, THEN conjunct2, THEN conjunct1] by (simp add: open_after_failed_calls worldLeft_tuple)
  have w6: "worldLeft (transcribeWithInsights (thisAfter (transcribeRecording (newDeepgramResilient noArguments) (latency 100) (flaky 4 boom ''hello world'') 0)) (latency 100) (flaky 8 boom ''hello world'') 8) = 8"
    using T [THEN conjunct2, THEN conjunct2, THEN conjunct2, THEN conjunct2, THEN conjunct2, THEN conjunct1] by (simp add: open_after_failed_calls worldLeft_tuple)
  have w7: "worldLeft (transcribeBuffer (thisAfter (transcribeRecording (newDeepgramResilient noArguments) (latency 100) (flaky 4 boom ''hello world'') 0)) (latency 100) (flaky 8 boom ''hello world'') 8) = 8"
    using T [THEN conjunct2, THEN conjunct2, THEN conjunct2, THEN conjunct2, THEN conjunct2, THEN conjunct2, THEN conjunct1] by (simp add: open_after_failed_calls worldLeft_tuple)
  have w8: "8 < worldLeft (terminateCall (thisAfter (getCallDetails (thisAfter (initiateRecordedCall (newPlivoResilient noArguments) (latency 100) (flaky 4 boom firedCall) 0)) (latency 100) (flaky 8 boom ''completed'') 4)) (flaky 8 boom hungUp) 8)"
    using T [THEN conjunct2, THEN conjunct2, THEN conjunct2, THEN conjunct2, THEN conjunct2, THEN conjunct2, THEN conjunct2, THEN conjunct1] by (auto simp: worldAfter_flaky)
  have w9: "8 < worldLeft (waitForRecording (thisAfter (getCallDetails (thisAfter (initiateRecordedCall (newPlivoResilient noArguments) (latency 100) (flaky 4 boom firedCall) 0)) (latency 100) (flaky 8 boom ''completed'') 4)) (flaky 8 boom (Some ''completed'')) 8)"
    using T [THEN conjunct2, THEN conjunct2, THEN conjunct2, THEN conjunct2, THEN conjunct2, THEN conjunct2, THEN conjunct2, THEN conjunct2, THEN conjunct2, THEN conjunct1] by (auto simp: worldAfter_flaky)
  show ?thesis
    by (intro conjI) (fact w1 w2 w3 w4 w5 w6 w7 w8 w9)+
qed

text \<open>
  C9. In every envelope of the seven guarded methods \<^verbatim>\<open>circuitBreakerState\<close> is
  \<^verbatim>\<open>String(breaker.opened)\<close>, read from the breaker as the call leaves it: it is the
  string \<^verbatim>\<open>true\<close> or the string \<^verbatim>\<open>false\<close>, never the name of a state.
\<close>

theorem circuitBreakerState_is_stringified_opened:
  "(\<exists>env. fst (initiateRecordedCall p spent dIni w) = Inr env
         \<and> circuitBreakerState env = Some (jsString (opened (makeCallBreaker (thisAfter (initiateRecordedCall p spent dIni w)))))
         \<and> (circuitBreakerState env = Some ''true'' \<or> circuitBreakerState env = Some ''false'')
         \<and> circuitBreakerState env \<noteq> Some ''closed'' \<and> circuitBreakerState env \<noteq> Some ''open''
         \<and> circuitBreakerState env \<noteq> Some ''half-open'')
   \<and> (\<exists>env. fst (makeCall p spent dMak w) = Inr env
         \<and> circuitBreakerState env = Some (jsString (opened (makeCallBreaker (thisAfter (makeCall p spent dMak w)))))
         \<and> (circuitBreakerState env = Some ''true'' \<or> circuitBreakerState env = Some ''false'')
         \<and> circuitBreakerState env \<noteq> Some ''closed'' \<and> circuitBreakerState env \<noteq> Some ''open''
         \<and> circuitBreakerState env \<noteq> Some ''half-open'')
   \<and> (\<exists>env. fst (getCallDetails p spent dDet w) = Inr env
         \<and> circuitBreakerState env = Some (jsString (opened (getCallDetailsBreaker (thisAfter (getCallDetails p spent dDet w)))))
         \<and> (circuitBreakerState env = Some ''true'' \<or> circuitBreakerState env = Some ''false'')
         \<and> circuitBreakerState env \<noteq> Some ''closed'' \<and> circuitBreakerState env \<noteq> Some ''open''
         \<and> circuitBreakerState env \<noteq> Some ''half-open'')
   \<and> (\<exists>env. fst (transcribeRecording g spent dRec w) = Inr env
         \<and> circuitBreakerState env = Some (jsString (opened (transcribeBreaker (thisAfter (transcribeRecording g spent dRec w)))))
         \<and> (circuitBreakerState env = Some ''true'' \<or> circuitBreakerState env = Some ''false'')
         \<and> circuitBreakerState env \<noteq> Some ''closed'' \<and> circuitBreakerState env \<noteq> Some ''open''
         \<and> circuitBreakerState env \<noteq> Some ''half-open'')
   \<and> (\<exists>env. fst (transcribeUrl g spent dUrl w) = Inr env
         \<and> circuitBreakerState env = Some (jsString (opened (transcribeBreaker (thisAfter (transcribeUrl g spent dUrl w)))))
         \<and> (circuitBreakerState env = Some ''true'' \<or> circuitBreakerState env = Some ''false'')
         \<and> circuitBreakerState env \<noteq> Some ''closed'' \<and> circuitBreakerState env \<noteq> Some ''open''
         \<and> circuitBreakerState env \<noteq> Some ''half-open'')
   \<and> (\<exists>env. fst (transcribeWithInsights g spent dIns w) = Inr env
         \<and> circuitBreakerState env = Some (jsString (opened (transcribeBreaker (thisAfter (transcribeWithInsights g spent dIns w)))))
         \<and> (circuitBreakerState env = Some ''true'' \<or> circuitBreakerState env = Some ''false'')
         \<and> circuitBreakerState env \<noteq> Some ''closed'' \<and> circuitBreakerState env \<noteq> Some ''open''
         \<and> circuitBreakerState env \<noteq> Some ''half-open'')
   \<and> (\<exists>env. fst (transcribeBuffer g spent dBuf w) = Inr env
         \<and> circuitBreakerState env = Some (jsString (opened (transcribeBreaker (thisAfter (transcribeBuffer g spent dBuf w)))))
         \<and> (circuitBreakerState env = Some ''true'' \<or> circuitBreakerState env = Some ''false'')
         \<and> circuitBreakerState env \<noteq> Some ''closed'' \<and> circuitBreakerState env \<noteq> Some ''open''
         \<and> circuitBreakerState env \<noteq> Some ''half-open'')"
proof -
  have c1: "\<exists>env. fst (initiateRecordedCall p spent dIni w) = Inr env
         \<and> circuitBreakerState env = Some (jsString (opened (makeCallBreaker (thisAfter (initiateRecordedCall p spent dIni w)))))
         \<and> (circuitBreakerState env = Some ''true'' \<or> circuitBreakerState env = Some ''false'')
         \<and> circuitBreakerState env \<noteq> Some ''closed'' \<and> circuitBreakerState env \<noteq> Some ''open''
         \<and> circuitBreakerState env \<noteq> Some ''half-open''"
    using initiateRecordedCall_envelope [where p = p and w = w and dIni = dIni and spent = spent] by (auto simp: thisAfter_def jsString_def)
  have c2: "\<exists>env. fst (makeCall p spent dMak w) = Inr env
         \<and> circuitBreakerState env = Some (jsString (opened (makeCallBreaker (thisAfter (makeCall p spent dMak w)))))
         \<and> (circuitBreakerState env = Some ''true'' \<or> circuitBreakerState env = Some ''false'')
         \<and> circuitBreakerState env \<noteq> Some ''closed'' \<and> circuitBreakerState env \<noteq> Some ''open''
         \<and> circuitBreakerState env \<noteq> Some ''half-open''"
    using makeCall_envelope [where p = p and w = w and dMak = dMak and spent = spent] by (auto simp: thisAfter_def jsString_def)
  have c3: "\<exists>env. fst (getCallDetails p spent dDet w) = Inr env
         \<and> circuitBreakerState env = Some (jsString (opened (getCallDetailsBreaker (thisAfter (getCallDetails p spent dDet w)))))
         \<and> (circuitBreakerState env = Some ''true'' \<or> circuitBreakerState env = Some ''false'')
         \<and> circuitBreakerState env \<noteq> Some ''closed'' \<and> circuitBreakerState env \<noteq> Some ''open''
         \<and> circuitBreakerState env \<noteq> Some ''half-open''"
    using getCallDetails_envelope [where p = p and w = w and dDet = dDet and spent = spent] by (auto simp: thisAfter_def jsString_def)
  have c4: "\<exists>env. fst (transcribeRecording g spent dRec w) = Inr env
         \<and> circuitBreakerState env = Some (jsString (opened (transcribeBreaker (thisAfter (transcribeRecording g spent dRec w)))))
         \<and> (circuitBreakerState env = Some ''true'' \<or> circuitBreakerState env = Some ''false'')
         \<and> circuitBreakerState env \<noteq> Some ''closed'' \<and> circuitBreakerState env \<noteq> Some ''open''
         \<and> circuitBreakerState env \<noteq> Some ''half-open''"
    using transcribeRecording_envelope [where g = g and w = w and dRec = dRec and spent = spent] by (auto simp: thisAfter_def jsString_def)
  have c5: "\<exists>env. fst (transcribeUrl g spent dUrl w) = Inr env
         \<and> circuitBreakerState env = Some (jsString (opened (transcribeBreaker (thisAfter (transcribeUrl g spent dUrl w)))))
         \<and> (circuitBreakerState env = Some ''true'' \<or> circuitBreakerState env = Some ''false'')
         \<and> circuitBreakerState env \<noteq> Some ''closed'' \<and> circuitBreakerState env \<noteq> Some ''open''
         \<and> circuitBreakerState env \<noteq> Some ''half-open''"
    using transcribeUrl_envelope [where g = g and w = w and dUrl = dUrl and spent = spent] by (auto simp: thisAfter_def jsString_def)
  have c6: "\<exists>env. fst (transcribeWithInsights g spent dIns w) = Inr env
         \<and> circuitBreakerState env = Some (jsString (opened (transcribeBreaker (thisAfter (transcribeWithInsights g spent dIns w)))))
         \<and> (circuitBreakerState env = Some ''true'' \<or> circuitBreakerState env = Some ''false'')
         \<and> circuitBreakerState env \<noteq> Some ''closed'' \<and> circuitBreakerState env \<noteq> Some ''open''
         \<and> circuitBreakerState env \<noteq> Some ''half-open''"
    using transcribeWithInsights_envelope [where g = g and w = w and dIns = dIns and spent = spent] by (auto simp: thisAfter_def jsString_def)
  have c7: "\<exists>env. fst (transcribeBuffer g spent dBuf w) = Inr env
         \<and> circuitBreakerState env = Some (jsString (opened (transcribeBreaker (thisAfter (transcribeBuffer g spent dBuf w)))))
         \<and> (circuitBreakerState env = Some ''true'' \<or> circuitBreakerState env = Some ''false'')
         \<and> circuitBreakerState env \<noteq> Some ''closed'' \<and> circuitBreakerState env \<noteq> Some ''open''
         \<and> circuitBreakerState env \<noteq> Some ''half-open''"
    using transcribeBuffer_envelope [where g = g and w = w and dBuf = dBuf and spent = spent] by (auto simp: thisAfter_def jsString_def)
  show ?thesis
    by (intro conjI) (fact c1 c2 c3 c4 c5 c6 c7)+
qed

theorem circuitBreakerState_is_stringified_opened_witness:
  "(\<exists>env. fst (initiateRecordedCall (newPlivoResilient noArguments) (latency 100) (flaky 4 boom firedCall) 0) = Inr env \<and> circuitBreakerState env = Some ''true'')
   \<and> (\<exists>env. fst (makeCall (newPlivoResilient noArguments) (latency 100) (flaky 4 boom queuedCall) 0) = Inr env \<and> circuitBreakerState env = Some ''true'')
   \<and> (\<exists>env. fst (getCallDetails (newPlivoResilient noArguments) (latency 100) (flaky 4 boom ''completed'') 0) = Inr env \<and> circuitBreakerState env = Some ''true'')
   \<and> (\<exists>env. fst (transcribeRecording (newDeepgramResilient noArguments) (latency 100) (flaky 4 boom ''hello world'') 0) = Inr env \<and> circuitBreakerState env = Some ''true'')
   \<and> (\<exists>env. fst (transcribeUrl (newDeepgramResilient noArguments) (latency 100) (flaky 4 boom ''hello world'') 0) = Inr env \<and> circuitBreakerState env = Some ''true'')
   \<and> (\<exists>env. fst (transcribeWithInsights (newDeepgramResilient noArguments) (latency 100) (flaky 4 boom ''hello world'') 0) = Inr env \<and> circuitBreakerState env = Some ''true'')
   \<and> (\<exists>env. fst (transcribeBuffer (newDeepgramResilient noArguments) (latency 100) (flaky 4 boom ''hello world'') 0) = Inr env \<and> circuitBreakerState env = Some ''true'')"
proof -
  note T = circuitBreakerState_is_stringified_opened [where p = "newPlivoResilient noArguments" and g = "newDeepgramResilient noArguments" and w = "0::nat" and spent = "latency 100" and dIni = "flaky 4 boom firedCall" and dMak = "flaky 4 boom queuedCall" and dDet = "flaky 4 boom ''completed''" and dRec = "flaky 4 boom ''hello world''" and dUrl = "flaky 4 boom ''hello world''" and dIns = "flaky 4 boom ''hello world''" and dBuf = "flaky 4 boom ''hello world''"]
  have rf1: "rejectsFirst (flaky 4 boom firedCall) (Suc (plivoMaxRetries (newPlivoResilient noArguments))) 0"
    by (rule rejectsFirst_flaky) (simp add: newPlivoResilient_noArguments)
  have nop1: "cbState (makeCallBreaker (newPlivoResilient noArguments)) \<noteq> Open"
    by (simp add: newPlivoResilient_noArguments)
  from initiateRecordedCall_exhausts [where spent = "latency 100", OF nop1 rf1]
  have r1: "opened (makeCallBreaker (thisAfter (initiateRecordedCall (newPlivoResilient noArguments) (latency 100) (flaky 4 boom firedCall) 0)))"
    by (auto simp: thisAfter_tuple opened_def newPlivoResilient_noArguments)
  have a1: "\<exists>env. fst (initiateRecordedCall (newPlivoResilient noArguments) (latency 100) (flaky 4 boom firedCall) 0) = Inr env \<and> circuitBreakerState env = Some ''true''"
    using T [THEN conjunct1] r1 by (auto simp: jsString_def)
  have rf2: "rejectsFirst (flaky 4 boom queuedCall) (Suc (plivoMaxRetries (newPlivoResilient noArguments))) 0"
    by (rule rejectsFirst_flaky) (simp add: newPlivoResilient_noArguments)
  have nop2: "cbState (makeCallBreaker (newPlivoResilient noArguments)) \<noteq> Open"
    by (simp add: newPlivoResilient_noArguments)
  from makeCall_exhausts [where spent = "latency 100", OF nop2 rf2]
  have r2: "opened (makeCallBreaker (thisAfter (makeCall (newPlivoResilient noArguments) (latency 100) (flaky 4 boom queuedCall) 0)))"
    by (auto simp: thisAfter_tuple opened_def newPlivoResilient_noArguments)
  have a2: "\<exists>env. fst (makeCall (newPlivoResilient noArguments) (latency 100) (flaky 4 boom queuedCall) 0) = Inr env \<and> circuitBreakerState env = Some ''true''"
    using T [THEN conjunct2, THEN conjunct1] r2 by (auto simp: jsString_def)
  have rf3: "rejectsFirst (flaky 4 boom ''completed'') (Suc (plivoMaxRetries (newPlivoResilient noArguments))) 0"
    by (rule rejectsFirst_flaky) (simp add: newPlivoResilient_noArguments)
  have nop3: "cbState (getCallDetailsBreaker (newPlivoResilient noArguments)) \<noteq> Open"
    by (simp add: newPlivoResilient_noArguments)
  from getCallDetails_exhausts [where spent = "latency 100", OF nop3 rf3]
  have r3: "opened (getCallDetailsBreaker (thisAfter (getCallDetails (newPlivoResilient noArguments) (latency 100) (flaky 4 boom ''completed'') 0)))"
    by (auto simp: thisAfter_tuple opened_def newPlivoResilient_noArguments)
  have a3: "\<exists>env. fst (getCallDetails (newPlivoResilient noArguments) (latency 100) (flaky 4 boom ''completed'') 0) = Inr env \<and> circuitBreakerState env = Some ''true''"
    using T [THEN conjunct2, THEN conjunct2, THEN conjunct1] r3 by (auto simp: jsString_def)
  have rf4: "rejectsFirst (flaky 4 boom ''hello world'') (Suc (deepgramMaxRetries (newDeepgramResilient noArguments))) 0"
    by (rule rejectsFirst_flaky) (simp add: newDeepgramResilient_noArguments)
  have nop4: "cbState (transcribeBreaker (newDeepgramResilient noArguments)) \<noteq> Open"
    by (simp add: newDeepgramResilient_noArguments)
  from transcribeRecording_exhausts [where spent = "latency 100", OF nop4 rf4]
  have r4: "opened (transcribeBreaker (thisAfter (transcribeRecording (newDeepgramResilient noArguments) (latency 100) (flaky 4 boom ''hello world'') 0)))"
    by (auto simp: thisAfter_tuple opened_def newDeepgramResilient_noArguments)
  have a4: "\<exists>env. fst (transcribeRecording (newDeepgramResilient noArguments) (latency 100) (flaky 4 boom ''hello world'') 0) = Inr env \<and> circuitBreakerState env = Some ''true''"
    using T [THEN conjunct2, THEN conjunct2, THEN conjunct2, THEN conjunct1] r4 by (auto simp: jsString_def)
  have rf5: "rejectsFirst (flaky 4 boom ''hello world'') (Suc (deepgramMaxRetries (newDeepgramResilient noArguments))) 0"
    by (rule rejectsFirst_flaky) (simp add: newDeepgramResilient_noArguments)
  have nop5: "cbState (transcribeBreaker (newDeepgramResilient noArguments)) \<noteq> Open"
    by (simp add: newDeepgramResilient_noArguments)
  from transcribeUrl_exhausts [where spent = "latency 100", OF nop5 rf5]
  have r5: "opened (transcribeBreaker (thisAfter (transcribeUrl (newDeepgramResilient noArguments) (latency 100) (flaky 4 boom ''hello world'') 0)))"
    by (auto simp: thisAfter_tuple opened_def newDeepgramResilient_noArguments)
  have a5: "\<exists>env. fst (transcribeUrl (newDeepgramResilient noArguments) (latency 100) (flaky 4 boom ''hello world'') 0) = Inr env \<and> circuitBreakerState env = Some ''true''"
    using T [THEN conjunct2, THEN conjunct2, THEN conjunct2, THEN conjunct2, THEN conjunct1] r5 by (auto simp: jsString_def)
  have rf6: "rejectsFirst (flaky 4 boom ''hello world'') (Suc (deepgramMaxRetries (newDeepgramResilient noArguments))) 0"
    by (rule rejectsFirst_flaky) (simp add: newDeepgramResilient_noArguments)
  have nop6: "cbState (transcribeBreaker (newDeepgramResilient noArguments)) \<noteq> Open"
    by (simp add: newDeepgramResilient_noArguments)
  from transcribeWithInsights_exhausts [where spent = "latency 100", OF nop6 rf6]
  have r6: "opened (transcribeBreaker (thisAfter (transcribeWithInsights (newDeepgramResilient noArguments) (latency 100) (flaky 4 boom ''hello world'') 0)))"
    by (auto simp: thisAfter_tuple opened_def newDeepgramResilient_noArguments)
  have a6: "\<exists>env. fst (transcribeWithInsights (newDeepgramResilient noArguments) (latency 100) (flaky 4 boom ''hello world'') 0) = Inr env \<and> circuitBreakerState env = Some ''true''"
    using T [THEN conjunct2, THEN conjunct2, THEN conjunct2, THEN conjunct2, THEN conjunct2, THEN conjunct1] r6 by (auto simp: jsString_def)
  have rf7: "rejectsFirst (flaky 4 boom ''hello world'') (Suc (deepgramMaxRetries (newDeepgramResilient noArguments))) 0"
    by (rule rejectsFirst_flaky) (simp add: newDeepgramResilient_noArguments)
  have nop7: "cbState (transcribeBreaker (newDeepgramResilient noArguments)) \<noteq> Open"
    by (simp add: newDeepgramResilient_noArguments)
  from transcribeBuffer_exhausts [where spent = "latency 100", OF nop7 rf7]
  have r7: "opened (transcribeBreaker (thisAfter (transcribeBuffer (newDeepgramResilient noArguments) (latency 100) (flaky 4 boom ''hello world'') 0)))"
    by (auto simp: thisAfter_tuple opened_def newDeepgramResilient_noArguments)
  have a7: "\<exists>env. fst (transcribeBuffer (newDeepgramResilient noArguments) (latency 100) (flaky 4 boom ''hello world'') 0) = Inr env \<and> circuitBreakerState env = Some ''true''"
    using T [THEN conjunct2, THEN conjunct2, THEN conjunct2, THEN conjunct2, THEN conjunct2, THEN conjunct2] r7 by (auto simp: jsString_def)
  show ?thesis
    by (intro conjI) (fact a1 a2 a3 a4 a5 a6 a7)+
qed

text \<open>
  C10. A failure envelope of any of the eight methods has no \<^verbatim>\<open>retryCount\<close>, also when
  attempts were made: the counter is a local variable of the \<^verbatim>\<open>try\<close> block and the
  \<^verbatim>\<open>catch\<close> block does not return it.
\<close>

theorem failure_envelope_without_retryCount:
  "(\<forall>env. fst (initiateRecordedCall p spent dIni w) = Inr env \<longrightarrow> \<not> success env \<longrightarrow> retryCount env = None)
   \<and> (\<forall>env. fst (makeCall p spent dMak w) = Inr env \<longrightarrow> \<not> success env \<longrightarrow> retryCount env = None)
   \<and> (\<forall>env. fst (getCallDetails p spent dDet w) = Inr env \<longrightarrow> \<not> success env \<longrightarrow> retryCount env = None)
   \<and> (\<forall>env. fst (terminateCall p dTer w) = Inr env \<longrightarrow> \<not> success env \<longrightarrow> retryCount env = None)
   \<and> (\<forall>env. fst (transcribeRecording g spent dRec w) = Inr env \<longrightarrow> \<not> success env \<longrightarrow> retryCount env = None)
   \<and> (\<forall>env. fst (transcribeUrl g spent dUrl w) = Inr env \<longrightarrow> \<not> success env \<longrightarrow> retryCount env = None)
   \<and> (\<forall>env. fst (transcribeWithInsights g spent dIns w) = Inr env \<longrightarrow> \<not> success env \<longrightarrow> retryCount env = None)
   \<and> (\<forall>env. fst (transcribeBuffer g spent dBuf w) = Inr env \<longrightarrow> \<not> success env \<longrightarrow> retryCount env = None)"
proof -
  have c1: "\<forall>env. fst (initiateRecordedCall p spent dIni w) = Inr env \<longrightarrow> \<not> success env \<longrightarrow> retryCount env = None"
    using initiateRecordedCall_envelope [where p = p and w = w and dIni = dIni and spent = spent] by auto
  have c2: "\<forall>env. fst (makeCall p spent dMak w) = Inr env \<longrightarrow> \<not> success env \<longrightarrow> retryCount env = None"
    using makeCall_envelope [where p = p and w = w and dMak = dMak and spent = spent] by auto
  have c3: "\<forall>env. fst (getCallDetails p spent dDet w) = Inr env \<longrightarrow> \<not> success env \<longrightarrow> retryCount env = None"
    using getCallDetails_envelope [where p = p and w = w and dDet = dDet and spent = spent] by auto
  have c4: "\<forall>env. fst (terminateCall p dTer w) = Inr env \<longrightarrow> \<not> success env \<longrightarrow> retryCount env = None"
    using terminateCall_envelope [where p = p and w = w and dTer = dTer] by auto
  have c5: "\<forall>env. fst (transcribeRecording g spent dRec w) = Inr env \<longrightarrow> \<not> success env \<longrightarrow> retryCount env = None"
    using transcribeRecording_envelope [where g = g and w = w and dRec = dRec and spent = spent] by auto
  have c6: "\<forall>env. fst (transcribeUrl g spent dUrl w) = Inr env \<longrightarrow> \<not> success env \<longrightarrow> retryCount env = None"
    using transcribeUrl_envelope [where g = g and w = w and dUrl = dUrl and spent = spent] by auto
  have c7: "\<forall>env. fst (transcribeWithInsights g spent dIns w) = Inr env \<longrightarrow> \<not> success env \<longrightarrow> retryCount env = None"
    using transcribeWithInsights_envelope [where g = g and w = w and dIns = dIns and spent = spent] by auto
  have c8: "\<forall>env. fst (transcribeBuffer g spent dBuf w) = Inr env \<longrightarrow> \<not> success env \<longrightarrow> retryCount env = None"
    using transcribeBuffer_envelope [where g = g and w = w and dBuf = dBuf and spent = spent] by auto
  show ?thesis
    by (intro conjI) (fact c1 c2 c3 c4 c5 c6 c7 c8)+
qed

theorem failure_envelope_without_retryCount_witness:
  "(\<exists>env. fst (initiateRecordedCall (newPlivoResilient noArguments) (latency 100) (flaky 4 boom firedCall) 0) = Inr env \<and> \<not> success env \<and> retryCount env = None)
   \<and> worldLeft (initiateRecordedCall (newPlivoResilient noArguments) (latency 100) (flaky 4 boom firedCall) 0) = 4
   \<and> (\<exists>env. fst (makeCall (newPlivoResilient noArguments) (latency 100) (flaky 4 boom queuedCall) 0) = Inr env \<and> \<not> success env \<and> retryCount env = None)
   \<and> worldLeft (makeCall (newPlivoResilient noArguments) (latency 100) (flaky 4 boom queuedCall) 0) = 4
   \<and> (\<exists>env. fst (getCallDetails (newPlivoResilient noArguments) (latency 100) (flaky 4 boom ''completed'') 0) = Inr env \<and> \<not> success env \<and> retryCount env = None)
   \<and> worldLeft (getCallDetails (newPlivoResilient noArguments) (latency 100) (flaky 4 boom ''completed'') 0) = 4
   \<and> (\<exists>env. fst (terminateCall (newPlivoResilient noArguments) (flaky 4 boom hungUp) 0) = Inr env \<and> \<not> success env \<and> retryCount env = None)
   \<and> worldLeft (terminateCall (newPlivoResilient noArguments) (flaky 4 boom hungUp) 0) = 4
   \<and> (\<exists>env. fst (transcribeRecording (newDeepgramResilient noArguments) (latency 100) (flaky 4 boom ''hello world'') 0) = Inr env \<and> \<not> success env \<and> retryCount env = None)
   \<and> worldLeft (transcribeRecording (newDeepgramResilient noArguments) (latency 100) (flaky 4 boom ''hello world'') 0) = 4
   \<and> (\<exists>env. fst (transcribeUrl (newDeepgramResilient noArguments) (latency 100) (flaky 4 boom ''hello world'') 0) = Inr env \<and> \<not> success env \<and> retryCount env = None)
   \<and> worldLeft (transcribeUrl (newDeepgramResilient noArguments) (latency 100) (flaky 4 boom ''hello world'') 0) = 4
   \<and> (\<exists>env. fst (transcribeWithInsights (newDeepgramResilient noArguments) (latency 100) (flaky 4 boom ''hello world'') 0) = Inr env \<and> \<not> success env \<and> retryCount env = None)
   \<and> worldLeft (transcribeWithInsights (newDeepgramResilient noArguments) (latency 100) (flaky 4 boom ''hello world'') 0) = 4
   \<and> (\<exists>env. fst (transcribeBuffer (newDeepgramResilient noArguments) (latency 100) (flaky 4 boom ''hello world'') 0) = Inr env \<and> \<not> success env \<and> retryCount env = None)
   \<and> worldLeft (transcribeBuffer (newDeepgramResilient noArguments) (latency 100) (flaky 4 boom ''hello world'') 0) = 4"
proof -
  note T = failure_envelope_without_retryCount [where p = "newPlivoResilient noArguments" and g = "newDeepgramResilient noArguments" and w = "0::nat" and spent = "latency 100" and dIni = "flaky 4 boom firedCall" and dMak = "flaky 4 boom queuedCall" and dDet = "flaky 4 boom ''completed''" and dTer = "flaky 4 boom hungUp" and dRec = "flaky 4 boom ''hello world''" and dUrl = "flaky 4 boom ''hello world''" and dIns = "flaky 4 boom ''hello world''" and dBuf = "flaky 4 boom ''hello world''"]
  have rf1: "rejectsFirst (flaky 4 boom firedCall) (Suc (plivoMaxRetries (newPlivoResilient noArguments))) 0"
    by (rule rejectsFirst_flaky) (simp add: newPlivoResilient_noArguments)
  have nop1: "cbState (makeCallBreaker (newPlivoResilient noArguments)) \<noteq> Open"
    by (simp add: newPlivoResilient_noArguments)
  from initiateRecordedCall_exhausts [where spent = "latency 100", OF nop1 rf1]
  have r1: "(\<exists>env. fst (initiateRecordedCall (newPlivoResilient noArguments) (latency 100) (flaky 4 boom firedCall) 0) = Inr env \<and> \<not> success env) \<and> worldLeft (initiateRecordedCall (newPlivoResilient noArguments) (latency 100) (flaky 4 boom firedCall) 0) = 4"
    by (auto simp: worldLeft_tuple worldAfter_flaky newPlivoResilient_noArguments)
  have a1: "\<exists>env. fst (initiateRecordedCall (newPlivoResilient noArguments) (latency 100) (flaky 4 boom firedCall) 0) = Inr env \<and> \<not> success env \<and> retryCount env = None"
    using T [THEN conjunct1] r1 by auto
  have b1: "worldLeft (initiateRecordedCall (newPlivoResilient noArguments) (latency 100) (flaky 4 boom firedCall) 0) = 4"
    using r1 by simp
  have rf2: "rejectsFirst (flaky 4 boom queuedCall) (Suc (plivoMaxRetries (newPlivoResilient noArguments))) 0"
    by (rule rejectsFirst_flaky) (simp add: newPlivoResilient_noArguments)
  have nop2: "cbState (makeCallBreaker (newPlivoResilient noArguments)) \<noteq> Open"
    by (simp add: newPlivoResilient_noArguments)
  from makeCall_exhausts [where spent = "latency 100", OF nop2 rf2]
  have r2: "(\<exists>env. fst (makeCall (newPlivoResilient noArguments) (latency 100) (flaky 4 boom queuedCall) 0) = Inr env \<and> \<not> success env) \<and> worldLeft (makeCall (newPlivoResilient noArguments) (latency 100) (flaky 4 boom queuedCall) 0) = 4"
    by (auto simp: worldLeft_tuple worldAfter_flaky newPlivoResilient_noArguments)
  have a2: "\<exists>env. fst (makeCall (newPlivoResilient noArguments) (latency 100) (flaky 4 boom queuedCall) 0) = Inr env \<and> \<not> success env \<and> retryCount env = None"
    using T [THEN conjunct2, THEN conjunct1] r2 by auto
  have b2: "worldLeft (makeCall (newPlivoResilient noArguments) (latency 100) (flaky 4 boom queuedCall) 0) = 4"
    using r2 by simp
  have rf3: "rejectsFirst (flaky 4 boom ''completed'') (Suc (plivoMaxRetries (newPlivoResilient noArguments))) 0"
    by (rule rejectsFirst_flaky) (simp add: newPlivoResilient_noArguments)
  have nop3: "cbState (getCallDetailsBreaker (newPlivoResilient noArguments)) \<noteq> Open"
    by (simp add: newPlivoResilient_noArguments)
  from getCallDetails_exhausts [where spent = "latency 100", OF nop3 rf3]
  have r3: "(\<exists>env. fst (getCallDetails (newPlivoResilient noArguments) (latency 100) (flaky 4 boom ''completed'') 0) = Inr env \<and> \<not> success env) \<and> worldLeft (getCallDetails (newPlivoResilient noArguments) (latency 100) (flaky 4 boom ''completed'') 0) = 4"
    by (auto simp: worldLeft_tuple worldAfter_flaky newPlivoResilient_noArguments)
  have a3: "\<exists>env. fst (getCallDetails (newPlivoResilient noArguments) (latency 100) (flaky 4 boom ''completed'') 0) = Inr env \<and> \<not> success env \<and> retryCount env = None"
    using T [THEN conjunct2, THEN conjunct2, THEN conjunct1] r3 by auto
  have b3: "worldLeft (getCallDetails (newPlivoResilient noArguments) (latency 100) (flaky 4 boom ''completed'') 0) = 4"
    using r3 by simp
  have rf4: "rejectsFirst (flaky 4 boom hungUp) (Suc (plivoMaxRetries (newPlivoResilient noArguments))) 0"
    by (rule rejectsFirst_flaky) (simp add: newPlivoResilient_noArguments)
  from terminateCall_exhausts [OF rf4]
  have r4: "(\<exists>env. fst (terminateCall (newPlivoResilient noArguments) (flaky 4 boom hungUp) 0) = Inr env \<and> \<not> success env) \<and> worldLeft (terminateCall (newPlivoResilient noArguments) (flaky 4 boom hungUp) 0) = 4"
    by (auto simp: worldLeft_tuple worldAfter_flaky newPlivoResilient_noArguments)
  have a4: "\<exists>env. fst (terminateCall (newPlivoResilient noArguments) (flaky 4 boom hungUp) 0) = Inr env \<and> \<not> success env \<and> retryCount env = None"
    using T [THEN conjunct2, THEN conjunct2, THEN conjunct2, THEN conjunct1] r4 by auto
  have b4: "worldLeft (terminateCall (newPlivoResilient noArguments) (flaky 4 boom hungUp) 0) = 4"
    using r4 by simp
  have rf5: "rejectsFirst (flaky 4 boom ''hello world'') (Suc (deepgramMaxRetries (newDeepgramResilient noArguments))) 0"
    by (rule rejectsFirst_flaky) (simp add: newDeepgramResilient_noArguments)
  have nop5: "cbState (transcribeBreaker (newDeepgramResilient noArguments)) \<noteq> Open"
    by (simp add: newDeepgramResilient_noArguments)
  from transcribeRecording_exhausts [where spent = "latency 100", OF nop5 rf5]
  have r5: "(\<exists>env. fst (transcribeRecording (newDeepgramResilient noArguments) (latency 100) (flaky 4 boom ''hello world'') 0) = Inr env \<and> \<not> success env) \<and> worldLeft (transcribeRecording (newDeepgramResilient noArguments) (latency 100) (flaky 4 boom ''hello world'') 0) = 4"
    by (auto simp: worldLeft_tuple worldAfter_flaky newDeepgramResilient_noArguments)
  have a5: "\<exists>env. fst (transcribeRecording (newDeepgramResilient noArguments) (latency 100) (flaky 4 boom ''hello world'') 0) = Inr env \<and> \<not> success env \<and> retryCount env = None"
    using T [THEN conjunct2, THEN conjunct2, THEN conjunct2, THEN conjunct2, THEN conjunct1] r5 by auto
  have b5: "worldLeft (transcribeRecording (newDeepgramResilient noArguments) (latency 100) (flaky 4 boom ''hello world'') 0) = 4"
    using r5 by simp
  have rf6: "rejectsFirst (flaky 4 boom ''hello world'') (Suc (deepgramMaxRetries (newDeepgramResilient noArguments))) 0"
    by (rule rejectsFirst_flaky) (simp add: newDeepgramResilient_noArguments)
  have nop6: "cbState (transcribeBreaker (newDeepgramResilient noArguments)) \<noteq> Open"
    by (simp add: newDeepgramResilient_noArguments)
  from transcribeUrl_exhausts [where spent = "latency 100", OF nop6 rf6]
  have r6: "(\<exists>env. fst (transcribeUrl (newDeepgramResilient noArguments) (latency 100) (flaky 4 boom ''hello world'') 0) = Inr env \<and> \<not> success env) \<and> worldLeft (transcribeUrl (newDeepgramResilient noArguments) (latency 100) (flaky 4 boom ''hello world'') 0) = 4"
    by (auto simp: worldLeft_tuple worldAfter_flaky newDeepgramResilient_noArguments)
  have a6: "\<exists>env. fst (transcribeUrl (newDeepgramResilient noArguments) (latency 100) (flaky 4 boom ''hello world'') 0) = Inr env \<and> \<not> success env \<and> retryCount env = None"
    using T [THEN conjunct2, THEN conjunct2, THEN conjunct2, THEN conjunct2, THEN conjunct2, THEN conjunct1] r6 by auto
  have b6: "worldLeft (transcribeUrl (newDeepgramResilient noArguments) (latency 100) (flaky 4 boom ''hello world'') 0) = 4"
    using r6 by simp
  have rf7: "rejectsFirst (flaky 4 boom ''hello world'') (Suc (deepgramMaxRetries (newDeepgramResilient noArguments))) 0"
    by (rule rejectsFirst_flaky) (simp add: newDeepgramResilient_noArguments)
  have nop7: "cbState (transcribeBreaker (newDeepgramResilient noArguments)) \<noteq> Open"
    by (simp add: newDeepgramResilient_noArguments)
  from transcribeWithInsights_exhausts [where spent = "latency 100", OF nop7 rf7]
  have r7: "(\<exists>env. fst (transcribeWithInsights (newDeepgramResilient noArguments) (latency 100) (flaky 4 boom ''hello world'') 0) = Inr env \<and> \<not> success env) \<and> worldLeft (transcribeWithInsights (newDeepgramResilient noArguments) (latency 100) (flaky 4 boom ''hello world'') 0) = 4"
    by (auto simp: worldLeft_tuple worldAfter_flaky newDeepgramResilient_noArguments)
  have a7: "\<exists>env. fst (transcribeWithInsights (newDeepgramResilient noArguments) (latency 100) (flaky 4 boom ''hello world'') 0) = Inr env \<and> \<not> success env \<and> retryCount env = None"
    using T [THEN conjunct2, THEN conjunct2, THEN conjunct2, THEN conjunct2, THEN conjunct2, THEN conjunct2, THEN conjunct1] r7 by auto
  have b7: "worldLeft (transcribeWithInsights (newDeepgramResilient noArguments) (latency 100) (flaky 4 boom ''hello world'') 0) = 4"
    using r7 by simp
  have rf8: "rejectsFirst (flaky 4 boom ''hello world'') (Suc (deepgramMaxRetries (newDeepgramResilient noArguments))) 0"
    by (rule rejectsFirst_flaky) (simp add: newDeepgramResilient_noArguments)
  have nop8: "cbState (transcribeBreaker (newDeepgramResilient noArguments)) \<noteq> Open"
    by (simp add: newDeepgramResilient_noArguments)
  from transcribeBuffer_exhausts [where spent = "latency 100", OF nop8 rf8]
  have r8: "(\<exists>env. fst (transcribeBuffer (newDeepgramResilient noArguments) (latency 100) (flaky 4 boom ''hello world'') 0) = Inr env \<and> \<not> success env) \<and> worldLeft (transcribeBuffer (newDeepgramResilient noArguments) (latency 100) (flaky 4 boom ''hello world'') 0) = 4"
    by (auto simp: worldLeft_tuple worldAfter_flaky newDeepgramResilient_noArguments)
  have a8: "\<exists>env. fst (transcribeBuffer (newDeepgramResilient noArguments) (latency 100) (flaky 4 boom ''hello world'') 0) = Inr env \<and> \<not> success env \<and> retryCount env = None"
    using T [THEN conjunct2, THEN conjunct2, THEN conjunct2, THEN conjunct2, THEN conjunct2, THEN conjunct2, THEN conjunct2] r8 by auto
  have b8: "worldLeft (transcribeBuffer (newDeepgramResilient noArguments) (latency 100) (flaky 4 boom ''hello world'') 0) = 4"
    using r8 by simp
  show ?thesis
    by (intro conjI) (fact a1 b1 a2 b2 a3 b3 a4 b4 a5 b5 a6 b6 a7 b7 a8 b8)+
qed

end
